theory Spec2Isabelle
  imports Complex_Main "HOL-Library.Word"
begin

chapter \<open>informix_fdw: caches, option validation, scan iteration, conversion, pushdown\<close>

text \<open>
  A shallow embedding of the three C files of the Informix foreign-data wrapper:
  \<^verbatim>\<open>ifx_conncache.c\<close> (connection cache and foreign-table cache),
  \<^verbatim>\<open>ifx_fdw.c\<close> (option validation, identifier generation, row iteration) and
  \<^verbatim>\<open>ifx_conv.c\<close> (value conversion and predicate pushdown analysis).

  Conventions.
  \<^item> A C string is a \<open>string\<close>; a nullable \<^verbatim>\<open>char *\<close> is a \<open>string option\<close>
    (\<open>None\<close> is \<^verbatim>\<open>NULL\<close>).
  \<^item> \<^verbatim>\<open>ereport(ERROR, ...)\<close> and \<^verbatim>\<open>elog(ERROR, ...)\<close> leave the function by a
    non-local jump; a function that can raise returns \<open>pg_error + 'a\<close> with \<open>Inl\<close> for the
    raised error.
  \<^item> What C leaves undefined (reading through \<^verbatim>\<open>NULL\<close> or through a pointer that was
    never assigned, indexing outside an array, writing into a string literal) is the error
    \<open>Crash\<close>.
  \<^item> A C \<^verbatim>\<open>int\<close> on which the code does arithmetic is a \<open>32 word\<close>, read as a signed
    number by \<open>sint\<close>: PostgreSQL and the extensions built with its flags are compiled
    with \<^verbatim>\<open>-fwrapv\<close> where the compiler knows it, so \<^verbatim>\<open>INT_MAX + 1\<close> is \<^verbatim>\<open>INT_MIN\<close>.
  \<^item> The declaring headers (\<^verbatim>\<open>ifx_fdw.h\<close>, \<^verbatim>\<open>ifx_conncache.h\<close>) are not among the
    sources: struct fields are the ones the code reads and writes, and constants of the
    headers are parameters.
\<close>

section \<open>Errors\<close>

datatype crash_kind = NullPointerDeref | UninitPointerDeref | IndexOutOfBounds | WriteToLiteral

datatype fmt_arg = ArgStr string | ArgNum int

text \<open>
  A raised error keeps the format string of the source verbatim, with the values of its
  arguments beside it: \<open>Elog fmt args\<close> is \<^verbatim>\<open>elog(ERROR, fmt, args...)\<close>, and
  \<open>Ereport code fmt args hint\<close> is
  \<^verbatim>\<open>ereport(ERROR, (errcode(code), errmsg(fmt, args...), errhint(hint)))\<close>.
\<close>

datatype pg_error =
    Ereport string string "fmt_arg list" "string option"
  | Elog string "fmt_arg list"
  | Crash crash_kind

definition ebind :: "pg_error + 'a \<Rightarrow> ('a \<Rightarrow> pg_error + 'b) \<Rightarrow> pg_error + 'b" where
  \<comment> \<open>sequencing: a raised error skips the rest\<close>
  "ebind m f = (case m of Inl e \<Rightarrow> Inl e | Inr x \<Rightarrow> f x)"

text \<open>
  A C pointer held in an array slot: \<^verbatim>\<open>NULL\<close>, a slot of a fresh \<^verbatim>\<open>palloc\<close> that
  was never assigned, or a pointer to an object.
\<close>

datatype 'a ptr = NULL_ptr | Uninit_ptr | Ptr 'a

definition deref :: "'a ptr \<Rightarrow> pg_error + 'a" where
  "deref p = (case p of NULL_ptr \<Rightarrow> Inl (Crash NullPointerDeref)
                      | Uninit_ptr \<Rightarrow> Inl (Crash UninitPointerDeref)
                      | Ptr x \<Rightarrow> Inr x)"

definition array_get :: "'a list \<Rightarrow> int \<Rightarrow> pg_error + 'a" where
  \<comment> \<open>\<^verbatim>\<open>a[i]\<close> read from an array of \<open>length a\<close> elements\<close>
  "array_get a i =
     (if 0 \<le> i \<and> i < int (length a) then Inr (a ! nat i) else Inl (Crash IndexOutOfBounds))"

definition array_set :: "'a list \<Rightarrow> int \<Rightarrow> 'a \<Rightarrow> pg_error + 'a list" where
  \<comment> \<open>\<^verbatim>\<open>a[i] = v\<close>\<close>
  "array_set a i v =
     (if 0 \<le> i \<and> i < int (length a) then Inr (a[nat i := v]) else Inl (Crash IndexOutOfBounds))"

type_synonym Oid = nat

section \<open>C strings and character buffers\<close>

definition NUL :: char where
  "NUL = CHR 0x00"

definition c_str :: "char list \<Rightarrow> string" where
  \<comment> \<open>the C string a buffer holds: its bytes up to the first NUL\<close>
  "c_str buf = takeWhile (\<lambda>c. c \<noteq> NUL) buf"

definition palloc_chars :: "nat \<Rightarrow> char list" where
  \<comment> \<open>a fresh buffer of \<open>n\<close> bytes; its bytes mean nothing until they are written\<close>
  "palloc_chars n = replicate n (CHR 0x7F)"

definition bzero :: "char list \<Rightarrow> nat \<Rightarrow> char list" where
  \<comment> \<open>\<^verbatim>\<open>bzero(buf, n)\<close> with \<open>n \<le> length buf\<close>\<close>
  "bzero buf n = replicate n NUL @ drop n buf"

definition strncpy :: "char list \<Rightarrow> string \<Rightarrow> nat \<Rightarrow> char list" where
  \<comment> \<open>\<^verbatim>\<open>strncpy(dst, src, n)\<close> with \<open>n \<le> length dst\<close>: exactly \<open>n\<close> bytes are written, the
      bytes of \<open>src\<close> first, NUL padding after them when \<open>src\<close> is shorter\<close>
  "strncpy dst src n = take n (src @ replicate n NUL) @ drop n dst"

definition StrNCpy :: "char list \<Rightarrow> string \<Rightarrow> nat \<Rightarrow> char list" where
  \<comment> \<open>PostgreSQL's macro of \<^verbatim>\<open>c.h\<close>:
      \<^verbatim>\<open>if (len > 0) { strncpy(dst, src, len); dst[len-1] = '\0'; }\<close>\<close>
  "StrNCpy dst src len =
     (if len > 0 then (strncpy dst src len)[len - 1 := NUL] else dst)"

section \<open>The caches of \<^verbatim>\<open>ifx_conncache.c\<close>\<close>

datatype IfxForeignScanMode =
    IFX_PLAN_SCAN
  | IFX_OTHER_SCAN_MODE nat   \<comment> \<open>every other enumerator of the header\<close>

record IfxPlanData =
  estimated_rows :: real
  connection_costs :: real

text \<open>
  The caller's connection description. \<^verbatim>\<open>conname\<close> is a character array of
  \<^verbatim>\<open>IFX_CONNAME_LEN + 1\<close> bytes inside the struct (it is cleared with
  \<^verbatim>\<open>bzero(coninfo->conname, IFX_CONNAME_LEN + 1)\<close>), so a connection name has at most
  \<^verbatim>\<open>IFX_CONNAME_LEN\<close> characters; the names \<^verbatim>\<open>ifxMakeConnectionInfo\<close> writes with
  \<^verbatim>\<open>StrNCpy(coninfo->conname, buf->data, IFX_CONNAME_LEN)\<close> have fewer. The other
  strings are pointers, \<^verbatim>\<open>NULL\<close> when the option was not given.
\<close>

record IfxConnectionInfo =
  conname :: string
  servername :: "string option"
  informixdir :: "string option"
  username :: "string option"
  database :: "string option"
  password :: "string option"
  tablename :: "string option"
  query :: "string option"
  db_locale :: "string option"
  client_locale :: "string option"
  tx_enabled :: int
  db_ansi :: int
  scan_mode :: IfxForeignScanMode
  planData :: IfxPlanData

text \<open>
  The member \<^verbatim>\<open>con\<close> of a cached connection. The usage counter and the three
  transaction counters are C \<^verbatim>\<open>int\<close>s: \<^verbatim>\<open>item->con.usage++\<close> at \<^verbatim>\<open>INT_MAX\<close> gives
  \<^verbatim>\<open>INT_MIN\<close>. The two flags are only copied.
\<close>

record IfxPGCachedConnection =
  con_servername :: string
  con_informixdir :: string
  con_username :: string
  con_database :: string
  con_db_locale :: "string option"
  con_client_locale :: "string option"
  con_tx_enabled :: int
  con_db_ansi :: int
  con_tx_in_progress :: "32 word"
  con_tx_num_commit :: "32 word"
  con_tx_num_rollback :: "32 word"
  con_usage :: "32 word"

record IfxCachedConnection =
  ifx_key :: string            \<comment> \<open>the key bytes the hash table copied into the entry\<close>
  establishedByOid :: Oid
  con :: IfxPGCachedConnection

record IfxFTCacheItem =
  foreignTableOid :: Oid
  ifx_connection_name :: "char list"   \<comment> \<open>a buffer of \<^verbatim>\<open>IFX_CONNAME_LEN\<close> bytes\<close>

text \<open>
  \<^verbatim>\<open>ifxCache\<close>: the two hash tables, and the strings \<^verbatim>\<open>pstrdup\<close> has copied into
  \<^verbatim>\<open>TopMemoryContext\<close> (in allocation order). The connection table is created with
  \<^verbatim>\<open>HASH_ELEM\<close> only, so dynahash treats its keys as strings of \<^verbatim>\<open>keysize\<close> bytes:
  it hashes, compares and copies at most \<^verbatim>\<open>keysize - 1\<close> characters. The table of
  foreign tables is keyed by the Oid itself.
\<close>

record InformixCache =
  connections :: "string \<rightharpoonup> IfxCachedConnection"
  tables :: "Oid \<rightharpoonup> IfxFTCacheItem"
  top_context :: "string list"

definition conn_key :: "nat \<Rightarrow> string \<Rightarrow> string" where
  \<comment> \<open>the part of a connection name dynahash uses; the first argument is \<^verbatim>\<open>IFX_CONNAME_LEN\<close>\<close>
  "conn_key IFX_CONNAME_LEN name = take (IFX_CONNAME_LEN - 1) name"

definition pstrdup :: "string option \<Rightarrow> InformixCache \<Rightarrow> pg_error + (string \<times> InformixCache)" where
  \<comment> \<open>\<^verbatim>\<open>pstrdup\<close> while \<^verbatim>\<open>TopMemoryContext\<close> is current; it reads through its argument\<close>
  "pstrdup p cache =
     (case p of
        None \<Rightarrow> Inl (Crash NullPointerDeref)
      | Some s \<Rightarrow> Inr (s, cache\<lparr>top_context := top_context cache @ [s]\<rparr>))"

definition pstrdup_nullable ::
  "string option \<Rightarrow> InformixCache \<Rightarrow> string option \<times> InformixCache" where
  \<comment> \<open>\<^verbatim>\<open>if (p != NULL) x = pstrdup(p); else x = NULL;\<close>\<close>
  "pstrdup_nullable p cache =
     (case p of
        None \<Rightarrow> (None, cache)
      | Some s \<Rightarrow> (Some s, cache\<lparr>top_context := top_context cache @ [s]\<rparr>))"

definition ifxConnCache_add ::
  "nat \<Rightarrow> InformixCache \<Rightarrow> Oid \<Rightarrow> IfxConnectionInfo
     \<Rightarrow> pg_error + (IfxCachedConnection \<times> bool \<times> InformixCache)" where
  \<comment> \<open>returns the entry, \<^verbatim>\<open>*found\<close> and the cache afterwards\<close>
  "ifxConnCache_add IFX_CONNAME_LEN cache foreignTableOid0 coninfo =
     (let key = conn_key IFX_CONNAME_LEN (conname coninfo) in
      case connections cache key of
        None \<Rightarrow>
          (case pstrdup (servername coninfo) cache of Inl e \<Rightarrow> Inl e | Inr (sv, c1) \<Rightarrow>
           case pstrdup (informixdir coninfo) c1 of Inl e \<Rightarrow> Inl e | Inr (dir, c2) \<Rightarrow>
           case pstrdup (username coninfo) c2 of Inl e \<Rightarrow> Inl e | Inr (us, c3) \<Rightarrow>
           case pstrdup (database coninfo) c3 of Inl e \<Rightarrow> Inl e | Inr (db, c4) \<Rightarrow>
           (let (dbl, c5) = pstrdup_nullable (db_locale coninfo) c4;
                (cll, c6) = pstrdup_nullable (client_locale coninfo) c5;
                item = \<lparr> ifx_key = key,
                         establishedByOid = foreignTableOid0,
                         con = \<lparr> con_servername = sv,
                                 con_informixdir = dir,
                                 con_username = us,
                                 con_database = db,
                                 con_db_locale = dbl,
                                 con_client_locale = cll,
                                 con_tx_enabled = tx_enabled coninfo,
                                 con_db_ansi = db_ansi coninfo,
                                 con_tx_in_progress = 0,
                                 con_tx_num_commit = 0,
                                 con_tx_num_rollback = 0,
                                 con_usage = 1 \<rparr> \<rparr>
            in Inr (item, False, c6\<lparr>connections := (connections c6)(key \<mapsto> item)\<rparr>)))
      | Some item \<Rightarrow>
          (let item' = (if scan_mode coninfo = IFX_PLAN_SCAN
                        then item\<lparr>con := (con item)\<lparr>con_usage := con_usage (con item) + 1\<rparr>\<rparr>
                        else item)
           in Inr (item', True, cache\<lparr>connections := (connections cache)(key \<mapsto> item')\<rparr>)))"

definition ifxConnCache_exists ::
  "nat \<Rightarrow> InformixCache \<Rightarrow> string \<Rightarrow> IfxCachedConnection option \<times> bool" where
  \<comment> \<open>the source tests the pointer \<^verbatim>\<open>found\<close>, not \<^verbatim>\<open>*found\<close>; the item of a
      \<^verbatim>\<open>HASH_FIND\<close> is \<^verbatim>\<open>NULL\<close> when absent, so the result is the lookup either way\<close>
  "ifxConnCache_exists IFX_CONNAME_LEN cache name =
     (let r = connections cache (conn_key IFX_CONNAME_LEN name) in (r, r \<noteq> None))"

definition ifxConnCache_rm ::
  "nat \<Rightarrow> InformixCache \<Rightarrow> string \<Rightarrow> IfxCachedConnection option \<times> bool \<times> InformixCache" where
  "ifxConnCache_rm IFX_CONNAME_LEN cache name =
     (let key = conn_key IFX_CONNAME_LEN name; r = connections cache key
      in (r, r \<noteq> None, cache\<lparr>connections := (connections cache)(key := None)\<rparr>))"

definition ifxFTCache_add ::
  "nat \<Rightarrow> InformixCache \<Rightarrow> Oid \<Rightarrow> string \<Rightarrow> pg_error + (IfxFTCacheItem \<times> InformixCache)" where
  \<comment> \<open>\<^verbatim>\<open>StrNCpy(item->ifx_connection_name, conname, strlen(conname))\<close> writes
      \<^verbatim>\<open>strlen(conname)\<close> bytes into a buffer of \<^verbatim>\<open>IFX_CONNAME_LEN\<close> bytes\<close>
  "ifxFTCache_add IFX_CONNAME_LEN cache foreignTableOid0 name =
     (case tables cache foreignTableOid0 of
        None \<Rightarrow>
          (if length name > IFX_CONNAME_LEN then Inl (Crash IndexOutOfBounds)
           else
             (let buf = bzero (palloc_chars IFX_CONNAME_LEN) IFX_CONNAME_LEN;
                  item = \<lparr> foreignTableOid = foreignTableOid0,
                           ifx_connection_name = StrNCpy buf name (length name) \<rparr>
              in Inr (item, cache\<lparr>tables := (tables cache)(foreignTableOid0 \<mapsto> item)\<rparr>)))
      | Some item \<Rightarrow> Inr (item, cache))"

section \<open>Option validation of \<^verbatim>\<open>ifx_fdw.c\<close>\<close>

text \<open>The catalog relations a wrapper option can belong to (PostgreSQL's catalog Oids).\<close>

definition ForeignDataWrapperRelationId :: Oid where
  "ForeignDataWrapperRelationId = 2328"

definition ForeignServerRelationId :: Oid where
  "ForeignServerRelationId = 1417"

definition UserMappingRelationId :: Oid where
  "UserMappingRelationId = 1418"

definition ForeignTableRelationId :: Oid where
  "ForeignTableRelationId = 3118"

definition ifx_valid_options :: "(string \<times> Oid) list" where
  \<comment> \<open>the table up to its \<^verbatim>\<open>NULL\<close> terminator, where both loops over it stop\<close>
  "ifx_valid_options =
     [ (''informixserver'',   ForeignServerRelationId),
       (''user'',             UserMappingRelationId),
       (''password'',         UserMappingRelationId),
       (''database'',         ForeignTableRelationId),
       (''query'',            ForeignTableRelationId),
       (''table'',            ForeignTableRelationId),
       (''estimated_rows'',   ForeignTableRelationId),
       (''connection_costs'', ForeignTableRelationId) ]"

definition DQ :: char where
  \<comment> \<open>the double quote character of the source's format strings\<close>
  "DQ = CHR 0x22"

record DefElem =
  defname :: string
  defarg :: string

definition defGetString :: "DefElem \<Rightarrow> string" where
  "defGetString d = defarg d"

fun ifxFdwOptionsToStringBuf_loop :: "Oid \<Rightarrow> (string \<times> Oid) list \<Rightarrow> string \<Rightarrow> string" where
  "ifxFdwOptionsToStringBuf_loop catalog [] buf = buf"
| "ifxFdwOptionsToStringBuf_loop catalog ((optname, optcontext) # rest) buf =
     ifxFdwOptionsToStringBuf_loop catalog rest
       (if catalog = optcontext
        then buf @ (if length buf > 0 then [CHR '',''] else []) @ optname
        else buf)"

definition ifxFdwOptionsToStringBuf :: "Oid \<Rightarrow> string" where
  "ifxFdwOptionsToStringBuf catalog = ifxFdwOptionsToStringBuf_loop catalog ifx_valid_options []"

fun ifxIsValidOption_loop :: "string \<Rightarrow> Oid \<Rightarrow> (string \<times> Oid) list \<Rightarrow> bool" where
  \<comment> \<open>the source compares \<^verbatim>\<open>ifxopt->optname\<close> with itself, not with the option given\<close>
  "ifxIsValidOption_loop opt catalog [] = False"
| "ifxIsValidOption_loop opt catalog ((optname, optcontext) # rest) =
     (if catalog = optcontext \<and> optname = optname then True
      else ifxIsValidOption_loop opt catalog rest)"

definition ifxIsValidOption :: "string \<Rightarrow> Oid \<Rightarrow> bool" where
  "ifxIsValidOption opt catalog = ifxIsValidOption_loop opt catalog ifx_valid_options"

text \<open>
  \<^verbatim>\<open>ifxGetOptionDups\<close> is a sequence of eight independent \<^verbatim>\<open>if\<close> blocks, one per
  option name; each block is a definition of its own here, in the order of the source.
  \<^verbatim>\<open>strtof\<close> is a parameter: it returns the value read and the number of characters
  it consumed (\<^verbatim>\<open>val == endp\<close> is "consumed nothing").
\<close>

definition dups_servername :: "IfxConnectionInfo \<Rightarrow> DefElem \<Rightarrow> pg_error + IfxConnectionInfo" where
  "dups_servername coninfo d =
     (if defname d = ''servername'' then
        (if servername coninfo \<noteq> None
         then Inl (Ereport ''ERRCODE_FDW_INVALID_OPTION_NAME''
                     ''conflicting or redundant options: servername(%s)''
                     [ArgStr (defGetString d)] None)
         else Inr (coninfo\<lparr>servername := Some (defGetString d)\<rparr>))
      else Inr coninfo)"

definition dups_database :: "IfxConnectionInfo \<Rightarrow> DefElem \<Rightarrow> pg_error + IfxConnectionInfo" where
  "dups_database coninfo d =
     (if defname d = ''database'' then
        (if database coninfo \<noteq> None
         then Inl (Ereport ''ERRCODE_FDW_INVALID_OPTION_NAME''
                     ''conflicting or redundant options: database(%s)''
                     [ArgStr (defGetString d)] None)
         else Inr (coninfo\<lparr>database := Some (defGetString d)\<rparr>))
      else Inr coninfo)"

definition dups_username :: "IfxConnectionInfo \<Rightarrow> DefElem \<Rightarrow> pg_error + IfxConnectionInfo" where
  \<comment> \<open>the guard of this block reads \<^verbatim>\<open>coninfo->database\<close>\<close>
  "dups_username coninfo d =
     (if defname d = ''username'' then
        (if database coninfo \<noteq> None
         then Inl (Ereport ''ERRCODE_FDW_INVALID_OPTION_NAME''
                     ''conflicting or redundant options: username(%s)''
                     [ArgStr (defGetString d)] None)
         else Inr (coninfo\<lparr>username := Some (defGetString d)\<rparr>))
      else Inr coninfo)"

definition dups_password :: "IfxConnectionInfo \<Rightarrow> DefElem \<Rightarrow> pg_error + IfxConnectionInfo" where
  "dups_password coninfo d =
     (if defname d = ''password'' then
        (if password coninfo \<noteq> None
         then Inl (Ereport ''ERRCODE_FDW_INVALID_OPTION_NAME''
                     ''conflicting or redundant options: password(%s)''
                     [ArgStr (defGetString d)] None)
         else Inr (coninfo\<lparr>password := Some (defGetString d)\<rparr>))
      else Inr coninfo)"

definition dups_query :: "IfxConnectionInfo \<Rightarrow> DefElem \<Rightarrow> pg_error + IfxConnectionInfo" where
  \<comment> \<open>the assignment of this block writes \<^verbatim>\<open>coninfo->tablename\<close>\<close>
  "dups_query coninfo d =
     (if defname d = ''query'' then
        (if tablename coninfo \<noteq> None
         then Inl (Ereport ''ERRCODE_SYNTAX_ERROR''
                     ''conflicting options: query cannot be used with table'' [] None)
         else if query coninfo \<noteq> None
         then Inl (Ereport ''ERRCODE_SYNTAX_ERROR''
                     ''conflicting or redundant options: query (%s)''
                     [ArgStr (defGetString d)] None)
         else Inr (coninfo\<lparr>tablename := Some (defGetString d)\<rparr>))
      else Inr coninfo)"

definition dups_table :: "IfxConnectionInfo \<Rightarrow> DefElem \<Rightarrow> pg_error + IfxConnectionInfo" where
  "dups_table coninfo d =
     (if defname d = ''table'' then
        (if query coninfo \<noteq> None
         then Inl (Ereport ''ERRCODE_SYNTAX_ERROR''
                     ''conflicting options: query cannot be used with query'' [] None)
         else if tablename coninfo \<noteq> None
         then Inl (Ereport ''ERRCODE_FDW_INVALID_OPTION_NAME''
                     ''conflicting or redundant options: table(%s)''
                     [ArgStr (defGetString d)] None)
         else Inr (coninfo\<lparr>tablename := Some (defGetString d)\<rparr>))
      else Inr coninfo)"

definition dups_estimated_rows ::
  "(string \<Rightarrow> real \<times> nat) \<Rightarrow> IfxConnectionInfo \<Rightarrow> DefElem \<Rightarrow> pg_error + IfxConnectionInfo" where
  "dups_estimated_rows strtof coninfo d =
     (if defname d = ''estimated_rows'' then
        (let val = defGetString d;
             (r, consumed) = strtof val;
             coninfo' = coninfo\<lparr>planData := (planData coninfo)\<lparr>estimated_rows := r\<rparr>\<rparr>
         in if consumed = 0 \<and> estimated_rows (planData coninfo') < 0
            then Inl (Ereport ''ERRCODE_SYNTAX_ERROR''
                        (DQ # ''%s'' @ DQ # '' is not a valid number for parameter '' @ DQ # ''estimated_rows'' @ [DQ])
                        [ArgStr val] None)
            else Inr coninfo')
      else Inr coninfo)"

definition dups_connection_costs ::
  "(string \<Rightarrow> real \<times> nat) \<Rightarrow> IfxConnectionInfo \<Rightarrow> DefElem \<Rightarrow> pg_error + IfxConnectionInfo" where
  "dups_connection_costs strtof coninfo d =
     (if defname d = ''connection_costs'' then
        (let val = defGetString d;
             (r, consumed) = strtof val;
             coninfo' = coninfo\<lparr>planData := (planData coninfo)\<lparr>connection_costs := r\<rparr>\<rparr>
         in if consumed = 0 \<and> connection_costs (planData coninfo') < 0
            then Inl (Ereport ''ERRCODE_SYNTAX_ERROR''
                        (DQ # ''%s'' @ DQ # '' is not a valid number for parameter '' @ DQ # ''estimated_rows'' @ [DQ])
                        [ArgStr val] None)
            else Inr coninfo')
      else Inr coninfo)"

definition ifxGetOptionDups ::
  "(string \<Rightarrow> real \<times> nat) \<Rightarrow> IfxConnectionInfo \<Rightarrow> DefElem \<Rightarrow> pg_error + IfxConnectionInfo" where
  "ifxGetOptionDups strtof coninfo d =
     ebind (dups_servername coninfo d) (\<lambda>c1.
     ebind (dups_database c1 d) (\<lambda>c2.
     ebind (dups_username c2 d) (\<lambda>c3.
     ebind (dups_password c3 d) (\<lambda>c4.
     ebind (dups_query c4 d) (\<lambda>c5.
     ebind (dups_table c5 d) (\<lambda>c6.
     ebind (dups_estimated_rows strtof c6 d) (\<lambda>c7.
     dups_connection_costs strtof c7 d)))))))"

definition coninfo_zero :: IfxConnectionInfo where
  \<comment> \<open>\<^verbatim>\<open>IfxConnectionInfo coninfo = {0};\<close> every pointer is \<^verbatim>\<open>NULL\<close>, every number 0\<close>
  "coninfo_zero =
     \<lparr> conname = [], servername = None, informixdir = None, username = None,
       database = None, password = None, tablename = None, query = None,
       db_locale = None, client_locale = None, tx_enabled = 0, db_ansi = 0,
       scan_mode = IFX_OTHER_SCAN_MODE 0,
       planData = \<lparr> estimated_rows = 0, connection_costs = 0 \<rparr> \<rparr>"

fun ifx_fdw_validator_loop ::
  "(string \<Rightarrow> real \<times> nat) \<Rightarrow> Oid \<Rightarrow> IfxConnectionInfo \<Rightarrow> DefElem list
     \<Rightarrow> pg_error + IfxConnectionInfo" where
  "ifx_fdw_validator_loop strtof catalogOid coninfo [] = Inr coninfo"
| "ifx_fdw_validator_loop strtof catalogOid coninfo (d # rest) =
     (if \<not> ifxIsValidOption (defname d) catalogOid
      then (let buf = ifxFdwOptionsToStringBuf catalogOid
            in Inl (Ereport ''ERRCODE_FDW_INVALID_OPTION_NAME'' (''invalid option '' @ DQ # ''%s'' @ [DQ])
                      [ArgStr (defname d)]
                      (Some (''Valid options in this context are: ''
                             @ (if length buf > 0 then buf else ''<none>'')))))
      else (case ifxGetOptionDups strtof coninfo d of
              Inl e \<Rightarrow> Inl e
            | Inr coninfo' \<Rightarrow> ifx_fdw_validator_loop strtof catalogOid coninfo' rest))"

definition ifx_fdw_validator ::
  "(string \<Rightarrow> real \<times> nat) \<Rightarrow> DefElem list \<Rightarrow> Oid \<Rightarrow> pg_error + unit" where
  \<comment> \<open>\<open>Inr ()\<close> is \<^verbatim>\<open>PG_RETURN_VOID()\<close>: every option was accepted\<close>
  "ifx_fdw_validator strtof ifx_options_list catalogOid =
     (case ifx_fdw_validator_loop strtof catalogOid coninfo_zero ifx_options_list of
        Inl e \<Rightarrow> Inl e
      | Inr coninfo \<Rightarrow> Inr ())"

section \<open>Statement and cursor identifiers of \<^verbatim>\<open>ifx_fdw.c\<close>\<close>

text \<open>
  Both generators allocate and zero the buffer they return, and then call
  \<^verbatim>\<open>snprintf\<close> with the format literal in the position of the destination:
  \<^verbatim>\<open>snprintf("%s_%d", stmt_name_len, coninfo->conname, MyBackendId)\<close>. The destination
  of that call is the string literal, its format is the connection name, and the
  returned buffer is not among its arguments. Writing into a string literal is
  undefined in C; the parameter \<open>literals_writable\<close> says what the platform does: where
  literals are read-only the call traps, where they are writable it returns.
  \<^verbatim>\<open>snprintf\<close> itself is a parameter (destination, size, format, argument to the new
  contents of the destination).
\<close>

definition ifxGenStatementName ::
  "bool \<Rightarrow> (char list \<Rightarrow> nat \<Rightarrow> string \<Rightarrow> int \<Rightarrow> char list) \<Rightarrow> IfxConnectionInfo \<Rightarrow> int
     \<Rightarrow> pg_error + char list" where
  "ifxGenStatementName literals_writable snprintf coninfo MyBackendId =
     (let stmt_name_len = length (conname coninfo) + 10;
          stmt_name = palloc_chars (stmt_name_len + 1);
          stmt_name = bzero stmt_name (stmt_name_len + 1);
          literal = snprintf ''%s_%d'' stmt_name_len (conname coninfo) MyBackendId
      in if literals_writable then Inr stmt_name else Inl (Crash WriteToLiteral))"

definition ifxGenCursorName ::
  "bool \<Rightarrow> (char list \<Rightarrow> nat \<Rightarrow> string \<Rightarrow> int \<Rightarrow> char list) \<Rightarrow> IfxConnectionInfo \<Rightarrow> int
     \<Rightarrow> pg_error + char list" where
  "ifxGenCursorName literals_writable snprintf coninfo MyBackendId =
     (let len = length (conname coninfo) + 10;
          cursor_name = palloc_chars (len + 1);
          cursor_name = bzero cursor_name (len + 1);
          literal = snprintf ''%s_%d_cur'' len (conname coninfo) MyBackendId
      in if literals_writable then Inr cursor_name else Inl (Crash WriteToLiteral))"

text \<open>
  The part of \<^verbatim>\<open>ifxBeginForeignScan\<close> that binds a scan to its session and names its
  statement and cursor (the source's lines 627 to 672, without the query text and the
  column data between them): the scan looks its connection up in the cache, which is
  where the usage counter moves, and then generates both identifiers from the connection
  info. The result is the cached entry, both names and the cache afterwards. The call in
  the source hands \<^verbatim>\<open>coninfo->conname\<close> to \<^verbatim>\<open>ifxConnCache_add\<close>, whose definition
  in \<^verbatim>\<open>ifx_conncache.c\<close> takes the connection info; the model hands it the connection
  info.
\<close>

definition ifxBeginForeignScan_bind ::
  "nat \<Rightarrow> bool \<Rightarrow> (char list \<Rightarrow> nat \<Rightarrow> string \<Rightarrow> int \<Rightarrow> char list) \<Rightarrow> int
     \<Rightarrow> InformixCache \<Rightarrow> Oid \<Rightarrow> IfxConnectionInfo
     \<Rightarrow> pg_error + (IfxCachedConnection \<times> char list \<times> char list \<times> InformixCache)" where
  "ifxBeginForeignScan_bind IFX_CONNAME_LEN literals_writable snprintf MyBackendId
       cache foreignTableOid0 coninfo =
     ebind (ifxConnCache_add IFX_CONNAME_LEN cache foreignTableOid0 coninfo)
       (\<lambda>(cached, conn_cached, cache').
     ebind (ifxGenStatementName literals_writable snprintf coninfo MyBackendId) (\<lambda>stmt_name.
     ebind (ifxGenCursorName literals_writable snprintf coninfo MyBackendId) (\<lambda>cursor_name.
     Inr (cached, stmt_name, cursor_name, cache'))))"

section \<open>Row iteration of \<^verbatim>\<open>ifx_fdw.c\<close>\<close>

datatype IfxSourceType =
    IFX_SMALLINT | IFX_INTEGER | IFX_SERIAL
  | IFX_INT8 | IFX_SERIAL8 | IFX_INFX_INT8
  | IFX_TEXT | IFX_BYTES
  | IFX_OTHER_TYPE nat   \<comment> \<open>every other type id of the header\<close>

datatype IfxIndicatorValue = INDICATOR_NULL | INDICATOR_NOT_NULL | INDICATOR_NOT_VALID

datatype IfxSqlStateClass =
    IFX_SUCCESS | IFX_RT_ERROR | IFX_WARNING | IFX_ERROR | IFX_NOT_FOUND
  | IFX_STATE_OTHER nat

text \<open>
  A datum is a machine word that the code fills through PostgreSQL's conversion macros;
  the model keeps which macro made it. \<open>DatumNull\<close> is \<^verbatim>\<open>PointerGetDatum(NULL)\<close>, and
  \<open>DatumResult\<close> is whatever a called PostgreSQL function returned.
\<close>

datatype Datum =
    DatumNull
  | Int16Datum int
  | Int32Datum int
  | BoolDatum char
  | CharDatum char
  | CStringDatum "string option"
  | ObjectIdDatum Oid
  | TextDatum string
  | ByteaDatum "char list"
  | DatumResult nat

record IfxAttrDef =
  ifx_type :: IfxSourceType
  indicator :: IfxIndicatorValue

record PgAttrDef =
  attnum :: int
  atttypid :: Oid
  atttypmod :: int
  attname :: string

text \<open>
  \<^verbatim>\<open>ifx_fdw.c\<close> uses the execution state through arrays of pointers
  (\<^verbatim>\<open>ifxAttrDefs[i]->type\<close>, \<^verbatim>\<open>pgAttrDefs[i] == NULL\<close>, \<^verbatim>\<open>values[i]->val\<close>), each with
  one slot more than its count. A dropped local column is a \<^verbatim>\<open>NULL\<close> slot of
  \<open>pgAttrDefs\<close>. The value array is allocated anew for each row: its slots are pointers
  nobody assigned, but for the terminating \<^verbatim>\<open>NULL\<close>. A datum that was never written is
  \<open>None\<close>.
\<close>

record IfxValue_slot =
  slot_val :: "Datum option"
  slot_def :: "IfxAttrDef ptr"

record IfxFdwExecutionState_scan =
  ifxAttrCount :: int
  ifxAttrDefs_ptrs :: "IfxAttrDef ptr list"
  pgAttrCount :: int
  pgAttrDefs_ptrs :: "PgAttrDef ptr list"
  ifx_values_ptrs :: "IfxValue_slot ptr list"

text \<open>
  The slot handed back to the executor, with the fields the iteration computes (it also
  resets \<^verbatim>\<open>tts_mintuple\<close>, \<^verbatim>\<open>tts_buffer\<close>, \<^verbatim>\<open>tts_tuple\<close> and
  \<^verbatim>\<open>tts_shouldFree\<close>). \<^verbatim>\<open>tts_values\<close> and \<^verbatim>\<open>tts_isnull\<close> are fresh
  \<^verbatim>\<open>palloc\<close> arrays: a position nobody assigned holds \<open>None\<close>.
\<close>

record TupleTableSlot =
  tts_isempty :: bool
  tts_nvalid :: int
  tts_values :: "Datum option list"
  tts_isnull :: "bool option list"

text \<open>
  What the remote side answers during one call of the iteration: the class
  \<^verbatim>\<open>ifxSetException\<close> reports after the fetch, and \<^verbatim>\<open>ifxGetInt\<close>, which reads the
  column at the position it is given and may set indicators in the attribute array.
\<close>

record scan_remote =
  fetch_class :: IfxSqlStateClass
  ifxGetInt :: "IfxAttrDef ptr list \<Rightarrow> int \<Rightarrow> int \<times> IfxAttrDef ptr list"

definition ifxColumnValueByAttNum ::
  "scan_remote \<Rightarrow> IfxFdwExecutionState_scan \<Rightarrow> int \<Rightarrow> pg_error + IfxFdwExecutionState_scan" where
  "ifxColumnValueByAttNum remote state attnum0 =
     ebind (array_get (ifxAttrDefs_ptrs state) (attnum0 - 1)) (\<lambda>p.
     ebind (deref p) (\<lambda>d.
       if ifx_type d = IFX_INTEGER \<or> ifx_type d = IFX_SERIAL then
         (let (v, defs') = ifxGetInt remote (ifxAttrDefs_ptrs state) attnum0;
              state1 = state\<lparr>ifxAttrDefs_ptrs := defs'\<rparr>
          in ebind (array_get (ifx_values_ptrs state1) (attnum0 - 1)) (\<lambda>vp.
             ebind (deref vp) (\<lambda>slot.
             ebind (array_get (ifxAttrDefs_ptrs state1) (attnum0 - 1)) (\<lambda>dp.
             ebind (array_set (ifx_values_ptrs state1) (attnum0 - 1)
                      (Ptr (slot\<lparr>slot_val := Some (Int32Datum v), slot_def := dp\<rparr>))) (\<lambda>vs.
             Inr (state1\<lparr>ifx_values_ptrs := vs\<rparr>))))))
       else Inl (Elog (DQ # ''%d'' @ DQ # '' is not a known informix type id'') [])))"

lemma ifxColumnValueByAttNum_count:
  "ifxColumnValueByAttNum remote state i = Inr state' \<Longrightarrow> ifxAttrCount state' = ifxAttrCount state"
  by (auto simp: ifxColumnValueByAttNum_def ebind_def Let_def
           split: sum.splits if_splits prod.splits)

text \<open>
  The body of the loop \<^verbatim>\<open>for (i = 0; i < ifxAttrCount - 1; i++)\<close>, for one \<open>i\<close>:
  fetch the column, then a \<^verbatim>\<open>NULL\<close> for a dropped local column, a \<^verbatim>\<open>NULL\<close> for a
  remote \<^verbatim>\<open>NULL\<close>, and the datum of \<^verbatim>\<open>values[i]\<close> otherwise.
\<close>

definition ifxIterate_column ::
  "scan_remote \<Rightarrow> int \<Rightarrow> IfxFdwExecutionState_scan \<Rightarrow> TupleTableSlot
     \<Rightarrow> pg_error + (IfxFdwExecutionState_scan \<times> TupleTableSlot)" where
  "ifxIterate_column remote i state tupleSlot =
     ebind (ifxColumnValueByAttNum remote state i) (\<lambda>state'.
     ebind (array_get (pgAttrDefs_ptrs state') i) (\<lambda>pg.
       if pg = NULL_ptr then
         ebind (array_set (tts_isnull tupleSlot) i (Some True)) (\<lambda>nulls.
         ebind (array_set (tts_values tupleSlot) i (Some DatumNull)) (\<lambda>vals.
         Inr (state', tupleSlot\<lparr>tts_isnull := nulls, tts_values := vals\<rparr>)))
       else
         ebind (array_get (ifxAttrDefs_ptrs state') i) (\<lambda>dp.
         ebind (deref dp) (\<lambda>d.
           if indicator d = INDICATOR_NULL then
             ebind (array_set (tts_isnull tupleSlot) i (Some True)) (\<lambda>nulls.
             ebind (array_set (tts_values tupleSlot) i (Some DatumNull)) (\<lambda>vals.
             Inr (state', tupleSlot\<lparr>tts_isnull := nulls, tts_values := vals\<rparr>)))
           else
             ebind (array_set (tts_isnull tupleSlot) i (Some False)) (\<lambda>nulls.
             ebind (array_get (ifx_values_ptrs state') i) (\<lambda>vp.
             ebind (deref vp) (\<lambda>slot.
             ebind (array_set (tts_values tupleSlot) i (slot_val slot)) (\<lambda>vals.
             Inr (state', tupleSlot\<lparr>tts_isnull := nulls, tts_values := vals\<rparr>)))))))))"

lemma ifxIterate_column_count:
  "ifxIterate_column remote i state tupleSlot = Inr (state', tupleSlot')
     \<Longrightarrow> ifxAttrCount state' = ifxAttrCount state"
  by (auto simp: ifxIterate_column_def ebind_def
           dest: ifxColumnValueByAttNum_count split: sum.splits if_splits)

function ifxIterate_columns ::
  "scan_remote \<Rightarrow> int \<Rightarrow> IfxFdwExecutionState_scan \<Rightarrow> TupleTableSlot
     \<Rightarrow> pg_error + (IfxFdwExecutionState_scan \<times> TupleTableSlot)" where
  "ifxIterate_columns remote i state tupleSlot =
     (if i < ifxAttrCount state - 1 then
        (case ifxIterate_column remote i state tupleSlot of
           Inl e \<Rightarrow> Inl e
         | Inr (state', tupleSlot') \<Rightarrow> ifxIterate_columns remote (i + 1) state' tupleSlot')
      else Inr (state, tupleSlot))"
  by pat_completeness auto
termination
  by (relation "measure (\<lambda>(remote, i, state, tupleSlot). nat (ifxAttrCount state - 1 - i))")
     (auto dest: ifxIterate_column_count)

definition ifxIterateForeignScan ::
  "scan_remote \<Rightarrow> IfxFdwExecutionState_scan \<Rightarrow> TupleTableSlot
     \<Rightarrow> pg_error + (IfxFdwExecutionState_scan \<times> TupleTableSlot)" where
  "ifxIterateForeignScan remote state tupleSlot =
     (let errclass = fetch_class remote in
      if errclass = IFX_NOT_FOUND
      then Inr (state, tupleSlot\<lparr>tts_isempty := True, tts_nvalid := 0\<rparr>)
      else
        (let n = ifxAttrCount state;
             state1 = state\<lparr>ifx_values_ptrs := replicate (nat n) Uninit_ptr @ [NULL_ptr]\<rparr>;
             tupleSlot1 = tupleSlot\<lparr>tts_isempty := False,
                                   tts_nvalid := n,
                                   tts_values := replicate (nat n) None,
                                   tts_isnull := replicate (nat n) None\<rparr>
         in ifxIterate_columns remote 0 state1 tupleSlot1))"

section \<open>Value conversion of \<^verbatim>\<open>ifx_conv.c\<close>\<close>

text \<open>PostgreSQL's type Oids (\<^verbatim>\<open>pg_type.h\<close>).\<close>

definition InvalidOid :: Oid where "InvalidOid = 0"
definition BOOLOID :: Oid where "BOOLOID = 16"
definition BYTEAOID :: Oid where "BYTEAOID = 17"
definition CHAROID :: Oid where "CHAROID = 18"
definition INT8OID :: Oid where "INT8OID = 20"
definition INT2OID :: Oid where "INT2OID = 21"
definition INT4OID :: Oid where "INT4OID = 23"
definition TEXTOID :: Oid where "TEXTOID = 25"
definition BPCHAROID :: Oid where "BPCHAROID = 1042"
definition VARCHAROID :: Oid where "VARCHAROID = 1043"
definition DATEOID :: Oid where "DATEOID = 1082"
definition TIMESTAMPOID :: Oid where "TIMESTAMPOID = 1114"
definition TIMESTAMPTZOID :: Oid where "TIMESTAMPTZOID = 1184"
definition NUMERICOID :: Oid where "NUMERICOID = 1700"

lemmas type_oids =
  InvalidOid_def BOOLOID_def BYTEAOID_def CHAROID_def INT8OID_def INT2OID_def INT4OID_def
  TEXTOID_def BPCHAROID_def VARCHAROID_def DATEOID_def TIMESTAMPOID_def TIMESTAMPTZOID_def
  NUMERICOID_def

text \<open>
  \<^verbatim>\<open>ifx_conv.c\<close> uses the execution state through arrays of structs
  (\<^verbatim>\<open>pg_def = state->pgAttrDefs[attnum]\<close>). The statement info carries the remote
  attribute definitions and whether a remote diagnostic state is pending. The field
  \<open>call_log\<close> is not in the C struct: it records, in order, each rewind and each error
  that leaves a function, so that their order can be stated.
\<close>

datatype conv_event =
    EvRewind                \<comment> \<open>\<^verbatim>\<open>ifxRewindCallstack\<close> ran\<close>
  | EvRaise pg_error        \<comment> \<open>an \<^verbatim>\<open>elog(ERROR)\<close> of this file\<close>
  | EvCalleeRaise pg_error  \<comment> \<open>an error raised inside a called PostgreSQL function\<close>
  | EvReThrow pg_error      \<comment> \<open>\<^verbatim>\<open>PG_RE_THROW()\<close>\<close>

record IfxStatementInfo =
  ifxAttrDefs :: "IfxAttrDef list"
  pending_diag :: bool

record IfxValue =
  ifx_val :: Datum

record IfxFdwExecutionState =
  stmt_info :: IfxStatementInfo
  pgAttrDefs :: "PgAttrDef list"
  ifx_values :: "IfxValue list"
  call_log :: "conv_event list"

type_synonym regproc = nat

record pg_type_tuple =
  typinput :: regproc
  typoutput :: regproc

text \<open>
  What the conversion routines call outside this file. The system cache and the function
  manager are PostgreSQL's; the \<^verbatim>\<open>ifxGet...\<close> readers belong to the ESQL/C part of
  the wrapper and take the statement info and a column position: each returns what it
  read together with the statement info afterwards. \<open>PG_MAPPED_IFX_ATTNUM\<close> is the
  header's macro from a local attribute index to the index of its remote column.
\<close>

record conv_env =
  PG_MAPPED_IFX_ATTNUM :: "int \<Rightarrow> int"
  type_tuple :: "Oid \<Rightarrow> pg_type_tuple option"
  cast_tuple :: "Oid \<Rightarrow> Oid \<Rightarrow> regproc option"
  fmgr_call :: "regproc \<Rightarrow> Datum list \<Rightarrow> pg_error + Datum"
  ifxGetDateAsString :: "IfxStatementInfo \<Rightarrow> int \<Rightarrow> string option \<times> IfxStatementInfo"
  ifxGetTimestampAsString :: "IfxStatementInfo \<Rightarrow> int \<Rightarrow> string option \<times> IfxStatementInfo"
  ifxGetDecimal :: "IfxStatementInfo \<Rightarrow> int \<Rightarrow> string option \<times> IfxStatementInfo"
  ifxGetInt2 :: "IfxStatementInfo \<Rightarrow> int \<Rightarrow> int \<times> IfxStatementInfo"
  ifxGetInt4 :: "IfxStatementInfo \<Rightarrow> int \<Rightarrow> int \<times> IfxStatementInfo"
  ifxGetInt8 :: "IfxStatementInfo \<Rightarrow> int \<Rightarrow> string option \<times> IfxStatementInfo"
  ifxGetBigInt :: "IfxStatementInfo \<Rightarrow> int \<Rightarrow> string option \<times> IfxStatementInfo"
  ifxGetBool :: "IfxStatementInfo \<Rightarrow> int \<Rightarrow> char \<times> IfxStatementInfo"
  ifxGetTextFromLocator ::
    "IfxStatementInfo \<Rightarrow> int \<Rightarrow> (string option \<times> int) \<times> IfxStatementInfo"
  ifxGetText :: "IfxStatementInfo \<Rightarrow> int \<Rightarrow> string option \<times> IfxStatementInfo"

subsection \<open>Control flow: state, errors, \<^verbatim>\<open>PG_TRY\<close>\<close>

type_synonym 'a conv = "IfxFdwExecutionState \<Rightarrow> (pg_error + 'a) \<times> IfxFdwExecutionState"

definition cret :: "'a \<Rightarrow> 'a conv" where
  "cret x = (\<lambda>s. (Inr x, s))"

definition cbind :: "'a conv \<Rightarrow> ('a \<Rightarrow> 'b conv) \<Rightarrow> 'b conv" where
  "cbind m f = (\<lambda>s. case m s of (Inl e, s') \<Rightarrow> (Inl e, s') | (Inr x, s') \<Rightarrow> f x s')"

definition clift :: "pg_error + 'a \<Rightarrow> 'a conv" where
  \<comment> \<open>a read that can only fail by a crash\<close>
  "clift r = (\<lambda>s. (r, s))"

definition elog_ERROR :: "string \<Rightarrow> fmt_arg list \<Rightarrow> 'a conv" where
  "elog_ERROR fmt args =
     (\<lambda>s. (Inl (Elog fmt args), s\<lparr>call_log := call_log s @ [EvRaise (Elog fmt args)]\<rparr>))"

definition PG_RE_THROW :: "pg_error \<Rightarrow> 'a conv" where
  "PG_RE_THROW e = (\<lambda>s. (Inl e, s\<lparr>call_log := call_log s @ [EvReThrow e]\<rparr>))"

definition PG_TRY :: "'a conv \<Rightarrow> (pg_error \<Rightarrow> 'a conv) \<Rightarrow> 'a conv" where
  \<comment> \<open>\<^verbatim>\<open>PG_TRY(); { body } PG_CATCH(); { handler } PG_END_TRY();\<close>
      a crash is not a PostgreSQL error and is not caught\<close>
  "PG_TRY body handler =
     (\<lambda>s. case body s of
             (Inl (Crash k), s') \<Rightarrow> (Inl (Crash k), s')
           | (Inl e, s') \<Rightarrow> handler e s'
           | (Inr x, s') \<Rightarrow> (Inr x, s'))"

definition ifxRewindCallstack :: "unit conv" where
  \<comment> \<open>Modelled from the spec: \<^verbatim>\<open>ifxRewindCallstack\<close> is defined in the ESQL/C part of the
      wrapper, which is not among the sources. Section 7 of the spec: the rewind clears the
      pending remote diagnostic state.\<close>
  "ifxRewindCallstack =
     (\<lambda>s. (Inr (), s\<lparr>stmt_info := (stmt_info s)\<lparr>pending_diag := False\<rparr>,
                      call_log := call_log s @ [EvRewind]\<rparr>))"

definition OidFunctionCall :: "conv_env \<Rightarrow> regproc \<Rightarrow> Datum list \<Rightarrow> Datum conv" where
  \<comment> \<open>\<^verbatim>\<open>OidFunctionCall1/2/3\<close>: the called function returns a datum or raises\<close>
  "OidFunctionCall env f args =
     (\<lambda>s. case fmgr_call env f args of
             Inl e \<Rightarrow> (Inl e, s\<lparr>call_log := call_log s @ [EvCalleeRaise e]\<rparr>)
           | Inr d \<Rightarrow> (Inr d, s))"

definition remote_get ::
  "(IfxStatementInfo \<Rightarrow> int \<Rightarrow> 'a \<times> IfxStatementInfo) \<Rightarrow> int \<Rightarrow> 'a conv" where
  \<comment> \<open>a call \<^verbatim>\<open>ifxGet...(&(state->stmt_info), position)\<close>\<close>
  "remote_get g pos = (\<lambda>s. let (r, si) = g (stmt_info s) pos in (Inr r, s\<lparr>stmt_info := si\<rparr>))"

subsection \<open>The accessor macros of the header\<close>

definition PG_ATTRDEF_P :: "int \<Rightarrow> PgAttrDef conv" where
  \<comment> \<open>\<^verbatim>\<open>state->pgAttrDefs[attnum]\<close>\<close>
  "PG_ATTRDEF_P attnum0 = (\<lambda>s. (array_get (pgAttrDefs s) attnum0, s))"

definition PG_ATTRTYPE_P :: "int \<Rightarrow> Oid conv" where
  \<comment> \<open>Modelled from the spec: the macro is defined in the missing header; it is the type id
      of the local column descriptor, as \<^verbatim>\<open>pg_def.atttypid\<close> in the same file.\<close>
  "PG_ATTRTYPE_P attnum0 = cbind (PG_ATTRDEF_P attnum0) (\<lambda>d. cret (atttypid d))"

definition PG_ATTRTYPEMOD_P :: "int \<Rightarrow> int conv" where
  \<comment> \<open>Modelled from the spec: the macro is defined in the missing header; it is the typemod
      of the local column descriptor, as \<^verbatim>\<open>pg_def.atttypmod\<close> in the same file.\<close>
  "PG_ATTRTYPEMOD_P attnum0 = cbind (PG_ATTRDEF_P attnum0) (\<lambda>d. cret (atttypmod d))"

definition IFX_ATTRDEF_P :: "conv_env \<Rightarrow> int \<Rightarrow> IfxAttrDef conv" where
  \<comment> \<open>the remote column descriptor a local attribute is mapped to\<close>
  "IFX_ATTRDEF_P env attnum0 =
     (\<lambda>s. (array_get (ifxAttrDefs (stmt_info s)) (PG_MAPPED_IFX_ATTNUM env attnum0), s))"

definition IFX_ATTRTYPE_P :: "conv_env \<Rightarrow> int \<Rightarrow> IfxSourceType conv" where
  \<comment> \<open>Modelled from the spec: the macro is defined in the missing header; it is the remote
      type id of the remote column descriptor.\<close>
  "IFX_ATTRTYPE_P env attnum0 = cbind (IFX_ATTRDEF_P env attnum0) (\<lambda>d. cret (ifx_type d))"

definition IFX_ATTR_ISNULL_P :: "conv_env \<Rightarrow> int \<Rightarrow> bool conv" where
  \<comment> \<open>Modelled from the spec: the macro is defined in the missing header; the indicator of
      the remote column signals SQL NULL.\<close>
  "IFX_ATTR_ISNULL_P env attnum0 =
     cbind (IFX_ATTRDEF_P env attnum0) (\<lambda>d. cret (indicator d = INDICATOR_NULL))"

definition IFX_ATTR_IS_VALID_P :: "conv_env \<Rightarrow> int \<Rightarrow> bool conv" where
  \<comment> \<open>Modelled from the spec: the macro is defined in the missing header; the remote column
      is not marked "not convertible".\<close>
  "IFX_ATTR_IS_VALID_P env attnum0 =
     cbind (IFX_ATTRDEF_P env attnum0) (\<lambda>d. cret (indicator d \<noteq> INDICATOR_NOT_VALID))"

definition IFX_ATTR_SETNOTVALID_P :: "conv_env \<Rightarrow> int \<Rightarrow> unit conv" where
  \<comment> \<open>Modelled from the spec: the macro is defined in the missing header; section 4.4 of the
      spec: it marks that attribute "not convertible".\<close>
  "IFX_ATTR_SETNOTVALID_P env attnum0 =
     cbind (IFX_ATTRDEF_P env attnum0) (\<lambda>d s.
       case array_set (ifxAttrDefs (stmt_info s)) (PG_MAPPED_IFX_ATTNUM env attnum0)
              (d\<lparr>indicator := INDICATOR_NOT_VALID\<rparr>) of
         Inl e \<Rightarrow> (Inl e, s)
       | Inr defs \<Rightarrow> (Inr (), s\<lparr>stmt_info := (stmt_info s)\<lparr>ifxAttrDefs := defs\<rparr>\<rparr>))"

definition IFX_SETVAL_P :: "conv_env \<Rightarrow> int \<Rightarrow> Datum \<Rightarrow> unit conv" where
  \<comment> \<open>Modelled from the spec: the macro is defined in the missing header; it stores the
      converted datum in the value slot of the column.\<close>
  "IFX_SETVAL_P env attnum0 d =
     (\<lambda>s. case array_set (ifx_values s) (PG_MAPPED_IFX_ATTNUM env attnum0) \<lparr>ifx_val = d\<rparr> of
             Inl e \<Rightarrow> (Inl e, s)
           | Inr vs \<Rightarrow> (Inr (), s\<lparr>ifx_values := vs\<rparr>))"

definition IFX_GETVAL_P :: "conv_env \<Rightarrow> int \<Rightarrow> Datum conv" where
  \<comment> \<open>Modelled from the spec: the macro is defined in the missing header; it reads the value
      slot of the column.\<close>
  "IFX_GETVAL_P env attnum0 =
     (\<lambda>s. (ebind (array_get (ifx_values s) (PG_MAPPED_IFX_ATTNUM env attnum0))
               (\<lambda>v. Inr (ifx_val v)), s))"

subsection \<open>Type lookups\<close>

definition getTypeOutputFunction :: "conv_env \<Rightarrow> Oid \<Rightarrow> regproc conv" where
  "getTypeOutputFunction env inputOid =
     (case type_tuple env inputOid of
        None \<Rightarrow>
          cbind ifxRewindCallstack (\<lambda>_.
          elog_ERROR ''cache lookup failed for output function for type %u''
            [ArgNum (int inputOid)])
      | Some type_tup \<Rightarrow> cret (typoutput type_tup))"

definition getTypeInputFunction :: "conv_env \<Rightarrow> Oid \<Rightarrow> regproc conv" where
  "getTypeInputFunction env inputOid =
     (case type_tuple env inputOid of
        None \<Rightarrow>
          cbind ifxRewindCallstack (\<lambda>_.
          elog_ERROR ''cache lookup failed for input function for type %u''
            [ArgNum (int inputOid)])
      | Some type_tup \<Rightarrow> cret (typinput type_tup))"

definition getTypeCastFunction :: "conv_env \<Rightarrow> Oid \<Rightarrow> Oid \<Rightarrow> regproc conv" where
  "getTypeCastFunction env sourceOid targetOid =
     (case cast_tuple env sourceOid targetOid of
        None \<Rightarrow>
          cbind ifxRewindCallstack (\<lambda>_.
          elog_ERROR ''cache lookup failed for cast from %u to %u''
            [ArgNum (int sourceOid), ArgNum (int targetOid)])
      | Some castfunc \<Rightarrow> cret castfunc)"

subsection \<open>The conversion routines\<close>

definition rewind_and_rethrow :: "pg_error \<Rightarrow> 'a conv" where
  \<comment> \<open>the body of every \<^verbatim>\<open>PG_CATCH\<close> block of the file\<close>
  "rewind_and_rethrow e = cbind ifxRewindCallstack (\<lambda>_. PG_RE_THROW e)"

definition reject_conversion :: "conv_env \<Rightarrow> int \<Rightarrow> Datum conv" where
  \<comment> \<open>\<^verbatim>\<open>IFX_ATTR_SETNOTVALID_P(state, attnum); return PointerGetDatum(NULL);\<close>\<close>
  "reject_conversion env attnum0 =
     cbind (IFX_ATTR_SETNOTVALID_P env attnum0) (\<lambda>_. cret DatumNull)"

definition convertIfxDateString :: "conv_env \<Rightarrow> int \<Rightarrow> Datum conv" where
  "convertIfxDateString env attnum0 =
     cbind (PG_ATTRTYPE_P attnum0) (\<lambda>t.
       if t = TEXTOID \<or> t = VARCHAROID \<or> t = BPCHAROID \<or> t = DATEOID then
         (let inputOid = t in
          cbind (remote_get (ifxGetDateAsString env) (PG_MAPPED_IFX_ATTNUM env attnum0)) (\<lambda>val.
            case val of
              None \<Rightarrow> cret DatumNull
            | Some v \<Rightarrow>
                PG_TRY
                  (cbind (getTypeInputFunction env inputOid) (\<lambda>typeinputfunc.
                   cbind (PG_ATTRTYPEMOD_P attnum0) (\<lambda>typmod.
                   OidFunctionCall env typeinputfunc
                     [CStringDatum (Some v), ObjectIdDatum InvalidOid, Int32Datum typmod])))
                  rewind_and_rethrow))
       else reject_conversion env attnum0)"

definition convertIfxTimestampString :: "conv_env \<Rightarrow> int \<Rightarrow> Datum conv" where
  "convertIfxTimestampString env attnum0 =
     cbind (PG_ATTRTYPE_P attnum0) (\<lambda>t.
       if t = TEXTOID \<or> t = VARCHAROID \<or> t = BPCHAROID \<or> t = TIMESTAMPOID
          \<or> t = TIMESTAMPTZOID then
         (let inputOid = t in
          cbind (remote_get (ifxGetTimestampAsString env) (PG_MAPPED_IFX_ATTNUM env attnum0))
            (\<lambda>val.
            case val of
              None \<Rightarrow> cret DatumNull
            | Some v \<Rightarrow>
                PG_TRY
                  (cbind (getTypeInputFunction env inputOid) (\<lambda>typeinputfunc.
                   cbind (PG_ATTRTYPEMOD_P attnum0) (\<lambda>typmod.
                   OidFunctionCall env typeinputfunc
                     [CStringDatum (Some v), ObjectIdDatum InvalidOid, Int32Datum typmod])))
                  rewind_and_rethrow))
       else reject_conversion env attnum0)"

definition convertIfxDecimal :: "conv_env \<Rightarrow> int \<Rightarrow> Datum conv" where
  "convertIfxDecimal env attnum0 =
     cbind (PG_ATTRTYPE_P attnum0) (\<lambda>t.
       if t = NUMERICOID then
         (let inputOid = t in
          cbind (remote_get (ifxGetDecimal env) (PG_MAPPED_IFX_ATTNUM env attnum0)) (\<lambda>val.
            case val of
              None \<Rightarrow> cret DatumNull
            | Some v \<Rightarrow>
                PG_TRY
                  (cbind (getTypeInputFunction env inputOid) (\<lambda>typinputfunc.
                   cbind (PG_ATTRTYPEMOD_P attnum0) (\<lambda>typmod.
                   OidFunctionCall env typinputfunc
                     [CStringDatum (Some v), ObjectIdDatum InvalidOid, Int32Datum typmod])))
                  rewind_and_rethrow))
       else reject_conversion env attnum0)"

definition convertIfxInt_int8_text :: "conv_env \<Rightarrow> int \<Rightarrow> Datum conv" where
  \<comment> \<open>the block of \<^verbatim>\<open>convertIfxInt\<close> for the targets \<^verbatim>\<open>INT8OID\<close>, \<^verbatim>\<open>TEXTOID\<close>,
      \<^verbatim>\<open>VARCHAROID\<close> and \<^verbatim>\<open>BPCHAROID\<close>\<close>
  "convertIfxInt_int8_text env attnum0 =
     PG_TRY
       (cbind (IFX_ATTRTYPE_P env attnum0) (\<lambda>it.
          if it = IFX_INT8 \<or> it = IFX_SERIAL8 \<or> it = IFX_INFX_INT8 then
            cbind (if it = IFX_INT8 \<or> it = IFX_SERIAL8
                   then remote_get (ifxGetInt8 env) (PG_MAPPED_IFX_ATTNUM env attnum0)
                   else if it = IFX_INFX_INT8
                   then remote_get (ifxGetBigInt env) (PG_MAPPED_IFX_ATTNUM env attnum0)
                   else cret None) (\<lambda>buf.
            cbind (case buf of
                     None \<Rightarrow> cbind ifxRewindCallstack (\<lambda>_.
                             elog_ERROR ''could not convert informix int8 value'' [])
                   | Some b \<Rightarrow> cret b) (\<lambda>b.
            cbind (PG_ATTRTYPE_P attnum0) (\<lambda>t.
            cbind (getTypeInputFunction env t) (\<lambda>typinputfunc.
            OidFunctionCall env typinputfunc
              [CStringDatum (Some b), ObjectIdDatum InvalidOid]))))
          else
            (let sourceOid = (if it = IFX_INTEGER then INT4OID else INT2OID) in
             cbind (PG_ATTRTYPE_P attnum0) (\<lambda>t.
             cbind (getTypeCastFunction env sourceOid t) (\<lambda>typcastfunc.
               if sourceOid = INT4OID
               then cbind (remote_get (ifxGetInt4 env) (PG_MAPPED_IFX_ATTNUM env attnum0)) (\<lambda>v.
                    OidFunctionCall env typcastfunc [Int32Datum v])
               else cbind (remote_get (ifxGetInt2 env) (PG_MAPPED_IFX_ATTNUM env attnum0)) (\<lambda>v.
                    OidFunctionCall env typcastfunc [Int16Datum v]))))))
       rewind_and_rethrow"

definition convertIfxInt :: "conv_env \<Rightarrow> int \<Rightarrow> Datum conv" where
  "convertIfxInt env attnum0 =
     cbind (PG_ATTRDEF_P attnum0) (\<lambda>pg_def.
       if atttypid pg_def = INT2OID then
         cbind (IFX_ATTRTYPE_P env attnum0) (\<lambda>it.
           if it \<noteq> IFX_SMALLINT then reject_conversion env attnum0
           else cbind (remote_get (ifxGetInt2 env) (PG_MAPPED_IFX_ATTNUM env attnum0)) (\<lambda>v.
                cret (Int16Datum v)))
       else if atttypid pg_def = INT4OID then
         cbind (IFX_ATTRTYPE_P env attnum0) (\<lambda>it.
           if it \<noteq> IFX_SMALLINT \<and> it \<noteq> IFX_INTEGER \<and> it \<noteq> IFX_SERIAL
           then reject_conversion env attnum0
           else cbind (remote_get (ifxGetInt4 env) (PG_MAPPED_IFX_ATTNUM env attnum0)) (\<lambda>v.
                cret (Int32Datum v)))
       else if atttypid pg_def = INT8OID \<or> atttypid pg_def = TEXTOID
               \<or> atttypid pg_def = VARCHAROID \<or> atttypid pg_def = BPCHAROID then
         convertIfxInt_int8_text env attnum0
       else reject_conversion env attnum0)"

definition convertIfxBoolean :: "conv_env \<Rightarrow> int \<Rightarrow> Datum conv" where
  \<comment> \<open>the value is read first, at \<open>attnum\<close> itself, not at the mapped position\<close>
  "convertIfxBoolean env attnum0 =
     cbind (remote_get (ifxGetBool env) attnum0) (\<lambda>val.
     cbind (PG_ATTRTYPE_P attnum0) (\<lambda>t.
       if t = BOOLOID \<or> t = CHAROID then cret (BoolDatum val)
       else if t = TEXTOID \<or> t = VARCHAROID \<or> t = BPCHAROID then
         (let sourceOid = BOOLOID; targetOid = t in
          cbind (getTypeCastFunction env sourceOid targetOid) (\<lambda>typecastfunc.
          OidFunctionCall env typecastfunc [CharDatum val]))
       else reject_conversion env attnum0))"

definition make_bytea :: "string option \<Rightarrow> int \<Rightarrow> pg_error + char list" where
  \<comment> \<open>\<^verbatim>\<open>palloc0(VARHDRSZ + len); memcpy(VARDATA(binary_data), val, len)\<close>\<close>
  "make_bytea val len =
     (if len < 0 then Inl (Crash IndexOutOfBounds)
      else case val of
             None \<Rightarrow> Inl (Crash NullPointerDeref)
           | Some b \<Rightarrow> (if nat len \<le> length b
                        then Inr (take (nat len) b)
                        else Inl (Crash IndexOutOfBounds)))"

definition store_bytea :: "conv_env \<Rightarrow> int \<Rightarrow> string option \<Rightarrow> int \<Rightarrow> Datum conv" where
  \<comment> \<open>the \<^verbatim>\<open>BYTEAOID\<close> block: build the bytea, store it in the value slot, read it back\<close>
  "store_bytea env attnum0 val len =
     cbind (clift (make_bytea val len)) (\<lambda>binary_data.
     cbind (IFX_SETVAL_P env attnum0 (ByteaDatum binary_data)) (\<lambda>_.
     IFX_GETVAL_P env attnum0))"

definition convertIfxSimpleLO :: "conv_env \<Rightarrow> int \<Rightarrow> Datum conv" where
  \<comment> \<open>the \<^verbatim>\<open>switch (inputOid)\<close> has no \<^verbatim>\<open>break\<close> after its character case: control
      falls through into the \<^verbatim>\<open>BYTEAOID\<close> block\<close>
  "convertIfxSimpleLO env attnum0 =
     cbind (PG_ATTRTYPE_P attnum0) (\<lambda>t.
       if t = TEXTOID \<or> t = BPCHAROID \<or> t = VARCHAROID \<or> t = BYTEAOID then
         (let inputOid = t in
          cbind (remote_get (ifxGetTextFromLocator env) (PG_MAPPED_IFX_ATTNUM env attnum0))
            (\<lambda>(val, buf_size).
          cbind (IFX_ATTR_ISNULL_P env attnum0) (\<lambda>isnull.
          cbind (if isnull then cret True
                 else cbind (IFX_ATTR_IS_VALID_P env attnum0) (\<lambda>valid. cret (\<not> valid)))
            (\<lambda>finished.
            if finished then cret DatumNull
            else
              PG_TRY
                (cbind (getTypeInputFunction env inputOid) (\<lambda>typeinputfunc.
                 cbind (if inputOid = TEXTOID \<or> inputOid = VARCHAROID \<or> inputOid = BPCHAROID
                        then cbind (PG_ATTRTYPEMOD_P attnum0) (\<lambda>typmod.
                               if typmod \<noteq> -1
                               then OidFunctionCall env typeinputfunc
                                      [CStringDatum val, ObjectIdDatum InvalidOid,
                                       Int32Datum typmod]
                               else OidFunctionCall env typeinputfunc
                                      [CStringDatum val, ObjectIdDatum InvalidOid])
                        else cret DatumNull) (\<lambda>_.
                 store_bytea env attnum0 val buf_size)))
                rewind_and_rethrow))))
       else reject_conversion env attnum0)"

definition c_string_at :: "string option \<Rightarrow> pg_error + string" where
  \<comment> \<open>reading the characters a \<^verbatim>\<open>char *\<close> points to, as \<^verbatim>\<open>strlen\<close> does\<close>
  "c_string_at p = (case p of None \<Rightarrow> Inl (Crash NullPointerDeref) | Some s \<Rightarrow> Inr s)"

definition convertIfxCharacterString :: "conv_env \<Rightarrow> int \<Rightarrow> Datum conv" where
  "convertIfxCharacterString env attnum0 =
     cbind (PG_ATTRDEF_P attnum0) (\<lambda>pg_def.
       if atttypid pg_def = TEXTOID \<or> atttypid pg_def = VARCHAROID
          \<or> atttypid pg_def = BPCHAROID \<or> atttypid pg_def = BYTEAOID then
         cbind (remote_get (ifxGetText env) (PG_MAPPED_IFX_ATTNUM env attnum0)) (\<lambda>val.
         cbind (IFX_ATTR_ISNULL_P env attnum0) (\<lambda>isnull.
           if isnull then cret DatumNull
           else if atttypid pg_def = TEXTOID \<or> atttypid pg_def = BYTEAOID
                   \<or> (atttypid pg_def = VARCHAROID \<and> atttypmod pg_def = -1) then
             cbind (PG_ATTRTYPE_P attnum0) (\<lambda>t.
               if t = TEXTOID then
                 cbind (clift (c_string_at val)) (\<lambda>v.
                 cbind (IFX_SETVAL_P env attnum0 (TextDatum (take (length v) v))) (\<lambda>_.
                 IFX_GETVAL_P env attnum0))
               else
                 cbind (clift (c_string_at val)) (\<lambda>v.
                 store_bytea env attnum0 val (int (length v))))
           else
             (case type_tuple env (atttypid pg_def) of
                None \<Rightarrow> reject_conversion env attnum0
              | Some conv_tup \<Rightarrow>
                  PG_TRY
                    (let typeinputfunc = typinput conv_tup in
                     OidFunctionCall env typeinputfunc
                       [CStringDatum val, ObjectIdDatum InvalidOid,
                        Int32Datum (atttypmod pg_def)])
                    rewind_and_rethrow)))
       else reject_conversion env attnum0)"

subsection \<open>The routines as one family, and their compatibility table\<close>

datatype conv_routine =
    ConvDateString | ConvTimestampString | ConvDecimal | ConvInt
  | ConvBoolean | ConvSimpleLO | ConvCharacterString

definition run_conversion :: "conv_routine \<Rightarrow> conv_env \<Rightarrow> int \<Rightarrow> Datum conv" where
  "run_conversion r =
     (case r of
        ConvDateString \<Rightarrow> convertIfxDateString
      | ConvTimestampString \<Rightarrow> convertIfxTimestampString
      | ConvDecimal \<Rightarrow> convertIfxDecimal
      | ConvInt \<Rightarrow> convertIfxInt
      | ConvBoolean \<Rightarrow> convertIfxBoolean
      | ConvSimpleLO \<Rightarrow> convertIfxSimpleLO
      | ConvCharacterString \<Rightarrow> convertIfxCharacterString)"

text \<open>
  The compatibility table, as the type switches of the routines give it: which remote
  source type may feed which local target type. Only the integer routine looks at the
  source type. The header comments of the routines list the same target types, but for
  \<open>bytea\<close>, which the character-string routine accepts without listing it.
\<close>

definition compatible :: "conv_routine \<Rightarrow> IfxSourceType \<Rightarrow> Oid \<Rightarrow> bool" where
  "compatible r src tgt =
     (case r of
        ConvDateString \<Rightarrow> tgt \<in> {DATEOID, TEXTOID, VARCHAROID, BPCHAROID}
      | ConvTimestampString \<Rightarrow>
          tgt \<in> {TIMESTAMPOID, TIMESTAMPTZOID, TEXTOID, VARCHAROID, BPCHAROID}
      | ConvDecimal \<Rightarrow> tgt = NUMERICOID
      | ConvInt \<Rightarrow>
          (tgt = INT2OID \<and> src = IFX_SMALLINT)
          \<or> (tgt = INT4OID \<and> src \<in> {IFX_SMALLINT, IFX_INTEGER, IFX_SERIAL})
          \<or> tgt \<in> {INT8OID, TEXTOID, VARCHAROID, BPCHAROID}
      | ConvBoolean \<Rightarrow> tgt \<in> {BOOLOID, CHAROID, TEXTOID, VARCHAROID, BPCHAROID}
      | ConvSimpleLO \<Rightarrow> tgt \<in> {TEXTOID, VARCHAROID, BPCHAROID, BYTEAOID}
      | ConvCharacterString \<Rightarrow> tgt \<in> {TEXTOID, VARCHAROID, BPCHAROID, BYTEAOID})"

text \<open>
  The order the spec asks of every error path: in the log, each error raised by this file
  and each re-throw comes directly after a rewind. The log is read from its newest entry.
\<close>

fun raise_event :: "conv_event \<Rightarrow> bool" where
  "raise_event (EvRaise e) = True"
| "raise_event (EvReThrow e) = True"
| "raise_event EvRewind = False"
| "raise_event (EvCalleeRaise e) = False"

fun rewound_newest_first :: "conv_event list \<Rightarrow> bool" where
  "rewound_newest_first [] = True"
| "rewound_newest_first [ev] = (\<not> raise_event ev)"
| "rewound_newest_first (ev # prev # older) =
     ((raise_event ev \<longrightarrow> prev = EvRewind) \<and> rewound_newest_first (prev # older))"

definition rewind_precedes_raise :: "conv_event list \<Rightarrow> bool" where
  "rewind_precedes_raise events = rewound_newest_first (rev events)"

section \<open>Predicate pushdown analysis of \<^verbatim>\<open>ifx_conv.c\<close>\<close>

text \<open>
  The expression nodes the walker tells apart. \<open>NullNode\<close> is a \<^verbatim>\<open>NULL\<close> pointer;
  \<open>OtherNode\<close> is any node of another tag (a function call, a sub-select, ...) with
  its children.
\<close>

datatype BoolExprType = AND_EXPR | OR_EXPR | NOT_EXPR | BOOLOP_OTHER nat

datatype NullTestType = IS_NULL | IS_NOT_NULL

datatype Node =
    NullNode
  | Var (varno: nat) (varattno: int) (varlevelsup: nat)
  | Const (consttype: Oid) (constvalue: string)
  | BoolExpr (boolop: BoolExprType) (boolargs: "Node list")
  | NullTest (nulltesttype: NullTestType) (ntarg: Node) (argisrow: bool)
  | OpExpr (opno: Oid) (opargs: "Node list")
  | OtherNode (nodetag: nat) (children: "Node list")

datatype IfxOprType =
    IFX_OPR_EQUAL | IFX_OPR_NEQUAL | IFX_OPR_LE | IFX_OPR_GE | IFX_OPR_GT | IFX_OPR_LT
  | IFX_OPR_LIKE | IFX_OPR_AND | IFX_OPR_OR | IFX_OPR_NOT | IFX_OPR_NOT_SUPPORTED
  | IFX_IS_NULL | IFX_IS_NOT_NULL | IFX_OPR_UNKNOWN

text \<open>
  A pushdown fragment. A fresh \<^verbatim>\<open>palloc\<close> leaves \<^verbatim>\<open>type\<close> unassigned (\<open>None\<close>) until
  the code sets it; \<^verbatim>\<open>expr\<close> and \<^verbatim>\<open>expr_string\<close> are pointers (\<open>None\<close> is \<^verbatim>\<open>NULL\<close>).
\<close>

record IfxPushdownOprInfo =
  opr_type :: "IfxOprType option"
  expr :: "Node option"
  expr_string :: "string option"

record IfxPushdownOprContext =
  foreign_relid :: Oid
  foreign_rtid :: nat
  predicates :: "IfxPushdownOprInfo list"
  pd_count :: int

text \<open>
  What the analysis asks of PostgreSQL: the operator catalog (name and namespace of an
  operator Oid, \<open>None\<close> when the cache has no such operator), and the expression printer
  with the relation of its deparse context.
\<close>

record pushdown_env =
  operator_tuple :: "Oid \<Rightarrow> (string \<times> Oid) option"
  deparse_expression :: "Node \<Rightarrow> Oid \<Rightarrow> string"

definition PG_CATALOG_NAMESPACE :: Oid where
  "PG_CATALOG_NAMESPACE = 11"

definition mapPushdownOperator ::
  "pushdown_env \<Rightarrow> Oid \<Rightarrow> IfxPushdownOprInfo \<Rightarrow> pg_error + (IfxOprType \<times> IfxPushdownOprInfo)" where
  "mapPushdownOperator env oprid pushdownInfo =
     (case operator_tuple env oprid of
        None \<Rightarrow> Inl (Elog ''cache lookup failed for operator %u'' [ArgNum (int oprid)])
      | Some (oprname, oprnamespace) \<Rightarrow>
          if oprnamespace \<noteq> PG_CATALOG_NAMESPACE then Inr (IFX_OPR_NOT_SUPPORTED, pushdownInfo)
          else if oprname = ''>=''
          then Inr (IFX_OPR_GE, pushdownInfo\<lparr>opr_type := Some IFX_OPR_GE\<rparr>)
          else if oprname = ''<=''
          then Inr (IFX_OPR_LE, pushdownInfo\<lparr>opr_type := Some IFX_OPR_LE\<rparr>)
          else if oprname = ''<''
          then Inr (IFX_OPR_LT, pushdownInfo\<lparr>opr_type := Some IFX_OPR_LT\<rparr>)
          else if oprname = ''>''
          then Inr (IFX_OPR_GT, pushdownInfo\<lparr>opr_type := Some IFX_OPR_GT\<rparr>)
          else if oprname = ''=''
          then Inr (IFX_OPR_EQUAL, pushdownInfo\<lparr>opr_type := Some IFX_OPR_EQUAL\<rparr>)
          else if oprname = ''<>''
          then Inr (IFX_OPR_NEQUAL, pushdownInfo\<lparr>opr_type := Some IFX_OPR_NEQUAL\<rparr>)
          else if oprname = ''~~''
          then Inr (IFX_OPR_LIKE, pushdownInfo\<lparr>opr_type := Some IFX_OPR_LIKE\<rparr>)
          else Inr (IFX_OPR_NOT_SUPPORTED,
                    pushdownInfo\<lparr>opr_type := Some IFX_OPR_NOT_SUPPORTED\<rparr>))"

fun ChangeVarNodes :: "Node \<Rightarrow> nat \<Rightarrow> nat \<Rightarrow> nat \<Rightarrow> Node" where
  \<comment> \<open>PostgreSQL's \<^verbatim>\<open>ChangeVarNodes(node, rt_index, new_index, sublevels_up)\<close> on the nodes
      above: a variable of relation \<open>rt_index\<close> at that query level is renumbered\<close>
  "ChangeVarNodes NullNode rt_index new_index sublevels_up = NullNode"
| "ChangeVarNodes (Var vno attno lvl) rt_index new_index sublevels_up =
     (if lvl = sublevels_up \<and> vno = rt_index then Var new_index attno lvl
      else Var vno attno lvl)"
| "ChangeVarNodes (Const t v) rt_index new_index sublevels_up = Const t v"
| "ChangeVarNodes (BoolExpr b args) rt_index new_index sublevels_up =
     BoolExpr b (map (\<lambda>a. ChangeVarNodes a rt_index new_index sublevels_up) args)"
| "ChangeVarNodes (NullTest k a isrow) rt_index new_index sublevels_up =
     NullTest k (ChangeVarNodes a rt_index new_index sublevels_up) isrow"
| "ChangeVarNodes (OpExpr oprid args) rt_index new_index sublevels_up =
     OpExpr oprid (map (\<lambda>a. ChangeVarNodes a rt_index new_index sublevels_up) args)"
| "ChangeVarNodes (OtherNode tag args) rt_index new_index sublevels_up =
     OtherNode tag (map (\<lambda>a. ChangeVarNodes a rt_index new_index sublevels_up) args)"

definition IFX_MARK_PREDICATE_ELEM ::
  "IfxPushdownOprInfo \<Rightarrow> IfxPushdownOprContext \<Rightarrow> IfxPushdownOprContext" where
  "IFX_MARK_PREDICATE_ELEM a b = b\<lparr>predicates := predicates b @ [a], pd_count := pd_count b + 1\<rparr>"

definition IFX_MARK_PREDICATE_BOOL ::
  "IfxPushdownOprInfo \<Rightarrow> IfxPushdownOprContext \<Rightarrow> IfxPushdownOprContext" where
  "IFX_MARK_PREDICATE_BOOL a b = b\<lparr>predicates := predicates b @ [a], pd_count := pd_count b + 1\<rparr>"

definition deparse_predicate_node ::
  "pushdown_env \<Rightarrow> Node \<Rightarrow> IfxPushdownOprContext \<Rightarrow> IfxPushdownOprInfo \<Rightarrow> IfxPushdownOprInfo" where
  \<comment> \<open>the copy is renumbered and printed; \<open>info\<close> gets the text\<close>
  "deparse_predicate_node env node ctx info =
     (let copy_obj = node;
          copy_obj = ChangeVarNodes copy_obj (foreign_rtid ctx) 1 0;
          dpc = foreign_relid ctx
      in info\<lparr>expr_string := Some (deparse_expression env copy_obj dpc)\<rparr>)"

definition mark_and_deparse ::
  "pushdown_env \<Rightarrow> Node \<Rightarrow> IfxPushdownOprInfo \<Rightarrow> IfxPushdownOprContext \<Rightarrow> IfxPushdownOprContext" where
  \<comment> \<open>\<^verbatim>\<open>IFX_MARK_PREDICATE_ELEM(info, context); deparse_predicate_node(node, context, info);\<close>
      the list holds the pointer \<open>info\<close>, so the text written afterwards is the text of the
      list's newest element\<close>
  "mark_and_deparse env node info ctx =
     (let ctx1 = IFX_MARK_PREDICATE_ELEM info ctx;
          info' = deparse_predicate_node env node ctx1 info
      in ctx1\<lparr>predicates := butlast (predicates ctx1) @ [info']\<rparr>)"

definition bool_marker :: "BoolExprType \<Rightarrow> pg_error + IfxPushdownOprInfo" where
  \<comment> \<open>the fragment pushed between two operands of a boolean expression\<close>
  "bool_marker b =
     (let info = \<lparr> opr_type = None, expr = None, expr_string = None \<rparr> in
      case b of
        AND_EXPR \<Rightarrow> Inr (info\<lparr>opr_type := Some IFX_OPR_AND, expr_string := Some ''AND''\<rparr>)
      | OR_EXPR \<Rightarrow> Inr (info\<lparr>opr_type := Some IFX_OPR_OR, expr_string := Some ''OR''\<rparr>)
      | NOT_EXPR \<Rightarrow> Inr (info\<lparr>opr_type := Some IFX_OPR_NOT, expr_string := Some ''NOT''\<rparr>)
      | BOOLOP_OTHER k \<Rightarrow> Inl (Elog ''unsupported boolean expression type'' []))"

fun operands_supported :: "nat \<Rightarrow> Node list \<Rightarrow> pg_error + bool" where
  \<comment> \<open>the loop over \<^verbatim>\<open>opr->args\<close>; it leaves at the first operand it does not support\<close>
  "operands_supported rtid [] = Inr True"
| "operands_supported rtid (NullNode # rest) = Inl (Crash NullPointerDeref)"
| "operands_supported rtid (Var vno attno lvl # rest) =
     (if vno \<noteq> rtid \<or> lvl \<noteq> 0 then Inr False else operands_supported rtid rest)"
| "operands_supported rtid (Const t v # rest) = operands_supported rtid rest"
| "operands_supported rtid (other # rest) = Inr False"

fun nulltest_operand_supported :: "nat \<Rightarrow> Node \<Rightarrow> pg_error + bool" where
  "nulltest_operand_supported rtid NullNode = Inl (Crash NullPointerDeref)"
| "nulltest_operand_supported rtid (Var vno attno lvl) = Inr (\<not> (vno \<noteq> rtid \<or> lvl \<noteq> 0))"
| "nulltest_operand_supported rtid other = Inr False"

fun ifx_predicate_tree_walker ::
  "pushdown_env \<Rightarrow> Node \<Rightarrow> IfxPushdownOprContext \<Rightarrow> pg_error + (bool \<times> IfxPushdownOprContext)"
and walk_bool_args ::
  "pushdown_env \<Rightarrow> BoolExprType \<Rightarrow> Node list \<Rightarrow> IfxPushdownOprContext
     \<Rightarrow> pg_error + IfxPushdownOprContext" where
  "ifx_predicate_tree_walker env NullNode ctx = Inr (False, ctx)"
| "ifx_predicate_tree_walker env (BoolExpr b args) ctx =
     (case walk_bool_args env b args ctx of
        Inl e \<Rightarrow> Inl e
      | Inr ctx' \<Rightarrow> Inr (True, ctx'))"
| "ifx_predicate_tree_walker env (NullTest k arg isrow) ctx =
     (let info = \<lparr> opr_type = None, expr = Some (NullTest k arg isrow), expr_string = None \<rparr> in
      if isrow then Inr (True, ctx)
      else
        (let info = (case k of IS_NULL \<Rightarrow> info\<lparr>opr_type := Some IFX_IS_NULL\<rparr>
                             | IS_NOT_NULL \<Rightarrow> info\<lparr>opr_type := Some IFX_IS_NOT_NULL\<rparr>) in
         case nulltest_operand_supported (foreign_rtid ctx) arg of
           Inl e \<Rightarrow> Inl e
         | Inr operand_supported \<Rightarrow>
             if \<not> operand_supported then Inr (True, ctx)
             else Inr (False, mark_and_deparse env (NullTest k arg isrow) info ctx)))"
| "ifx_predicate_tree_walker env (OpExpr oprid args) ctx =
     (let info = \<lparr> opr_type = None, expr = Some (OpExpr oprid args), expr_string = None \<rparr> in
      case mapPushdownOperator env oprid info of
        Inl e \<Rightarrow> Inl e
      | Inr (t, info) \<Rightarrow>
          if t \<noteq> IFX_OPR_NOT_SUPPORTED then
            (case operands_supported (foreign_rtid ctx) args of
               Inl e \<Rightarrow> Inl e
             | Inr operand_supported \<Rightarrow>
                 if \<not> operand_supported then Inr (True, ctx)
                 else Inr (False, mark_and_deparse env (OpExpr oprid args) info ctx))
          else Inr (True, ctx))"
| "ifx_predicate_tree_walker env (Var vno attno lvl) ctx = Inr (False, ctx)"
| "ifx_predicate_tree_walker env (Const t v) ctx = Inr (False, ctx)"
| "ifx_predicate_tree_walker env (OtherNode tag args) ctx = Inr (False, ctx)"
| "walk_bool_args env b [] ctx = Inr ctx"
| "walk_bool_args env b (bool_arg # rest) ctx =
     (case ifx_predicate_tree_walker env bool_arg ctx of
        Inl e \<Rightarrow> Inl e
      | Inr (r, ctx1) \<Rightarrow>
          if rest \<noteq> [] then
            (case bool_marker b of
               Inl e \<Rightarrow> Inl e
             | Inr info \<Rightarrow> walk_bool_args env b rest (IFX_MARK_PREDICATE_BOOL info ctx1))
          else walk_bool_args env b rest ctx1)"

section \<open>The pushdown analysis in the words of the spec\<close>

text \<open>
  Section 4.3 of the spec, as functions of their own, to compare the walker with.
  A comparison is pushed when its operator is one of the seven symbols and lives in the
  built-in namespace, and each operand is a column of the target relation at the query level
  of the scan, or a constant. A boolean expression yields the fragments of its operands in
  order, with one connective marker after each operand but the last. A null test is pushed
  when it is not on a composite value and its operand is a column of the target relation.
  Every other node yields nothing.
\<close>

definition spec_pushable_operator :: "pushdown_env \<Rightarrow> Oid \<Rightarrow> bool" where
  "spec_pushable_operator env oprid =
     (case operator_tuple env oprid of
        None \<Rightarrow> False
      | Some (oprname, oprnamespace) \<Rightarrow>
          oprnamespace = PG_CATALOG_NAMESPACE
          \<and> oprname \<in> set [''>='', ''<='', ''<'', ''>'', ''='', ''<>'', ''~~''])"

fun spec_pushable_operand :: "nat \<Rightarrow> Node \<Rightarrow> bool" where
  "spec_pushable_operand rtid (Var vno attno lvl) = (vno = rtid \<and> lvl = 0)"
| "spec_pushable_operand rtid (Const t v) = True"
| "spec_pushable_operand rtid other = False"

definition spec_operator_tag :: "string \<Rightarrow> IfxOprType" where
  "spec_operator_tag oprname =
     (if oprname = ''>='' then IFX_OPR_GE else if oprname = ''<='' then IFX_OPR_LE
      else if oprname = ''<'' then IFX_OPR_LT else if oprname = ''>'' then IFX_OPR_GT
      else if oprname = ''='' then IFX_OPR_EQUAL else if oprname = ''<>'' then IFX_OPR_NEQUAL
      else if oprname = ''~~'' then IFX_OPR_LIKE else IFX_OPR_NOT_SUPPORTED)"

definition spec_leaf_fragment ::
  "pushdown_env \<Rightarrow> nat \<Rightarrow> Oid \<Rightarrow> IfxOprType \<Rightarrow> Node \<Rightarrow> IfxPushdownOprInfo" where
  "spec_leaf_fragment env rtid relid tag node =
     \<lparr> opr_type = Some tag, expr = Some node,
       expr_string = Some (deparse_expression env (ChangeVarNodes node rtid 1 0) relid) \<rparr>"

definition spec_connective :: "BoolExprType \<Rightarrow> IfxPushdownOprInfo" where
  "spec_connective b =
     (case b of
        AND_EXPR \<Rightarrow> \<lparr> opr_type = Some IFX_OPR_AND, expr = None, expr_string = Some ''AND'' \<rparr>
      | OR_EXPR \<Rightarrow> \<lparr> opr_type = Some IFX_OPR_OR, expr = None, expr_string = Some ''OR'' \<rparr>
      | NOT_EXPR \<Rightarrow> \<lparr> opr_type = Some IFX_OPR_NOT, expr = None, expr_string = Some ''NOT'' \<rparr>
      | BOOLOP_OTHER k \<Rightarrow> \<lparr> opr_type = None, expr = None, expr_string = None \<rparr>)"

fun spec_interleave :: "'a \<Rightarrow> 'a list list \<Rightarrow> 'a list" where
  "spec_interleave m [] = []"
| "spec_interleave m [x] = x"
| "spec_interleave m (x # y # rest) = x @ [m] @ spec_interleave m (y # rest)"

fun spec_fragments :: "pushdown_env \<Rightarrow> nat \<Rightarrow> Oid \<Rightarrow> Node \<Rightarrow> IfxPushdownOprInfo list" where
  "spec_fragments env rtid relid (BoolExpr b args) =
     spec_interleave (spec_connective b) (map (spec_fragments env rtid relid) args)"
| "spec_fragments env rtid relid (OpExpr oprid args) =
     (if spec_pushable_operator env oprid \<and> list_all (spec_pushable_operand rtid) args
      then [spec_leaf_fragment env rtid relid
              (spec_operator_tag (fst (the (operator_tuple env oprid)))) (OpExpr oprid args)]
      else [])"
| "spec_fragments env rtid relid (NullTest k arg isrow) =
     (if \<not> isrow \<and> (case arg of Var vno attno lvl \<Rightarrow> vno = rtid \<and> lvl = 0 | _ \<Rightarrow> False)
      then [spec_leaf_fragment env rtid relid
              (case k of IS_NULL \<Rightarrow> IFX_IS_NULL | IS_NOT_NULL \<Rightarrow> IFX_IS_NOT_NULL)
              (NullTest k arg isrow)]
      else [])"
| "spec_fragments env rtid relid other = []"

definition pushed ::
  "IfxPushdownOprContext \<Rightarrow> IfxPushdownOprInfo list \<Rightarrow> IfxPushdownOprContext" where
  \<comment> \<open>the context after the fragments \<open>frags\<close> were appended to its sequence, in order\<close>
  "pushed ctx frags =
     ctx\<lparr>predicates := predicates ctx @ frags, pd_count := pd_count ctx + int (length frags)\<rparr>"

text \<open>
  The expression trees on which the walker does not fail: every operator is in the
  catalog, no operand pointer is \<^verbatim>\<open>NULL\<close>, and every boolean expression is an AND, an
  OR or a NOT.
\<close>

fun analysable :: "pushdown_env \<Rightarrow> Node \<Rightarrow> bool" where
  "analysable env (BoolExpr b args) =
     (b \<in> {AND_EXPR, OR_EXPR, NOT_EXPR} \<and> list_all (analysable env) args)"
| "analysable env (OpExpr oprid args) = (operator_tuple env oprid \<noteq> None \<and> NullNode \<notin> set args)"
| "analysable env (NullTest k arg isrow) = (arg \<noteq> NullNode)"
| "analysable env other = True"

definition marked_not_valid ::
  "conv_env \<Rightarrow> int \<Rightarrow> IfxFdwExecutionState \<Rightarrow> IfxFdwExecutionState" where
  \<comment> \<open>the state with the remote column of one local attribute marked "not convertible" and
      nothing else changed\<close>
  "marked_not_valid env attnum0 s =
     (let m = nat (PG_MAPPED_IFX_ATTNUM env attnum0);
          defs = ifxAttrDefs (stmt_info s)
      in s\<lparr>stmt_info := (stmt_info s)\<lparr>ifxAttrDefs :=
             defs[m := (defs ! m)\<lparr>indicator := INDICATOR_NOT_VALID\<rparr>]\<rparr>\<rparr>)"

definition keeps_order :: "'a conv \<Rightarrow> bool" where
  \<comment> \<open>a step that never breaks the order: from a log in which a rewind precedes every raise
      it leads to such a log\<close>
  "keeps_order m =
     (\<forall>s. rewind_precedes_raise (call_log s)
          \<longrightarrow> rewind_precedes_raise (call_log (snd (m s))))"

section \<open>Concrete inputs\<close>

text \<open>The inputs at which the theorems below are evaluated.\<close>

definition empty_cache :: InformixCache where
  "empty_cache = \<lparr> connections = Map.empty, tables = Map.empty, top_context = [] \<rparr>"

definition coninfo_stores :: IfxConnectionInfo where
  "coninfo_stores =
     \<lparr> conname = ''informix-stores-ol_srv'',
       servername = Some ''ol_srv'', informixdir = Some ''/opt/informix'',
       username = Some ''informix'', database = Some ''stores'',
       password = None, tablename = Some ''customer'', query = None,
       db_locale = Some ''en_US.utf8'', client_locale = None,
       tx_enabled = 1, db_ansi = 0, scan_mode = IFX_PLAN_SCAN,
       planData = \<lparr> estimated_rows = 100, connection_costs = 100 \<rparr> \<rparr>"

definition stores_entry :: "string \<Rightarrow> 32 word \<Rightarrow> IfxCachedConnection" where
  \<comment> \<open>the entry \<open>ifxConnCache_add\<close> makes of \<open>coninfo_stores\<close> for table 16384 under a key,
      with its usage counter at a given value\<close>
  "stores_entry key u =
     \<lparr> ifx_key = key, establishedByOid = 16384,
       con = \<lparr> con_servername = ''ol_srv'', con_informixdir = ''/opt/informix'',
               con_username = ''informix'', con_database = ''stores'',
               con_db_locale = Some ''en_US.utf8'', con_client_locale = None,
               con_tx_enabled = 1, con_db_ansi = 0,
               con_tx_in_progress = 0, con_tx_num_commit = 0, con_tx_num_rollback = 0,
               con_usage = u \<rparr> \<rparr>"

definition stores_cache :: "string \<Rightarrow> 32 word \<Rightarrow> InformixCache" where
  \<comment> \<open>the cache that holds that entry and nothing else\<close>
  "stores_cache key u =
     \<lparr> connections = [key \<mapsto> stores_entry key u], tables = Map.empty,
       top_context = [''ol_srv'', ''/opt/informix'', ''informix'', ''stores'', ''en_US.utf8''] \<rparr>"

definition name_x :: string where
  \<comment> \<open>two connection names of 64 characters that differ in the last one\<close>
  "name_x = replicate 63 (CHR ''a'') @ ''x''"

definition name_y :: string where
  "name_y = replicate 63 (CHR ''a'') @ ''y''"

definition remote_one_row :: scan_remote where
  \<comment> \<open>the fetch succeeded; every integer column of the row holds 42\<close>
  "remote_one_row = \<lparr> fetch_class = IFX_SUCCESS, ifxGetInt = (\<lambda>defs pos. (42, defs)) \<rparr>"

definition int_column :: IfxAttrDef where
  "int_column = \<lparr> ifx_type = IFX_INTEGER, indicator = INDICATOR_NOT_NULL \<rparr>"

definition pg_int_column :: PgAttrDef where
  "pg_int_column = \<lparr> attnum = 1, atttypid = 23, atttypmod = -1, attname = ''id'' \<rparr>"

definition state_one_dropped :: IfxFdwExecutionState_scan where
  \<comment> \<open>a local table whose only column is dropped, over a remote result of one integer column\<close>
  "state_one_dropped =
     \<lparr> ifxAttrCount = 1, ifxAttrDefs_ptrs = [Ptr int_column, NULL_ptr],
       pgAttrCount = 1, pgAttrDefs_ptrs = [NULL_ptr, Uninit_ptr],
       ifx_values_ptrs = [] \<rparr>"

definition state_one_live :: IfxFdwExecutionState_scan where
  \<comment> \<open>a local table of one integer column over a remote result of one integer column\<close>
  "state_one_live =
     \<lparr> ifxAttrCount = 1, ifxAttrDefs_ptrs = [Ptr int_column, NULL_ptr],
       pgAttrCount = 1, pgAttrDefs_ptrs = [Ptr pg_int_column, Uninit_ptr],
       ifx_values_ptrs = [] \<rparr>"

definition state_two_columns :: IfxFdwExecutionState_scan where
  \<comment> \<open>two integer columns on both sides\<close>
  "state_two_columns =
     \<lparr> ifxAttrCount = 2, ifxAttrDefs_ptrs = [Ptr int_column, Ptr int_column, NULL_ptr],
       pgAttrCount = 2, pgAttrDefs_ptrs = [Ptr pg_int_column, Ptr pg_int_column, Uninit_ptr],
       ifx_values_ptrs = [] \<rparr>"

definition fresh_slot :: TupleTableSlot where
  "fresh_slot = \<lparr> tts_isempty = True, tts_nvalid = 0, tts_values = [], tts_isnull = [] \<rparr>"

definition sample_operators :: "Oid \<Rightarrow> (string \<times> Oid) option" where
  \<comment> \<open>the built-in \<open>int4 > int4\<close> (521), \<open>text = text\<close> (98) and \<open>text ~~ text\<close> (1209), and a
      user-defined \<open>>\<close> of the schema \<open>public\<close> (namespace 2200)\<close>
  "sample_operators oprid =
     (if oprid = 521 then Some (''>'', 11)
      else if oprid = 98 then Some (''='', 11)
      else if oprid = 1209 then Some (''~~'', 11)
      else if oprid = 16501 then Some (''>'', 2200)
      else None)"

fun sample_deparse :: "Node \<Rightarrow> Oid \<Rightarrow> string" where
  \<comment> \<open>a printer for comparisons of column \<open>a\<close> (attribute 1) or \<open>b\<close> with a constant\<close>
  "sample_deparse (OpExpr oprid [Var vno attno lvl, Const t v]) relid =
     ''('' @ (if attno = 1 then ''a'' else ''b'')
           @ (if oprid = 521 then '' > '' else '' = '') @ v @ '')''"
| "sample_deparse node relid = ''(expr)''"

definition sample_env :: pushdown_env where
  "sample_env = \<lparr> operator_tuple = sample_operators, deparse_expression = sample_deparse \<rparr>"

definition sample_ctx :: IfxPushdownOprContext where
  \<comment> \<open>the foreign table is relation 16384, entry 2 of the range table\<close>
  "sample_ctx = \<lparr> foreign_relid = 16384, foreign_rtid = 2, predicates = [], pd_count = 0 \<rparr>"

definition a_gt_5 :: Node where
  "a_gt_5 = OpExpr 521 [Var 2 1 0, Const 23 ''5'']"

definition b_eq_x :: Node where
  "b_eq_x = OpExpr 98 [Var 2 2 0, Const 25 ''x'']"

definition a_gt_subselect :: Node where
  \<comment> \<open>\<open>a > (SELECT ...)\<close>: the right operand is a node of another kind\<close>
  "a_gt_subselect = OpExpr 521 [Var 2 1 0, OtherNode 1 []]"

definition a_user_gt_5 :: Node where
  \<comment> \<open>the same comparison through the user-defined operator\<close>
  "a_user_gt_5 = OpExpr 16501 [Var 2 1 0, Const 23 ''5'']"

definition outer_gt_5 :: Node where
  \<comment> \<open>a column of the target relation, but of an outer query level\<close>
  "outer_gt_5 = OpExpr 521 [Var 2 1 1, Const 23 ''5'']"

definition env_without_bpchar :: conv_env where
  \<comment> \<open>columns map to themselves; the type cache has every type but \<open>bpchar\<close>; there is no
      cast function; every called function returns; the row holds one value per reader\<close>
  "env_without_bpchar =
     \<lparr> PG_MAPPED_IFX_ATTNUM = (\<lambda>a. a),
       type_tuple = (\<lambda>t. if t = BPCHAROID then None
                          else Some \<lparr> typinput = 1000 + t, typoutput = 2000 + t \<rparr>),
       cast_tuple = (\<lambda>src tgt. None),
       fmgr_call = (\<lambda>f args. Inr (DatumResult f)),
       ifxGetDateAsString = (\<lambda>si pos. (Some ''2012-05-01'', si)),
       ifxGetTimestampAsString = (\<lambda>si pos. (Some ''2012-05-01 12:00:00'', si)),
       ifxGetDecimal = (\<lambda>si pos. (Some ''3.14'', si)),
       ifxGetInt2 = (\<lambda>si pos. (7, si)),
       ifxGetInt4 = (\<lambda>si pos. (42, si)),
       ifxGetInt8 = (\<lambda>si pos. (Some ''9223372036854775807'', si)),
       ifxGetBigInt = (\<lambda>si pos. (Some ''9223372036854775807'', si)),
       ifxGetBool = (\<lambda>si pos. (CHR ''t'', si)),
       ifxGetTextFromLocator = (\<lambda>si pos. ((Some ''abc'', 3), si)),
       ifxGetText = (\<lambda>si pos. (Some ''abc'', si)) \<rparr>"

definition two_column_state :: IfxFdwExecutionState where
  \<comment> \<open>local columns \<open>id int2\<close> and \<open>name bpchar(10)\<close> over remote columns of type INTEGER
      and CHAR; a remote diagnostic state is pending; nothing has been logged\<close>
  "two_column_state =
     \<lparr> stmt_info =
         \<lparr> ifxAttrDefs = [\<lparr> ifx_type = IFX_INTEGER, indicator = INDICATOR_NOT_NULL \<rparr>,
                          \<lparr> ifx_type = IFX_OTHER_TYPE 0, indicator = INDICATOR_NOT_NULL \<rparr>],
           pending_diag = True \<rparr>,
       pgAttrDefs = [\<lparr> attnum = 1, atttypid = INT2OID, atttypmod = -1, attname = ''id'' \<rparr>,
                     \<lparr> attnum = 2, atttypid = BPCHAROID, atttypmod = 14, attname = ''name'' \<rparr>],
       ifx_values = [\<lparr> ifx_val = DatumNull \<rparr>, \<lparr> ifx_val = DatumNull \<rparr>],
       call_log = [] \<rparr>"




chapter \<open>Theorems\<close>

section \<open>The connection cache\<close>

lemma conn_key_short:
  "length name < n \<Longrightarrow> conn_key n name = name"
  by (simp add: conn_key_def)

lemma ifxConnCache_add_first:
  assumes "connections cache (take (n - 1) (conname c)) = None"
    and "servername c = Some sv" and "informixdir c = Some dir"
    and "username c = Some us" and "database c = Some db"
  shows "\<exists>item cache'.
     ifxConnCache_add n cache oid c = Inr (item, False, cache') \<and>
     connections cache' = (connections cache)(take (n - 1) (conname c) \<mapsto> item) \<and>
     tables cache' = tables cache \<and>
     top_context cache' = top_context cache @ [sv, dir, us, db]
        @ (case db_locale c of None \<Rightarrow> [] | Some l \<Rightarrow> [l])
        @ (case client_locale c of None \<Rightarrow> [] | Some l \<Rightarrow> [l]) \<and>
     ifx_key item = take (n - 1) (conname c) \<and> establishedByOid item = oid \<and>
     con_servername (con item) = sv \<and> con_informixdir (con item) = dir \<and>
     con_username (con item) = us \<and> con_database (con item) = db \<and>
     con_db_locale (con item) = db_locale c \<and>
     con_client_locale (con item) = client_locale c \<and>
     con_tx_enabled (con item) = tx_enabled c \<and> con_db_ansi (con item) = db_ansi c \<and>
     con_usage (con item) = 1 \<and> con_tx_in_progress (con item) = 0 \<and>
     con_tx_num_commit (con item) = 0 \<and> con_tx_num_rollback (con item) = 0"
  using assms
  by (auto simp: ifxConnCache_add_def conn_key_def pstrdup_def pstrdup_nullable_def Let_def
           split: option.splits)

lemma ifxConnCache_add_null_parameter:
  assumes "connections cache (take (n - 1) (conname c)) = None"
    and "servername c = None \<or> informixdir c = None \<or> username c = None \<or> database c = None"
  shows "ifxConnCache_add n cache oid c = Inl (Crash NullPointerDeref)"
  using assms
  by (auto simp: ifxConnCache_add_def conn_key_def pstrdup_def Let_def split: option.splits)

lemma ifxConnCache_add_later:
  assumes "connections cache (take (n - 1) (conname c)) = Some e"
  shows "\<exists>item cache'.
     ifxConnCache_add n cache oid c = Inr (item, True, cache') \<and>
     item = e\<lparr>con := (con e)\<lparr>con_usage :=
                 con_usage (con e) + (if scan_mode c = IFX_PLAN_SCAN then 1 else 0)\<rparr>\<rparr> \<and>
     connections cache' = (connections cache)(take (n - 1) (conname c) \<mapsto> item) \<and>
     tables cache' = tables cache \<and> top_context cache' = top_context cache"
  using assms
  by (auto simp: ifxConnCache_add_def conn_key_def Let_def)

lemma usage_incr_below_INT_MAX:
  fixes u :: "32 word"
  assumes "sint u < 2147483647"
  shows "sint (u + 1) = sint u + 1"
proof -
  have "- (2 ^ 31) \<le> sint u"
    using sint_ge [of u] by simp
  with assms have "signed_take_bit 31 (sint u + 1) = sint u + 1"
    by (intro signed_take_bit_int_eq_self) simp_all
  then show ?thesis
    by (simp add: sint_word_add)
qed

lemma INT_MIN_word:
  "(2147483648 :: 32 word) = - 2147483648"
  by simp

lemma usage_incr_at_INT_MAX:
  fixes u :: "32 word"
  assumes "sint u = 2147483647"
  shows "sint (u + 1) = - 2147483648"
  using assms by (simp add: sint_word_add)

text \<open>
  \<^bold>\<open>C3.\<close> The claim: for every connection identity, the first \<open>ifxConnCache_add\<close> call
  creates a cache entry owning copies of the connection parameters, with usage counter 1
  and the three transaction counters 0; every later call with the same identity returns
  that same entry without duplicating stored parameters, incrementing usage by exactly 1
  when the caller's scan mode is \<open>IFX_PLAN_SCAN\<close> and leaving it unchanged otherwise.
  The claim as stated fails at three inputs.
  \<^item> The code copies the server name, the Informix directory, the user name and the
    database with \<^verbatim>\<open>pstrdup\<close> and no \<^verbatim>\<open>NULL\<close> check (only the two locales "can be
    NULL"): with \<^verbatim>\<open>coninfo->informixdir == NULL\<close> the first call reads through
    \<^verbatim>\<open>NULL\<close> and returns no entry.
  \<^item> The usage counter is a C \<^verbatim>\<open>int\<close>: at 2147483647 a call for a new scan leaves it at
    -2147483648, not one higher.
  \<^item> The hash table reads at most \<^verbatim>\<open>IFX_CONNAME_LEN - 1\<close> characters of a connection
    name, while \<^verbatim>\<open>coninfo->conname\<close> has room for \<^verbatim>\<open>IFX_CONNAME_LEN\<close> of them: with
    \<^verbatim>\<open>IFX_CONNAME_LEN\<close> = 64, the first call for \<open>name_y\<close> after a call for \<open>name_x\<close> does
    not create an entry; it finds the one of \<open>name_x\<close>, server name and all.
\<close>

theorem ifxConnCache_add_null_parameter_counter_wrap_and_cut_name:
  "ifxConnCache_add 64 empty_cache 16384 (coninfo_stores\<lparr>informixdir := None\<rparr>)
     = Inl (Crash NullPointerDeref)
   \<and> sint (con_usage (con (stores_entry ''informix-stores-ol_srv'' 2147483647))) = 2147483647
   \<and> ifxConnCache_add 64 (stores_cache ''informix-stores-ol_srv'' 2147483647) 16385
        coninfo_stores
     = Inr (stores_entry ''informix-stores-ol_srv'' (- 2147483648), True,
            stores_cache ''informix-stores-ol_srv'' (- 2147483648))
   \<and> sint (con_usage (con (stores_entry ''informix-stores-ol_srv'' (- 2147483648))))
     = - 2147483648
   \<and> name_x \<noteq> name_y
   \<and> ifxConnCache_add 64 empty_cache 16384 (coninfo_stores\<lparr>conname := name_x\<rparr>)
     = Inr (stores_entry (replicate 63 (CHR ''a'')) 1, False,
            stores_cache (replicate 63 (CHR ''a'')) 1)
   \<and> ifxConnCache_add 64 (stores_cache (replicate 63 (CHR ''a'')) 1) 16385
        (coninfo_stores\<lparr>conname := name_y, servername := Some ''other_srv''\<rparr>)
     = Inr (stores_entry (replicate 63 (CHR ''a'')) 2, True,
            stores_cache (replicate 63 (CHR ''a'')) 2)"
  by (simp add: ifxConnCache_add_def conn_key_def pstrdup_def pstrdup_nullable_def
        empty_cache_def coninfo_stores_def stores_entry_def stores_cache_def
        name_x_def name_y_def Let_def INT_MIN_word [symmetric])

text \<open>
  \<^bold>\<open>C3, as amended.\<close> The connection identity is the connection name as the hash table
  reads it: its first \<^verbatim>\<open>IFX_CONNAME_LEN - 1\<close> characters, which is the whole name when the
  name is shorter than \<^verbatim>\<open>IFX_CONNAME_LEN\<close>. For every connection identity, a call of
  \<open>ifxConnCache_add\<close> that finds no entry under it, with the server name, the Informix
  directory, the user name and the database present, creates one: it reports
  \<open>found = False\<close>, the entry is stored under the identity and holds copies of those four
  parameters and of the two optional locales (each copy is a new string of
  \<^verbatim>\<open>TopMemoryContext\<close>), its usage counter is 1 and its transaction-in-progress, commit
  and rollback counters are 0; with one of the four parameters \<^verbatim>\<open>NULL\<close> the call reads
  through \<^verbatim>\<open>NULL\<close> instead. Every call that finds an entry under the identity reports
  \<open>found = True\<close> and returns that entry, with every stored parameter as it was and no
  string copied; when the caller's scan mode is \<open>IFX_PLAN_SCAN\<close> the usage counter has
  grown by exactly 1 if it was below 2147483647 and is -2147483648 if it was 2147483647;
  otherwise it is unchanged. Entries under other identities are as they were.
\<close>

theorem ifxConnCache_add_create_or_reuse:
  "(connections cache (take (n - 1) (conname c)) = None \<longrightarrow>
    servername c = Some sv \<longrightarrow> informixdir c = Some dir \<longrightarrow>
    username c = Some us \<longrightarrow> database c = Some db \<longrightarrow>
    (\<exists>item cache'.
       ifxConnCache_add n cache oid c = Inr (item, False, cache') \<and>
       connections cache' = (connections cache)(take (n - 1) (conname c) \<mapsto> item) \<and>
       top_context cache' = top_context cache @ [sv, dir, us, db]
          @ (case db_locale c of None \<Rightarrow> [] | Some l \<Rightarrow> [l])
          @ (case client_locale c of None \<Rightarrow> [] | Some l \<Rightarrow> [l]) \<and>
       establishedByOid item = oid \<and>
       con_servername (con item) = sv \<and> con_informixdir (con item) = dir \<and>
       con_username (con item) = us \<and> con_database (con item) = db \<and>
       con_db_locale (con item) = db_locale c \<and>
       con_client_locale (con item) = client_locale c \<and>
       sint (con_usage (con item)) = 1 \<and> sint (con_tx_in_progress (con item)) = 0 \<and>
       sint (con_tx_num_commit (con item)) = 0 \<and> sint (con_tx_num_rollback (con item)) = 0))
   \<and>
   (connections cache (take (n - 1) (conname c)) = None \<longrightarrow>
    (servername c = None \<or> informixdir c = None \<or> username c = None \<or> database c = None) \<longrightarrow>
    ifxConnCache_add n cache oid c = Inl (Crash NullPointerDeref))
   \<and>
   (\<forall>e. connections cache (take (n - 1) (conname c)) = Some e \<longrightarrow>
    (\<exists>item cache'.
       ifxConnCache_add n cache oid c = Inr (item, True, cache') \<and>
       item = e\<lparr>con := (con e)\<lparr>con_usage := con_usage (con item)\<rparr>\<rparr> \<and>
       (scan_mode c = IFX_PLAN_SCAN \<longrightarrow> sint (con_usage (con e)) < 2147483647 \<longrightarrow>
          sint (con_usage (con item)) = sint (con_usage (con e)) + 1) \<and>
       (scan_mode c = IFX_PLAN_SCAN \<longrightarrow> sint (con_usage (con e)) = 2147483647 \<longrightarrow>
          sint (con_usage (con item)) = - 2147483648) \<and>
       (scan_mode c \<noteq> IFX_PLAN_SCAN \<longrightarrow> item = e) \<and>
       connections cache' = (connections cache)(take (n - 1) (conname c) \<mapsto> item) \<and>
       top_context cache' = top_context cache))
   \<and>
   (length (conname c) < n \<longrightarrow> take (n - 1) (conname c) = conname c)"
proof (intro conjI impI allI)
  assume "connections cache (take (n - 1) (conname c)) = None"
    and "servername c = Some sv" and "informixdir c = Some dir"
    and "username c = Some us" and "database c = Some db"
  from ifxConnCache_add_first [OF this, of oid]
  obtain item cache' where
    "ifxConnCache_add n cache oid c = Inr (item, False, cache')"
    "connections cache' = (connections cache)(take (n - 1) (conname c) \<mapsto> item)"
    "top_context cache' = top_context cache @ [sv, dir, us, db]
          @ (case db_locale c of None \<Rightarrow> [] | Some l \<Rightarrow> [l])
          @ (case client_locale c of None \<Rightarrow> [] | Some l \<Rightarrow> [l])"
    "establishedByOid item = oid"
    "con_servername (con item) = sv" "con_informixdir (con item) = dir"
    "con_username (con item) = us" "con_database (con item) = db"
    "con_db_locale (con item) = db_locale c"
    "con_client_locale (con item) = client_locale c"
    "con_usage (con item) = 1" "con_tx_in_progress (con item) = 0"
    "con_tx_num_commit (con item) = 0" "con_tx_num_rollback (con item) = 0"
    by blast
  then show "\<exists>item cache'.
       ifxConnCache_add n cache oid c = Inr (item, False, cache') \<and>
       connections cache' = (connections cache)(take (n - 1) (conname c) \<mapsto> item) \<and>
       top_context cache' = top_context cache @ [sv, dir, us, db]
          @ (case db_locale c of None \<Rightarrow> [] | Some l \<Rightarrow> [l])
          @ (case client_locale c of None \<Rightarrow> [] | Some l \<Rightarrow> [l]) \<and>
       establishedByOid item = oid \<and>
       con_servername (con item) = sv \<and> con_informixdir (con item) = dir \<and>
       con_username (con item) = us \<and> con_database (con item) = db \<and>
       con_db_locale (con item) = db_locale c \<and>
       con_client_locale (con item) = client_locale c \<and>
       sint (con_usage (con item)) = 1 \<and> sint (con_tx_in_progress (con item)) = 0 \<and>
       sint (con_tx_num_commit (con item)) = 0 \<and> sint (con_tx_num_rollback (con item)) = 0"
    by simp
next
  assume "connections cache (take (n - 1) (conname c)) = None"
    and "servername c = None \<or> informixdir c = None \<or> username c = None \<or> database c = None"
  then show "ifxConnCache_add n cache oid c = Inl (Crash NullPointerDeref)"
    by (rule ifxConnCache_add_null_parameter)
next
  fix e
  assume "connections cache (take (n - 1) (conname c)) = Some e"
  from ifxConnCache_add_later [OF this, of oid]
  obtain item cache' where
    run: "ifxConnCache_add n cache oid c = Inr (item, True, cache')"
    and item: "item = e\<lparr>con := (con e)\<lparr>con_usage :=
                 con_usage (con e) + (if scan_mode c = IFX_PLAN_SCAN then 1 else 0)\<rparr>\<rparr>"
    and stored: "connections cache' = (connections cache)(take (n - 1) (conname c) \<mapsto> item)"
    and strings: "top_context cache' = top_context cache"
    by blast
  have same: "item = e\<lparr>con := (con e)\<lparr>con_usage := con_usage (con item)\<rparr>\<rparr>"
    by (simp add: item)
  have up: "scan_mode c = IFX_PLAN_SCAN \<longrightarrow> sint (con_usage (con e)) < 2147483647 \<longrightarrow>
          sint (con_usage (con item)) = sint (con_usage (con e)) + 1"
    by (simp add: item usage_incr_below_INT_MAX)
  have wrap: "scan_mode c = IFX_PLAN_SCAN \<longrightarrow> sint (con_usage (con e)) = 2147483647 \<longrightarrow>
          sint (con_usage (con item)) = - 2147483648"
    by (simp add: item usage_incr_at_INT_MAX)
  have keep: "scan_mode c \<noteq> IFX_PLAN_SCAN \<longrightarrow> item = e"
    by (simp add: item)
  from run same up wrap keep stored strings
  show "\<exists>item cache'.
       ifxConnCache_add n cache oid c = Inr (item, True, cache') \<and>
       item = e\<lparr>con := (con e)\<lparr>con_usage := con_usage (con item)\<rparr>\<rparr> \<and>
       (scan_mode c = IFX_PLAN_SCAN \<longrightarrow> sint (con_usage (con e)) < 2147483647 \<longrightarrow>
          sint (con_usage (con item)) = sint (con_usage (con e)) + 1) \<and>
       (scan_mode c = IFX_PLAN_SCAN \<longrightarrow> sint (con_usage (con e)) = 2147483647 \<longrightarrow>
          sint (con_usage (con item)) = - 2147483648) \<and>
       (scan_mode c \<noteq> IFX_PLAN_SCAN \<longrightarrow> item = e) \<and>
       connections cache' = (connections cache)(take (n - 1) (conname c) \<mapsto> item) \<and>
       top_context cache' = top_context cache"
    by blast
next
  assume "length (conname c) < n"
  then show "take (n - 1) (conname c) = conname c"
    by simp
qed

text \<open>
  The theorem at work, with \<^verbatim>\<open>IFX_CONNAME_LEN\<close> = 64: on an empty cache the first call
  creates the entry with usage 1; a second call for a new scan returns it with usage 2; a
  third call that is a plain re-lookup returns it with usage 2 again; neither later call
  copies a string. With no Informix directory the first call returns no entry. A call for a
  new scan on an entry whose usage counter is 2147483647 leaves it at -2147483648. The
  name has fewer than 64 characters, so the hash table reads all of it.
\<close>

theorem ifxConnCache_add_create_or_reuse_witness:
  "\<exists>item1 cache1 item2 cache2 item3 cache3 item4 cache4.
     ifxConnCache_add 64 empty_cache 16384 coninfo_stores = Inr (item1, False, cache1) \<and>
     sint (con_usage (con item1)) = 1 \<and> con_servername (con item1) = ''ol_srv'' \<and>
     connections cache1 = [''informix-stores-ol_srv'' \<mapsto> item1] \<and>
     top_context cache1 =
       [''ol_srv'', ''/opt/informix'', ''informix'', ''stores'', ''en_US.utf8''] \<and>
     ifxConnCache_add 64 cache1 16385 coninfo_stores = Inr (item2, True, cache2) \<and>
     sint (con_usage (con item2)) = 2 \<and> con_servername (con item2) = ''ol_srv'' \<and>
     establishedByOid item2 = 16384 \<and>
     ifxConnCache_add 64 cache2 16385 (coninfo_stores\<lparr>scan_mode := IFX_OTHER_SCAN_MODE 1\<rparr>)
       = Inr (item3, True, cache3) \<and>
     sint (con_usage (con item3)) = 2 \<and> item3 = item2 \<and>
     top_context cache3 = top_context cache1 \<and>
     ifxConnCache_add 64 empty_cache 16384 (coninfo_stores\<lparr>informixdir := None\<rparr>)
       = Inl (Crash NullPointerDeref) \<and>
     ifxConnCache_add 64 (stores_cache ''informix-stores-ol_srv'' 2147483647) 16385
        coninfo_stores = Inr (item4, True, cache4) \<and>
     sint (con_usage (con item4)) = - 2147483648 \<and>
     take (64 - 1) (conname coninfo_stores) = conname coninfo_stores"
proof -
  let ?k = "take (64 - 1) (conname coninfo_stores)"
  let ?c3 = "coninfo_stores\<lparr>scan_mode := IFX_OTHER_SCAN_MODE 1\<rparr>"
  let ?c0 = "coninfo_stores\<lparr>informixdir := None\<rparr>"
  have key: "?k = ''informix-stores-ol_srv''"
    by (simp add: coninfo_stores_def)
  have absent: "connections empty_cache ?k = None"
    by (simp add: empty_cache_def)
  have params: "servername coninfo_stores = Some ''ol_srv''"
    "informixdir coninfo_stores = Some ''/opt/informix''"
    "username coninfo_stores = Some ''informix''"
    "database coninfo_stores = Some ''stores''"
    by (simp_all add: coninfo_stores_def)
  note first = ifxConnCache_add_create_or_reuse
         [of empty_cache 64 coninfo_stores "''ol_srv''" "''/opt/informix''" "''informix''"
             "''stores''" 16384, THEN conjunct1, rule_format, OF absent params]
  then obtain item1 cache1 where
    a1: "ifxConnCache_add 64 empty_cache 16384 coninfo_stores = Inr (item1, False, cache1)"
    and m1: "connections cache1 = (connections empty_cache)(?k \<mapsto> item1)"
    and t1: "top_context cache1 = top_context empty_cache
               @ [''ol_srv'', ''/opt/informix'', ''informix'', ''stores'']
               @ (case db_locale coninfo_stores of None \<Rightarrow> [] | Some l \<Rightarrow> [l])
               @ (case client_locale coninfo_stores of None \<Rightarrow> [] | Some l \<Rightarrow> [l])"
    and o1: "establishedByOid item1 = 16384"
    and s1: "con_servername (con item1) = ''ol_srv''"
    and u1: "sint (con_usage (con item1)) = 1"
    by (elim exE conjE)
  have found1: "connections cache1 ?k = Some item1"
    by (simp add: m1)
  note second = ifxConnCache_add_create_or_reuse
         [of cache1 64 coninfo_stores "''ol_srv''" "''/opt/informix''" "''informix''"
             "''stores''" 16385, THEN conjunct2, THEN conjunct2, THEN conjunct1,
          rule_format, OF found1]
  then obtain item2 cache2 where
    a2: "ifxConnCache_add 64 cache1 16385 coninfo_stores = Inr (item2, True, cache2)"
    and i2: "item2 = item1\<lparr>con := (con item1)\<lparr>con_usage := con_usage (con item2)\<rparr>\<rparr>"
    and g2: "scan_mode coninfo_stores = IFX_PLAN_SCAN \<longrightarrow>
               sint (con_usage (con item1)) < 2147483647 \<longrightarrow>
               sint (con_usage (con item2)) = sint (con_usage (con item1)) + 1"
    and m2: "connections cache2 = (connections cache1)(?k \<mapsto> item2)"
    and t2: "top_context cache2 = top_context cache1"
    by (elim exE conjE)
  have found2: "connections cache2 (take (64 - 1) (conname ?c3)) = Some item2"
    by (simp add: m2)
  note third = ifxConnCache_add_create_or_reuse
         [of cache2 64 ?c3 "''ol_srv''" "''/opt/informix''" "''informix''"
             "''stores''" 16385, THEN conjunct2, THEN conjunct2, THEN conjunct1,
          rule_format, OF found2]
  then obtain item3 cache3 where
    a3: "ifxConnCache_add 64 cache2 16385 ?c3 = Inr (item3, True, cache3)"
    and i3: "scan_mode ?c3 \<noteq> IFX_PLAN_SCAN \<longrightarrow> item3 = item2"
    and t3: "top_context cache3 = top_context cache2"
    by (elim exE conjE)
  have absent0: "connections empty_cache (take (64 - 1) (conname ?c0)) = None"
    by (simp add: empty_cache_def)
  have null0: "servername ?c0 = None \<or> informixdir ?c0 = None \<or> username ?c0 = None
                 \<or> database ?c0 = None"
    by simp
  note a0 = ifxConnCache_add_create_or_reuse
         [of empty_cache 64 ?c0 "''ol_srv''" "''/opt/informix''" "''informix''"
             "''stores''" 16384, THEN conjunct2, THEN conjunct1, rule_format,
          OF absent0 null0]
  let ?full = "stores_cache ''informix-stores-ol_srv'' 2147483647"
  have found4: "connections ?full ?k
                  = Some (stores_entry ''informix-stores-ol_srv'' 2147483647)"
    by (simp add: stores_cache_def coninfo_stores_def)
  note fourth = ifxConnCache_add_create_or_reuse
         [of ?full 64 coninfo_stores "''ol_srv''" "''/opt/informix''" "''informix''"
             "''stores''" 16385, THEN conjunct2, THEN conjunct2, THEN conjunct1,
          rule_format, OF found4]
  then obtain item4 cache4 where
    a4: "ifxConnCache_add 64 ?full 16385 coninfo_stores = Inr (item4, True, cache4)"
    and g4: "scan_mode coninfo_stores = IFX_PLAN_SCAN \<longrightarrow>
               sint (con_usage (con (stores_entry ''informix-stores-ol_srv'' 2147483647)))
                 = 2147483647 \<longrightarrow>
               sint (con_usage (con item4)) = - 2147483648"
    by (elim exE conjE)
  have u4: "sint (con_usage (con item4)) = - 2147483648"
    using g4 by (simp add: coninfo_stores_def stores_entry_def)
  have short: "length (conname coninfo_stores) < 64"
    by (simp add: coninfo_stores_def)
  note whole = ifxConnCache_add_create_or_reuse
         [of empty_cache 64 coninfo_stores "''ol_srv''" "''/opt/informix''" "''informix''"
             "''stores''" 16384, THEN conjunct2, THEN conjunct2, THEN conjunct2,
          rule_format, OF short]
  have u2: "sint (con_usage (con item2)) = 2"
    using g2 u1 by (simp add: coninfo_stores_def)
  have "con_servername (con item2) = con_servername (con item1)"
    using arg_cong [OF i2, of "\<lambda>i. con_servername (con i)"] by simp
  then have f2: "con_servername (con item2) = ''ol_srv''"
    using s1 by simp
  have "establishedByOid item2 = establishedByOid item1"
    using arg_cong [OF i2, of establishedByOid] by simp
  then have o2: "establishedByOid item2 = 16384"
    using o1 by simp
  have e3: "item3 = item2"
    using i3 by simp
  have c1: "connections cache1 = [''informix-stores-ol_srv'' \<mapsto> item1]"
    using m1 key by (simp add: empty_cache_def)
  have s1': "top_context cache1 =
      [''ol_srv'', ''/opt/informix'', ''informix'', ''stores'', ''en_US.utf8'']"
    using t1 by (simp add: empty_cache_def coninfo_stores_def)
  have t3': "top_context cache3 = top_context cache1"
    using t2 t3 by simp
  have u3: "sint (con_usage (con item3)) = 2"
    using e3 u2 by simp
  show ?thesis
    apply (rule exI [of _ item1], rule exI [of _ cache1], rule exI [of _ item2])
    apply (rule exI [of _ cache2], rule exI [of _ item3], rule exI [of _ cache3])
    apply (rule exI [of _ item4], rule exI [of _ cache4])
    apply (intro conjI)
    apply (rule a1 u1 s1 c1 s1' a2 u2 f2 o2 a3 u3 e3 t3' a0 a4 u4 whole)+
    done
qed

section \<open>The foreign-table cache\<close>

lemma ifxFTCache_add_keeps_binding:
  "tables cache oid = Some e \<Longrightarrow> ifxFTCache_add n cache oid name = Inr (e, cache)"
  by (simp add: ifxFTCache_add_def)

text \<open>
  \<^bold>\<open>C5.\<close> The claim: the first \<open>ifxFTCache_add\<close> for a table id stores that table id and the
  given connection name; later calls return the entry and never overwrite it. The code
  keeps an existing entry untouched (\<open>ifxFTCache_add_keeps_binding\<close>), but the first call
  does not store the given name: it copies with
  \<^verbatim>\<open>StrNCpy(item->ifx_connection_name, conname, strlen(conname))\<close>, and \<^verbatim>\<open>StrNCpy\<close>
  writes its terminator at position \<^verbatim>\<open>len - 1\<close>, over the last character. Evaluated for
  table 16384 and the connection name \<open>abc\<close>: the entry's binding reads \<open>ab\<close>.
\<close>

theorem ifxFTCache_add_drops_last_character:
  "\<exists>item cache'.
     ifxFTCache_add 32 empty_cache 16384 ''abc'' = Inr (item, cache') \<and>
     tables cache' 16384 = Some item \<and>
     foreignTableOid item = 16384 \<and>
     c_str (ifx_connection_name item) = ''ab'' \<and>
     c_str (ifx_connection_name item) \<noteq> ''abc''"
  by (simp add: ifxFTCache_add_def empty_cache_def StrNCpy_def strncpy_def bzero_def
        palloc_chars_def c_str_def NUL_def Let_def)

section \<open>Option validation\<close>

text \<open>
  \<^bold>\<open>C9.\<close> The claim: giving the same connection option twice (servername, database,
  username, password, query or table), or query together with table, is reported as a
  configuration error that names the option. The block of \<open>ifxGetOptionDups\<close> for
  \<open>username\<close> tests \<^verbatim>\<open>coninfo->database\<close> where its five siblings test their own
  field, so a second \<open>username\<close> is not noticed. Evaluated on the option list
  \<open>username = alice, username = bob\<close> of a user mapping: the validator accepts it without
  an error.
\<close>

theorem ifx_fdw_validator_accepts_duplicate_username:
  "ifx_fdw_validator strtof
     [\<lparr>defname = ''username'', defarg = ''alice''\<rparr>,
      \<lparr>defname = ''username'', defarg = ''bob''\<rparr>]
     UserMappingRelationId = Inr ()"
  by (simp add: ifx_fdw_validator_def ifxIsValidOption_def ifx_valid_options_def
        ifxGetOptionDups_def ebind_def dups_servername_def dups_database_def dups_username_def
        dups_password_def dups_query_def dups_table_def dups_estimated_rows_def
        dups_connection_costs_def coninfo_zero_def defGetString_def
        UserMappingRelationId_def ForeignServerRelationId_def ForeignTableRelationId_def)

text \<open>
  The sibling blocks do what the claim says: a second \<open>database\<close> is refused, and the
  message names the option.
\<close>

lemma ifx_fdw_validator_refuses_duplicate_database:
  "ifx_fdw_validator strtof
     [\<lparr>defname = ''database'', defarg = ''stores''\<rparr>,
      \<lparr>defname = ''database'', defarg = ''sales''\<rparr>]
     ForeignTableRelationId
   = Inl (Ereport ''ERRCODE_FDW_INVALID_OPTION_NAME''
            ''conflicting or redundant options: database(%s)'' [ArgStr ''sales''] None)"
  by (simp add: ifx_fdw_validator_def ifxIsValidOption_def ifx_valid_options_def
        ifxGetOptionDups_def ebind_def dups_servername_def dups_database_def dups_username_def
        dups_password_def dups_query_def dups_table_def dups_estimated_rows_def
        dups_connection_costs_def coninfo_zero_def defGetString_def
        UserMappingRelationId_def ForeignServerRelationId_def ForeignTableRelationId_def)

section \<open>Statement and cursor identifiers\<close>

lemma ifxGenStatementName_result:
  "ifxGenStatementName lw snp c b =
     (if lw then Inr (NUL # replicate (length (conname c) + 10) NUL)
      else Inl (Crash WriteToLiteral))"
  by (simp add: ifxGenStatementName_def bzero_def palloc_chars_def Let_def)

lemma ifxGenCursorName_result:
  "ifxGenCursorName lw snp c b =
     (if lw then Inr (NUL # replicate (length (conname c) + 10) NUL)
      else Inl (Crash WriteToLiteral))"
  by (simp add: ifxGenCursorName_def bzero_def palloc_chars_def Let_def)

lemma c_str_leading_NUL: "c_str (NUL # xs) = []"
  by (simp add: c_str_def)

text \<open>
  \<^bold>\<open>C2.\<close> The claim: statement and cursor identifiers are generated from the session
  identity together with the session usage counter, and two scans that bind the same
  session at different usage values never receive equal names. Neither generator reads the
  usage counter, and neither writes into the buffer it returns: the \<^verbatim>\<open>snprintf\<close> call
  has the format literal as its destination. Evaluated for two scans that bind the session
  of \<open>coninfo_stores\<close> one after the other: the cache hands out usage 2 and then usage 3,
  and both scans receive the same statement name and the same cursor name, each the empty
  string. Where string literals are read-only the generators trap instead, and no
  identifier is generated at all.
\<close>

theorem ifxBeginForeignScan_bind_names_collide:
  "(\<exists>c0 cache0 c1 n1 k1 cache1 c2 n2 k2 cache2.
      ifxConnCache_add 64 empty_cache 16384 coninfo_stores = Inr (c0, False, cache0) \<and>
      ifxBeginForeignScan_bind 64 True snp b cache0 16384 coninfo_stores
        = Inr (c1, n1, k1, cache1) \<and>
      ifxBeginForeignScan_bind 64 True snp b cache1 16384 coninfo_stores
        = Inr (c2, n2, k2, cache2) \<and>
      con_usage (con c1) = 2 \<and> con_usage (con c2) = 3 \<and>
      n1 = n2 \<and> k1 = k2 \<and> c_str n1 = [] \<and> c_str k1 = [])
   \<and> ifxGenStatementName False snp coninfo_stores b = Inl (Crash WriteToLiteral)
   \<and> ifxGenCursorName False snp coninfo_stores b = Inl (Crash WriteToLiteral)"
  by (simp add: ifxBeginForeignScan_bind_def ifxConnCache_add_def ifxGenStatementName_result
        ifxGenCursorName_result ebind_def pstrdup_def pstrdup_nullable_def conn_key_def
        empty_cache_def coninfo_stores_def Let_def c_str_leading_NUL)

section \<open>Row iteration\<close>

text \<open>
  \<^bold>\<open>C1.\<close> The claim: for every fetched row the scan output assigns every local column
  position a value or an explicit null, the output has as many columns as the local table,
  and a dropped local column yields null. The column loop of \<open>ifxIterateForeignScan\<close> runs
  \<^verbatim>\<open>for (i = 0; i < ifxAttrCount - 1; i++)\<close>, so it never reaches the last column.
  Evaluated on a fetched row of a one-column table, once with the column dropped and once
  with it live: the slot comes back with one column whose value and null flag were never
  assigned; the dropped column is not set to null. (The slot's column count is the remote
  count \<open>ifxAttrCount\<close>; the loop indexes the remote and the local descriptors with the
  same \<open>i\<close>, so the code takes both counts to agree, as they do here.)
\<close>

theorem ifxIterateForeignScan_skips_last_column:
  "ifxIterateForeignScan remote_one_row state_one_dropped fresh_slot =
     Inr (state_one_dropped\<lparr>ifx_values_ptrs := [Uninit_ptr, NULL_ptr]\<rparr>,
          \<lparr> tts_isempty = False, tts_nvalid = 1, tts_values = [None], tts_isnull = [None] \<rparr>)
   \<and> ifxIterateForeignScan remote_one_row state_one_live fresh_slot =
     Inr (state_one_live\<lparr>ifx_values_ptrs := [Uninit_ptr, NULL_ptr]\<rparr>,
          \<lparr> tts_isempty = False, tts_nvalid = 1, tts_values = [None], tts_isnull = [None] \<rparr>)"
  by (simp add: ifxIterateForeignScan_def remote_one_row_def state_one_dropped_def
        state_one_live_def fresh_slot_def Let_def)

text \<open>
  \<^bold>\<open>C10.\<close> The claim: every array access of \<open>ifxColumnValueByAttNum\<close>, for each attribute
  number the iteration passes, stays within indices 0 to \<open>ifxAttrCount - 1\<close>. The
  iteration passes its loop index, which starts at 0, and the accessor reads
  \<^verbatim>\<open>ifxAttrDefs[attnum - 1]\<close>. Evaluated on a fetched row of two integer columns: the
  first access is at index -1, outside the array, and the iteration ends there.
\<close>

theorem ifxColumnValueByAttNum_reads_before_array:
  "ifxColumnValueByAttNum remote_one_row
      (state_two_columns\<lparr>ifx_values_ptrs := [Uninit_ptr, Uninit_ptr, NULL_ptr]\<rparr>) 0
     = Inl (Crash IndexOutOfBounds)
   \<and> ifxIterateForeignScan remote_one_row state_two_columns fresh_slot
     = Inl (Crash IndexOutOfBounds)"
  by (simp add: ifxIterateForeignScan_def ifxIterate_column_def ifxColumnValueByAttNum_def
        array_get_def ebind_def remote_one_row_def state_two_columns_def fresh_slot_def Let_def)

text \<open>
  The same holds for every row of two or more columns, whatever the arrays hold: the
  first iteration asks for attribute number 0.
\<close>

lemma ifxIterateForeignScan_first_access_out_of_bounds:
  assumes "fetch_class remote \<noteq> IFX_NOT_FOUND" and "2 \<le> ifxAttrCount state"
  shows "ifxIterateForeignScan remote state tupleSlot = Inl (Crash IndexOutOfBounds)"
  using assms
  by (simp add: ifxIterateForeignScan_def ifxIterate_column_def ifxColumnValueByAttNum_def
        array_get_def ebind_def Let_def)

section \<open>Predicate pushdown\<close>

lemma operands_supported_iff:
  "operands_supported rtid args = Inr True \<longleftrightarrow> list_all (spec_pushable_operand rtid) args"
  by (induction rtid args rule: operands_supported.induct) auto

lemma operands_supported_cases:
  "operands_supported rtid args = Inr b \<Longrightarrow> b = list_all (spec_pushable_operand rtid) args"
  by (induction rtid args rule: operands_supported.induct) (auto split: if_splits)

lemma operands_supported_total:
  "NullNode \<notin> set args \<Longrightarrow> \<exists>b. operands_supported rtid args = Inr b"
  by (induction rtid args rule: operands_supported.induct) auto

lemma mapPushdownOperator_supported:
  "mapPushdownOperator env oprid info = Inr (t, info') \<Longrightarrow>
     (t \<noteq> IFX_OPR_NOT_SUPPORTED) = spec_pushable_operator env oprid"
  by (auto simp: mapPushdownOperator_def spec_pushable_operator_def
           split: option.splits prod.splits if_splits)

lemma mapPushdownOperator_pushable:
  assumes "spec_pushable_operator env oprid"
  shows "mapPushdownOperator env oprid info =
           Inr (spec_operator_tag (fst (the (operator_tuple env oprid))),
                info\<lparr>opr_type := Some (spec_operator_tag (fst (the (operator_tuple env oprid))))\<rparr>)
         \<and> spec_operator_tag (fst (the (operator_tuple env oprid))) \<noteq> IFX_OPR_NOT_SUPPORTED"
  using assms
  by (auto simp: mapPushdownOperator_def spec_pushable_operator_def spec_operator_tag_def
           split: option.splits prod.splits)

lemma mapPushdownOperator_total:
  "operator_tuple env oprid \<noteq> None \<Longrightarrow>
     \<exists>t info'. mapPushdownOperator env oprid info = Inr (t, info')"
  by (auto simp: mapPushdownOperator_def split: option.splits prod.splits)

lemma mark_and_deparse_eq:
  "mark_and_deparse env node info ctx =
     ctx\<lparr>predicates := predicates ctx @
            [info\<lparr>expr_string :=
               Some (deparse_expression env (ChangeVarNodes node (foreign_rtid ctx) 1 0)
                       (foreign_relid ctx))\<rparr>],
         pd_count := pd_count ctx + 1\<rparr>"
  by (simp add: mark_and_deparse_def IFX_MARK_PREDICATE_ELEM_def deparse_predicate_node_def Let_def)

lemma pushed_nil [simp]: "pushed ctx [] = ctx"
  by (simp add: pushed_def)

lemma pushed_fields [simp]:
  "foreign_rtid (pushed ctx fs) = foreign_rtid ctx"
  "foreign_relid (pushed ctx fs) = foreign_relid ctx"
  "predicates (pushed ctx fs) = predicates ctx @ fs"
  "pd_count (pushed ctx fs) = pd_count ctx + int (length fs)"
  by (simp_all add: pushed_def)

lemma pushed_pushed: "pushed (pushed ctx fs) gs = pushed ctx (fs @ gs)"
  by (simp add: pushed_def)

lemma walker_OpExpr_pushable:
  assumes "spec_pushable_operator env oprid"
    and "list_all (spec_pushable_operand (foreign_rtid ctx)) args"
  shows "ifx_predicate_tree_walker env (OpExpr oprid args) ctx =
     Inr (False, pushed ctx
            [spec_leaf_fragment env (foreign_rtid ctx) (foreign_relid ctx)
               (spec_operator_tag (fst (the (operator_tuple env oprid)))) (OpExpr oprid args)])"
  using mapPushdownOperator_pushable [OF assms(1)] assms(2)
  by (simp add: operands_supported_iff [symmetric] mark_and_deparse_eq spec_leaf_fragment_def
        pushed_def)

lemma walker_OpExpr_not_pushable:
  assumes "\<not> (spec_pushable_operator env oprid
               \<and> list_all (spec_pushable_operand (foreign_rtid ctx)) args)"
    and "ifx_predicate_tree_walker env (OpExpr oprid args) ctx = Inr (r, ctx')"
  shows "r = True \<and> ctx' = ctx"
  using assms
  by (auto simp: Let_def split: sum.splits prod.splits if_splits
           dest: mapPushdownOperator_supported operands_supported_cases)

lemma walker_OpExpr_spec:
  assumes "ifx_predicate_tree_walker env (OpExpr oprid args) ctx = Inr (r, ctx')"
  shows "ctx' = pushed ctx
           (spec_fragments env (foreign_rtid ctx) (foreign_relid ctx) (OpExpr oprid args))"
proof (cases "spec_pushable_operator env oprid
               \<and> list_all (spec_pushable_operand (foreign_rtid ctx)) args")
  case True
  with assms walker_OpExpr_pushable [of env oprid ctx args] show ?thesis
    by simp
next
  case False
  with assms walker_OpExpr_not_pushable [of env oprid ctx args r ctx'] show ?thesis
    by auto
qed

lemma walker_NullTest_spec:
  "ifx_predicate_tree_walker env (NullTest k arg isrow) ctx = Inr (r, ctx') \<Longrightarrow>
     ctx' = pushed ctx
       (spec_fragments env (foreign_rtid ctx) (foreign_relid ctx) (NullTest k arg isrow))"
  by (cases arg; cases k)
     (auto simp: Let_def mark_and_deparse_eq spec_leaf_fragment_def pushed_def
           split: if_splits)

lemma bool_marker_spec: "bool_marker b = Inr info \<Longrightarrow> info = spec_connective b"
  by (cases b) (auto simp: bool_marker_def spec_connective_def)

lemma bool_marker_total:
  "b \<in> {AND_EXPR, OR_EXPR, NOT_EXPR} \<Longrightarrow> \<exists>info. bool_marker b = Inr info"
  by (auto simp: bool_marker_def)

lemma IFX_MARK_PREDICATE_BOOL_pushed: "IFX_MARK_PREDICATE_BOOL info ctx = pushed ctx [info]"
  by (simp add: IFX_MARK_PREDICATE_BOOL_def pushed_def)

text \<open>
  The walker refines the spec's function: whenever it returns, the context it returns is
  the context it was given with exactly the spec's fragments appended, in order.
\<close>

lemma walker_refines_spec:
  "ifx_predicate_tree_walker env node ctx = Inr (r, ctx') \<Longrightarrow>
     ctx' = pushed ctx (spec_fragments env (foreign_rtid ctx) (foreign_relid ctx) node)"
  "walk_bool_args env b args ctx = Inr ctx'' \<Longrightarrow>
     ctx'' = pushed ctx (spec_interleave (spec_connective b)
                (map (spec_fragments env (foreign_rtid ctx) (foreign_relid ctx)) args))"
proof (induction env node ctx and env b args ctx arbitrary: r ctx' and ctx''
       rule: ifx_predicate_tree_walker_walk_bool_args.induct)
  case (1 env ctx)
  then show ?case by simp
next
  case (2 env b args ctx)
  then show ?case by (auto split: sum.splits)
next
  case (3 env k arg isrow ctx)
  then show ?case by (rule walker_NullTest_spec)
next
  case (4 env oprid args ctx)
  then show ?case by (rule walker_OpExpr_spec)
next
  case (5 env vno attno lvl ctx)
  then show ?case by simp
next
  case (6 env t v ctx)
  then show ?case by simp
next
  case (7 env tag args ctx)
  then show ?case by simp
next
  case (8 env b ctx)
  then show ?case by simp
next
  case (9 env b bool_arg rest ctx)
  from "9.prems" obtain r1 ctx1 where
    w: "ifx_predicate_tree_walker env bool_arg ctx = Inr (r1, ctx1)"
    by (auto split: sum.splits)
  have c1: "ctx1 = pushed ctx (spec_fragments env (foreign_rtid ctx) (foreign_relid ctx) bool_arg)"
    using "9.IH"(1) [OF w] .
  show ?case
  proof (cases rest)
    case Nil
    with "9.prems" w c1 show ?thesis by simp
  next
    case (Cons y ys)
    with "9.prems" w obtain info where
      m: "bool_marker b = Inr info"
      and rest: "walk_bool_args env b rest (IFX_MARK_PREDICATE_BOOL info ctx1) = Inr ctx''"
      by (auto split: sum.splits)
    have ne: "rest \<noteq> []" using Cons by simp
    have "ctx'' = pushed (IFX_MARK_PREDICATE_BOOL info ctx1)
            (spec_interleave (spec_connective b)
               (map (spec_fragments env (foreign_rtid (IFX_MARK_PREDICATE_BOOL info ctx1))
                      (foreign_relid (IFX_MARK_PREDICATE_BOOL info ctx1))) rest))"
      using "9.IH"(2) [OF w refl ne m rest] .
    then show ?thesis
      using c1 bool_marker_spec [OF m] Cons
      by (simp add: IFX_MARK_PREDICATE_BOOL_pushed pushed_pushed)
  qed
qed

text \<open>On an analysable tree the walker does return.\<close>

lemma walker_returns:
  "analysable env node \<Longrightarrow> \<exists>r ctx'. ifx_predicate_tree_walker env node ctx = Inr (r, ctx')"
  "b \<in> {AND_EXPR, OR_EXPR, NOT_EXPR} \<Longrightarrow> list_all (analysable env) args \<Longrightarrow>
     \<exists>ctx''. walk_bool_args env b args ctx = Inr ctx''"
proof (induction env node ctx and env b args ctx
       rule: ifx_predicate_tree_walker_walk_bool_args.induct)
  case (1 env ctx)
  then show ?case by auto
next
  case (2 env b args ctx)
  then have "\<exists>ctx''. walk_bool_args env b args ctx = Inr ctx''" by simp
  then show ?case by auto
next
  case (3 env k arg isrow ctx)
  then show ?case by (cases arg; cases k) (auto simp: Let_def)
next
  case (4 env oprid args ctx)
  then have "operator_tuple env oprid \<noteq> None" and nn: "NullNode \<notin> set args"
    by simp_all
  from mapPushdownOperator_total [OF this(1)] obtain t info' where
    "mapPushdownOperator env oprid
       \<lparr>opr_type = None, expr = Some (OpExpr oprid args), expr_string = None\<rparr> = Inr (t, info')"
    by blast
  moreover from operands_supported_total [OF nn] obtain ok where
    "operands_supported (foreign_rtid ctx) args = Inr ok"
    by blast
  ultimately show ?case by (auto simp: Let_def)
next
  case (5 env vno attno lvl ctx)
  then show ?case by auto
next
  case (6 env t v ctx)
  then show ?case by auto
next
  case (7 env tag args ctx)
  then show ?case by auto
next
  case (8 env b ctx)
  then show ?case by auto
next
  case (9 env b bool_arg rest ctx)
  then have ok: "analysable env bool_arg" and oks: "list_all (analysable env) rest"
    by simp_all
  from "9.IH"(1) [OF ok] obtain r1 ctx1 where
    w: "ifx_predicate_tree_walker env bool_arg ctx = Inr (r1, ctx1)"
    by blast
  show ?case
  proof (cases rest)
    case Nil
    with w show ?thesis by simp
  next
    case (Cons y ys)
    then have ne: "rest \<noteq> []" by simp
    from bool_marker_total [OF "9.prems"(1)] obtain info where m: "bool_marker b = Inr info"
      by blast
    from "9.IH"(2) [OF w refl ne m "9.prems"(1) oks] obtain ctx'' where
      "walk_bool_args env b rest (IFX_MARK_PREDICATE_BOOL info ctx1) = Inr ctx''"
      by blast
    with w m ne show ?thesis by simp
  qed
qed

text \<open>
  \<^bold>\<open>C4.\<close> A comparison node contributes exactly one fragment to the output sequence if and
  only if its operator is one of \<open>>=\<close>, \<open><=\<close>, \<open><\<close>, \<open>>\<close>, \<open>=\<close>, \<open><>\<close>, \<open>~~\<close> in the
  built-in namespace and every operand is a column of the target relation with no outer
  query level (\<open>varno\<close> is the target's range-table index and \<open>varlevelsup\<close> is 0) or a
  constant. In that case the walker returns the context with that one fragment appended (the
  operator's tag, the node, its deparsed text) and the count one higher. In every other case
  a walker that returns hands back the context exactly as it was given: no fragment for the
  whole node.
\<close>

theorem comparison_pushed_iff_builtin_operator_and_plain_operands:
  "((\<exists>r ctx' frag. ifx_predicate_tree_walker env (OpExpr oprid args) ctx = Inr (r, ctx')
        \<and> predicates ctx' = predicates ctx @ [frag])
      \<longleftrightarrow> spec_pushable_operator env oprid
          \<and> list_all (spec_pushable_operand (foreign_rtid ctx)) args)
   \<and> (spec_pushable_operator env oprid
        \<and> list_all (spec_pushable_operand (foreign_rtid ctx)) args
      \<longrightarrow> ifx_predicate_tree_walker env (OpExpr oprid args) ctx =
            Inr (False, pushed ctx
              [spec_leaf_fragment env (foreign_rtid ctx) (foreign_relid ctx)
                 (spec_operator_tag (fst (the (operator_tuple env oprid))))
                 (OpExpr oprid args)]))
   \<and> (\<not> (spec_pushable_operator env oprid
           \<and> list_all (spec_pushable_operand (foreign_rtid ctx)) args)
      \<longrightarrow> (\<forall>r ctx'. ifx_predicate_tree_walker env (OpExpr oprid args) ctx = Inr (r, ctx')
             \<longrightarrow> ctx' = ctx))"
proof (intro conjI impI allI iffI)
  assume "\<exists>r ctx' frag. ifx_predicate_tree_walker env (OpExpr oprid args) ctx = Inr (r, ctx')
            \<and> predicates ctx' = predicates ctx @ [frag]"
  then obtain r ctx' frag where
    w: "ifx_predicate_tree_walker env (OpExpr oprid args) ctx = Inr (r, ctx')"
    and p: "predicates ctx' = predicates ctx @ [frag]"
    by blast
  have both: "spec_pushable_operator env oprid
        \<and> list_all (spec_pushable_operand (foreign_rtid ctx)) args"
  proof (rule ccontr)
    assume "\<not> ?thesis"
    from walker_OpExpr_not_pushable [OF this w] p show False by simp
  qed
  from both show "spec_pushable_operator env oprid" ..
  from both show "list_all (spec_pushable_operand (foreign_rtid ctx)) args" ..
next
  assume a: "spec_pushable_operator env oprid
        \<and> list_all (spec_pushable_operand (foreign_rtid ctx)) args"
  then have "ifx_predicate_tree_walker env (OpExpr oprid args) ctx =
     Inr (False, pushed ctx
            [spec_leaf_fragment env (foreign_rtid ctx) (foreign_relid ctx)
               (spec_operator_tag (fst (the (operator_tuple env oprid)))) (OpExpr oprid args)])"
    using walker_OpExpr_pushable [of env oprid ctx args] by blast
  then show "\<exists>r ctx' frag. ifx_predicate_tree_walker env (OpExpr oprid args) ctx = Inr (r, ctx')
            \<and> predicates ctx' = predicates ctx @ [frag]"
    by (auto simp del: ifx_predicate_tree_walker.simps)
next
  assume "spec_pushable_operator env oprid
        \<and> list_all (spec_pushable_operand (foreign_rtid ctx)) args"
  then show "ifx_predicate_tree_walker env (OpExpr oprid args) ctx =
     Inr (False, pushed ctx
            [spec_leaf_fragment env (foreign_rtid ctx) (foreign_relid ctx)
               (spec_operator_tag (fst (the (operator_tuple env oprid)))) (OpExpr oprid args)])"
    using walker_OpExpr_pushable [of env oprid ctx args] by blast
next
  fix r ctx'
  assume "\<not> (spec_pushable_operator env oprid
           \<and> list_all (spec_pushable_operand (foreign_rtid ctx)) args)"
    and "ifx_predicate_tree_walker env (OpExpr oprid args) ctx = Inr (r, ctx')"
  from walker_OpExpr_not_pushable [OF this] show "ctx' = ctx" ..
qed

text \<open>
  The theorem at work, on the sample catalog: \<open>a > 5\<close> is pushed, with the text the printer
  gives for the renumbered copy; \<open>a > (SELECT ...)\<close>, the comparison through the
  user-defined \<open>>\<close>, and the comparison with a column of an outer query level yield no
  fragment.
\<close>

theorem comparison_pushed_iff_builtin_operator_and_plain_operands_witness:
  "ifx_predicate_tree_walker sample_env a_gt_5 sample_ctx =
     Inr (False, sample_ctx\<lparr>predicates :=
            [\<lparr>opr_type = Some IFX_OPR_GT, expr = Some a_gt_5, expr_string = Some ''(a > 5)''\<rparr>],
          pd_count := 1\<rparr>)
   \<and> ifx_predicate_tree_walker sample_env a_gt_subselect sample_ctx = Inr (True, sample_ctx)
   \<and> ifx_predicate_tree_walker sample_env a_user_gt_5 sample_ctx = Inr (True, sample_ctx)
   \<and> ifx_predicate_tree_walker sample_env outer_gt_5 sample_ctx = Inr (True, sample_ctx)"
proof -
  have op: "spec_pushable_operator sample_env 521"
    by (simp add: spec_pushable_operator_def sample_env_def sample_operators_def
          PG_CATALOG_NAMESPACE_def)
  have args: "list_all (spec_pushable_operand (foreign_rtid sample_ctx))
                [Var 2 1 0, Const 23 ''5'']"
    by (simp add: sample_ctx_def)
  from comparison_pushed_iff_builtin_operator_and_plain_operands
         [of sample_env 521 "[Var 2 1 0, Const 23 ''5'']" sample_ctx] op args
  have "ifx_predicate_tree_walker sample_env (OpExpr 521 [Var 2 1 0, Const 23 ''5'']) sample_ctx =
     Inr (False, pushed sample_ctx
            [spec_leaf_fragment sample_env (foreign_rtid sample_ctx) (foreign_relid sample_ctx)
               (spec_operator_tag (fst (the (operator_tuple sample_env 521))))
               (OpExpr 521 [Var 2 1 0, Const 23 ''5''])])"
    by blast
  then have first: "ifx_predicate_tree_walker sample_env a_gt_5 sample_ctx =
     Inr (False, sample_ctx\<lparr>predicates :=
            [\<lparr>opr_type = Some IFX_OPR_GT, expr = Some a_gt_5, expr_string = Some ''(a > 5)''\<rparr>],
          pd_count := 1\<rparr>)"
    by (simp add: a_gt_5_def pushed_def spec_leaf_fragment_def spec_operator_tag_def
          sample_env_def sample_operators_def sample_ctx_def)
  have rest: "ifx_predicate_tree_walker sample_env a_gt_subselect sample_ctx = Inr (True, sample_ctx)"
    "ifx_predicate_tree_walker sample_env a_user_gt_5 sample_ctx = Inr (True, sample_ctx)"
    "ifx_predicate_tree_walker sample_env outer_gt_5 sample_ctx = Inr (True, sample_ctx)"
    by (simp_all add: a_gt_subselect_def a_user_gt_5_def outer_gt_5_def mapPushdownOperator_def
          sample_env_def sample_operators_def sample_ctx_def PG_CATALOG_NAMESPACE_def Let_def)
  from first rest show ?thesis by simp
qed

text \<open>
  \<^bold>\<open>C6.\<close> For a boolean expression (AND, OR, NOT) the walker first analyses each operand,
  in source order, and appends exactly one connective marker after each operand except the
  last: whenever it returns, its result is \<open>True\<close> and the context it was given with the
  operands' fragments appended, interleaved with the marker; and on an analysable
  expression it does return. For \<open>a > 5 AND b = 'x'\<close> over the target relation, with both
  operators built in, the output is fragment(\<open>a > 5\<close>), connective(AND),
  fragment(\<open>b = 'x'\<close>); each leaf fragment carries the text the expression printer gives for
  its renumbered copy, which is non-empty whenever the printer prints no expression as the
  empty string.
\<close>

theorem boolean_connective_interleaves_operand_fragments:
  "(\<forall>r ctx'. ifx_predicate_tree_walker env (BoolExpr b args) ctx = Inr (r, ctx') \<longrightarrow>
       r = True \<and>
       ctx' = pushed ctx (spec_interleave (spec_connective b)
                (map (spec_fragments env (foreign_rtid ctx) (foreign_relid ctx)) args)))
   \<and> (analysable env (BoolExpr b args) \<longrightarrow>
       (\<exists>ctx'. ifx_predicate_tree_walker env (BoolExpr b args) ctx = Inr (True, ctx')))
   \<and> (operator_tuple env gt = Some (''>'', PG_CATALOG_NAMESPACE) \<longrightarrow>
       operator_tuple env eq = Some (''='', PG_CATALOG_NAMESPACE) \<longrightarrow>
       (\<exists>f1 f2 text1 text2.
          ifx_predicate_tree_walker env
            (BoolExpr AND_EXPR [OpExpr gt [Var (foreign_rtid ctx) col_a 0, Const t5 v5],
                                OpExpr eq [Var (foreign_rtid ctx) col_b 0, Const tx vx]]) ctx
            = Inr (True, pushed ctx [f1, spec_connective AND_EXPR, f2]) \<and>
          opr_type f1 = Some IFX_OPR_GT \<and>
          expr f1 = Some (OpExpr gt [Var (foreign_rtid ctx) col_a 0, Const t5 v5]) \<and>
          expr_string f1 = Some text1 \<and>
          text1 = deparse_expression env (OpExpr gt [Var 1 col_a 0, Const t5 v5])
                    (foreign_relid ctx) \<and>
          opr_type f2 = Some IFX_OPR_EQUAL \<and>
          expr f2 = Some (OpExpr eq [Var (foreign_rtid ctx) col_b 0, Const tx vx]) \<and>
          expr_string f2 = Some text2 \<and>
          text2 = deparse_expression env (OpExpr eq [Var 1 col_b 0, Const tx vx])
                    (foreign_relid ctx) \<and>
          ((\<forall>node rel. deparse_expression env node rel \<noteq> []) \<longrightarrow> text1 \<noteq> [] \<and> text2 \<noteq> [])))"
proof (intro conjI impI allI)
  fix r ctx'
  assume w: "ifx_predicate_tree_walker env (BoolExpr b args) ctx = Inr (r, ctx')"
  then show "r = True" by (auto split: sum.splits)
  from walker_refines_spec(1) [OF w]
  show "ctx' = pushed ctx (spec_interleave (spec_connective b)
                (map (spec_fragments env (foreign_rtid ctx) (foreign_relid ctx)) args))"
    by simp
next
  assume "analysable env (BoolExpr b args)"
  from walker_returns(1) [OF this, of ctx]
  show "\<exists>ctx'. ifx_predicate_tree_walker env (BoolExpr b args) ctx = Inr (True, ctx')"
    by (auto split: sum.splits)
next
  assume g: "operator_tuple env gt = Some (''>'', PG_CATALOG_NAMESPACE)"
    and e: "operator_tuple env eq = Some (''='', PG_CATALOG_NAMESPACE)"
  let ?n1 = "OpExpr gt [Var (foreign_rtid ctx) col_a 0, Const t5 v5]"
  let ?n2 = "OpExpr eq [Var (foreign_rtid ctx) col_b 0, Const tx vx]"
  let ?f1 = "spec_leaf_fragment env (foreign_rtid ctx) (foreign_relid ctx) IFX_OPR_GT ?n1"
  let ?f2 = "spec_leaf_fragment env (foreign_rtid ctx) (foreign_relid ctx) IFX_OPR_EQUAL ?n2"
  have pg: "spec_pushable_operator env gt" and pe: "spec_pushable_operator env eq"
    using g e by (simp_all add: spec_pushable_operator_def)
  have tg: "spec_operator_tag (fst (the (operator_tuple env gt))) = IFX_OPR_GT"
    and te: "spec_operator_tag (fst (the (operator_tuple env eq))) = IFX_OPR_EQUAL"
    using g e by (simp_all add: spec_operator_tag_def)
  have a1: "list_all (spec_pushable_operand (foreign_rtid ctx))
              [Var (foreign_rtid ctx) col_a 0, Const t5 v5]"
    by simp
  have w1: "ifx_predicate_tree_walker env ?n1 ctx = Inr (False, pushed ctx [?f1])"
    using walker_OpExpr_pushable [OF pg a1] unfolding tg .
  let ?ctx2 = "pushed ctx [?f1, spec_connective AND_EXPR]"
  have a2: "list_all (spec_pushable_operand (foreign_rtid ?ctx2))
              [Var (foreign_rtid ctx) col_b 0, Const tx vx]"
    by simp
  have "ifx_predicate_tree_walker env ?n2 ?ctx2 =
          Inr (False, pushed ?ctx2
            [spec_leaf_fragment env (foreign_rtid ?ctx2) (foreign_relid ?ctx2) IFX_OPR_EQUAL ?n2])"
    using walker_OpExpr_pushable [OF pe a2] unfolding te .
  then have w2: "ifx_predicate_tree_walker env ?n2 ?ctx2
              = Inr (False, pushed ctx [?f1, spec_connective AND_EXPR, ?f2])"
    by (simp only: pushed_pushed pushed_fields append.simps)
  have m: "bool_marker AND_EXPR = Inr (spec_connective AND_EXPR)"
    by (simp add: bool_marker_def spec_connective_def)
  have "walk_bool_args env AND_EXPR [?n2] ?ctx2
          = Inr (pushed ctx [?f1, spec_connective AND_EXPR, ?f2])"
    using w2 by (simp del: ifx_predicate_tree_walker.simps)
  then have "walk_bool_args env AND_EXPR [?n1, ?n2] ctx
          = Inr (pushed ctx [?f1, spec_connective AND_EXPR, ?f2])"
    using w1 m
    by (simp add: IFX_MARK_PREDICATE_BOOL_pushed pushed_pushed
             del: ifx_predicate_tree_walker.simps)
  then have run: "ifx_predicate_tree_walker env (BoolExpr AND_EXPR [?n1, ?n2]) ctx
               = Inr (True, pushed ctx [?f1, spec_connective AND_EXPR, ?f2])"
    by (subst ifx_predicate_tree_walker.simps(2)) (simp del: ifx_predicate_tree_walker.simps)
  show "\<exists>f1 f2 text1 text2.
          ifx_predicate_tree_walker env (BoolExpr AND_EXPR [?n1, ?n2]) ctx
            = Inr (True, pushed ctx [f1, spec_connective AND_EXPR, f2]) \<and>
          opr_type f1 = Some IFX_OPR_GT \<and> expr f1 = Some ?n1 \<and>
          expr_string f1 = Some text1 \<and>
          text1 = deparse_expression env (OpExpr gt [Var 1 col_a 0, Const t5 v5])
                    (foreign_relid ctx) \<and>
          opr_type f2 = Some IFX_OPR_EQUAL \<and> expr f2 = Some ?n2 \<and>
          expr_string f2 = Some text2 \<and>
          text2 = deparse_expression env (OpExpr eq [Var 1 col_b 0, Const tx vx])
                    (foreign_relid ctx) \<and>
          ((\<forall>node rel. deparse_expression env node rel \<noteq> []) \<longrightarrow> text1 \<noteq> [] \<and> text2 \<noteq> [])"
    by (rule exI [of _ ?f1], rule exI [of _ ?f2],
        rule exI [of _ "deparse_expression env (OpExpr gt [Var 1 col_a 0, Const t5 v5])
                          (foreign_relid ctx)"],
        rule exI [of _ "deparse_expression env (OpExpr eq [Var 1 col_b 0, Const tx vx])
                          (foreign_relid ctx)"])
       (simp add: run spec_leaf_fragment_def del: ifx_predicate_tree_walker.simps)
qed

text \<open>
  The theorem at work, on the sample catalog and printer: the output for
  \<open>a > 5 AND b = x\<close> is the fragment with text \<open>(a > 5)\<close>, the AND marker, the fragment with
  text \<open>(b = x)\<close>.
\<close>

theorem boolean_connective_interleaves_operand_fragments_witness:
  "ifx_predicate_tree_walker sample_env (BoolExpr AND_EXPR [a_gt_5, b_eq_x]) sample_ctx =
     Inr (True, sample_ctx\<lparr>predicates :=
            [\<lparr>opr_type = Some IFX_OPR_GT, expr = Some a_gt_5, expr_string = Some ''(a > 5)''\<rparr>,
             \<lparr>opr_type = Some IFX_OPR_AND, expr = None, expr_string = Some ''AND''\<rparr>,
             \<lparr>opr_type = Some IFX_OPR_EQUAL, expr = Some b_eq_x, expr_string = Some ''(b = x)''\<rparr>],
          pd_count := 3\<rparr>)"
proof -
  let ?node = "BoolExpr AND_EXPR [a_gt_5, b_eq_x]"
  have ok: "analysable sample_env ?node"
    by (simp add: a_gt_5_def b_eq_x_def sample_env_def sample_operators_def)
  from boolean_connective_interleaves_operand_fragments
         [of sample_env AND_EXPR "[a_gt_5, b_eq_x]" sample_ctx] ok
  obtain ctx' where
    run: "ifx_predicate_tree_walker sample_env ?node sample_ctx = Inr (True, ctx')"
    and res: "ctx' = pushed sample_ctx (spec_interleave (spec_connective AND_EXPR)
                (map (spec_fragments sample_env (foreign_rtid sample_ctx)
                        (foreign_relid sample_ctx)) [a_gt_5, b_eq_x]))"
    by blast
  have "ctx' = sample_ctx\<lparr>predicates :=
            [\<lparr>opr_type = Some IFX_OPR_GT, expr = Some a_gt_5, expr_string = Some ''(a > 5)''\<rparr>,
             \<lparr>opr_type = Some IFX_OPR_AND, expr = None, expr_string = Some ''AND''\<rparr>,
             \<lparr>opr_type = Some IFX_OPR_EQUAL, expr = Some b_eq_x, expr_string = Some ''(b = x)''\<rparr>],
          pd_count := 3\<rparr>"
    unfolding res
    by (simp add: pushed_def a_gt_5_def b_eq_x_def sample_ctx_def sample_env_def
          sample_operators_def spec_connective_def spec_pushable_operator_def
          spec_leaf_fragment_def spec_operator_tag_def PG_CATALOG_NAMESPACE_def)
  with run show ?thesis by simp
qed

section \<open>Conversion: rejected type combinations\<close>

lemmas conv_monad_defs =
  cbind_def cret_def clift_def remote_get_def
  PG_ATTRDEF_P_def PG_ATTRTYPE_P_def PG_ATTRTYPEMOD_P_def
  IFX_ATTRDEF_P_def IFX_ATTRTYPE_P_def IFX_ATTR_ISNULL_P_def IFX_ATTR_IS_VALID_P_def
  IFX_ATTR_SETNOTVALID_P_def array_get_def array_set_def

lemma reject_conversion_marks:
  assumes "0 \<le> PG_MAPPED_IFX_ATTNUM env a"
    and "PG_MAPPED_IFX_ATTNUM env a < int (length (ifxAttrDefs (stmt_info s)))"
  shows "reject_conversion env a s = (Inr DatumNull, marked_not_valid env a s)"
  using assms
  by (simp add: reject_conversion_def conv_monad_defs marked_not_valid_def Let_def)

lemma reject_DateString:
  assumes "0 \<le> a" "a < int (length (pgAttrDefs s))"
    and "0 \<le> PG_MAPPED_IFX_ATTNUM env a"
    and "PG_MAPPED_IFX_ATTNUM env a < int (length (ifxAttrDefs (stmt_info s)))"
    and "\<not> compatible ConvDateString src (atttypid (pgAttrDefs s ! nat a))"
  shows "convertIfxDateString env a s = (Inr DatumNull, marked_not_valid env a s)"
  using assms reject_conversion_marks [of env a s]
  by (simp add: convertIfxDateString_def compatible_def conv_monad_defs)

lemma reject_TimestampString:
  assumes "0 \<le> a" "a < int (length (pgAttrDefs s))"
    and "0 \<le> PG_MAPPED_IFX_ATTNUM env a"
    and "PG_MAPPED_IFX_ATTNUM env a < int (length (ifxAttrDefs (stmt_info s)))"
    and "\<not> compatible ConvTimestampString src (atttypid (pgAttrDefs s ! nat a))"
  shows "convertIfxTimestampString env a s = (Inr DatumNull, marked_not_valid env a s)"
  using assms reject_conversion_marks [of env a s]
  by (simp add: convertIfxTimestampString_def compatible_def conv_monad_defs)

lemma reject_Decimal:
  assumes "0 \<le> a" "a < int (length (pgAttrDefs s))"
    and "0 \<le> PG_MAPPED_IFX_ATTNUM env a"
    and "PG_MAPPED_IFX_ATTNUM env a < int (length (ifxAttrDefs (stmt_info s)))"
    and "\<not> compatible ConvDecimal src (atttypid (pgAttrDefs s ! nat a))"
  shows "convertIfxDecimal env a s = (Inr DatumNull, marked_not_valid env a s)"
  using assms reject_conversion_marks [of env a s]
  by (simp add: convertIfxDecimal_def compatible_def conv_monad_defs)

lemma reject_Int:
  assumes "0 \<le> a" "a < int (length (pgAttrDefs s))"
    and "0 \<le> PG_MAPPED_IFX_ATTNUM env a"
    and "PG_MAPPED_IFX_ATTNUM env a < int (length (ifxAttrDefs (stmt_info s)))"
    and "\<not> compatible ConvInt
             (ifx_type (ifxAttrDefs (stmt_info s) ! nat (PG_MAPPED_IFX_ATTNUM env a)))
             (atttypid (pgAttrDefs s ! nat a))"
  shows "convertIfxInt env a s = (Inr DatumNull, marked_not_valid env a s)"
  using assms reject_conversion_marks [of env a s]
  by (auto simp: convertIfxInt_def compatible_def conv_monad_defs type_oids)

lemma reject_SimpleLO:
  assumes "0 \<le> a" "a < int (length (pgAttrDefs s))"
    and "0 \<le> PG_MAPPED_IFX_ATTNUM env a"
    and "PG_MAPPED_IFX_ATTNUM env a < int (length (ifxAttrDefs (stmt_info s)))"
    and "\<not> compatible ConvSimpleLO src (atttypid (pgAttrDefs s ! nat a))"
  shows "convertIfxSimpleLO env a s = (Inr DatumNull, marked_not_valid env a s)"
  using assms reject_conversion_marks [of env a s]
  by (simp add: convertIfxSimpleLO_def compatible_def conv_monad_defs)

lemma reject_CharacterString:
  assumes "0 \<le> a" "a < int (length (pgAttrDefs s))"
    and "0 \<le> PG_MAPPED_IFX_ATTNUM env a"
    and "PG_MAPPED_IFX_ATTNUM env a < int (length (ifxAttrDefs (stmt_info s)))"
    and "\<not> compatible ConvCharacterString src (atttypid (pgAttrDefs s ! nat a))"
  shows "convertIfxCharacterString env a s = (Inr DatumNull, marked_not_valid env a s)"
  using assms reject_conversion_marks [of env a s]
  by (simp add: convertIfxCharacterString_def compatible_def conv_monad_defs)

lemma reject_Boolean:
  assumes "0 \<le> a" "a < int (length (pgAttrDefs s))"
    and "s1 = s\<lparr>stmt_info := snd (ifxGetBool env (stmt_info s) a)\<rparr>"
    and "0 \<le> PG_MAPPED_IFX_ATTNUM env a"
    and "PG_MAPPED_IFX_ATTNUM env a < int (length (ifxAttrDefs (stmt_info s1)))"
    and "\<not> compatible ConvBoolean src (atttypid (pgAttrDefs s ! nat a))"
  shows "convertIfxBoolean env a s = (Inr DatumNull, marked_not_valid env a s1)"
  using assms reject_conversion_marks [of env a s1]
  by (simp add: convertIfxBoolean_def compatible_def conv_monad_defs case_prod_beta Let_def)

lemma compatible_ignores_source:
  "r \<noteq> ConvInt \<Longrightarrow> compatible r src tgt = compatible r src' tgt"
  by (cases r) (simp_all add: compatible_def)

lemma run_conversion_rejects:
  assumes "r \<noteq> ConvBoolean"
    and "0 \<le> a" and "a < int (length (pgAttrDefs s))"
    and "0 \<le> PG_MAPPED_IFX_ATTNUM env a"
    and "PG_MAPPED_IFX_ATTNUM env a < int (length (ifxAttrDefs (stmt_info s)))"
    and "\<not> compatible r
             (ifx_type (ifxAttrDefs (stmt_info s) ! nat (PG_MAPPED_IFX_ATTNUM env a)))
             (atttypid (pgAttrDefs s ! nat a))"
  shows "run_conversion r env a s = (Inr DatumNull, marked_not_valid env a s)"
proof (cases r)
  case ConvDateString
  with assms show ?thesis
    by (simp add: run_conversion_def reject_DateString)
next
  case ConvTimestampString
  with assms show ?thesis
    by (simp add: run_conversion_def reject_TimestampString)
next
  case ConvDecimal
  with assms show ?thesis
    by (simp add: run_conversion_def reject_Decimal)
next
  case ConvInt
  with assms show ?thesis
    by (simp add: run_conversion_def reject_Int)
next
  case ConvBoolean
  with assms show ?thesis
    by simp
next
  case ConvSimpleLO
  with assms show ?thesis
    by (simp add: run_conversion_def reject_SimpleLO)
next
  case ConvCharacterString
  with assms show ?thesis
    by (simp add: run_conversion_def reject_CharacterString)
qed

lemma marked_not_valid_frame:
  assumes "m = nat (PG_MAPPED_IFX_ATTNUM env a)"
    and "m < length (ifxAttrDefs (stmt_info s))"
  shows "indicator (ifxAttrDefs (stmt_info (marked_not_valid env a s)) ! m) = INDICATOR_NOT_VALID"
    and "ifx_type (ifxAttrDefs (stmt_info (marked_not_valid env a s)) ! m)
           = ifx_type (ifxAttrDefs (stmt_info s) ! m)"
    and "length (ifxAttrDefs (stmt_info (marked_not_valid env a s)))
           = length (ifxAttrDefs (stmt_info s))"
    and "\<forall>j. j \<noteq> m \<longrightarrow> ifxAttrDefs (stmt_info (marked_not_valid env a s)) ! j
                          = ifxAttrDefs (stmt_info s) ! j"
    and "pending_diag (stmt_info (marked_not_valid env a s)) = pending_diag (stmt_info s)"
    and "pgAttrDefs (marked_not_valid env a s) = pgAttrDefs s"
    and "ifx_values (marked_not_valid env a s) = ifx_values s"
    and "call_log (marked_not_valid env a s) = call_log s"
  using assms by (simp_all add: marked_not_valid_def Let_def)

text \<open>
  Six of the seven routines (date, timestamp, decimal, integer, simple large object,
  character string) look at the types before they call anything. When the source/target
  combination of the attribute is outside the routine's compatibility table, each returns
  the null datum and raises nothing; in the state it leaves, the indicator of the
  attribute's remote column is "not valid", every other remote column descriptor is as it
  was when the routine was entered, and so are the pending diagnostic state, the local
  descriptors, the value slots of the row and the error log.
\<close>

lemma sibling_routines_reject_in_place:
  assumes "r \<noteq> ConvBoolean"
    and "0 \<le> a" and "a < int (length (pgAttrDefs s))"
    and "m = nat (PG_MAPPED_IFX_ATTNUM env a)"
    and "0 \<le> PG_MAPPED_IFX_ATTNUM env a"
    and "m < length (ifxAttrDefs (stmt_info s))"
    and "\<not> compatible r (ifx_type (ifxAttrDefs (stmt_info s) ! m))
             (atttypid (pgAttrDefs s ! nat a))"
  shows "\<exists>s'. run_conversion r env a s = (Inr DatumNull, s') \<and>
           indicator (ifxAttrDefs (stmt_info s') ! m) = INDICATOR_NOT_VALID \<and>
           ifx_type (ifxAttrDefs (stmt_info s') ! m) = ifx_type (ifxAttrDefs (stmt_info s) ! m) \<and>
           length (ifxAttrDefs (stmt_info s')) = length (ifxAttrDefs (stmt_info s)) \<and>
           (\<forall>j. j \<noteq> m \<longrightarrow> ifxAttrDefs (stmt_info s') ! j = ifxAttrDefs (stmt_info s) ! j) \<and>
           pending_diag (stmt_info s') = pending_diag (stmt_info s) \<and>
           pgAttrDefs s' = pgAttrDefs s \<and>
           ifx_values s' = ifx_values s \<and>
           call_log s' = call_log s"
proof -
  have run: "run_conversion r env a s = (Inr DatumNull, marked_not_valid env a s)"
    using assms by (simp add: run_conversion_rejects)
  note frame = marked_not_valid_frame [OF assms(4) assms(6)]
  show ?thesis
    using run frame by simp
qed

lemma convertIfxInt_rejects_int2_from_INTEGER:
  "run_conversion ConvInt env_without_bpchar 0 two_column_state =
     (Inr DatumNull,
      two_column_state\<lparr>stmt_info :=
        \<lparr> ifxAttrDefs = [\<lparr> ifx_type = IFX_INTEGER, indicator = INDICATOR_NOT_VALID \<rparr>,
                         \<lparr> ifx_type = IFX_OTHER_TYPE 0, indicator = INDICATOR_NOT_NULL \<rparr>],
          pending_diag = True \<rparr>\<rparr>)"
  by (simp add: run_conversion_def convertIfxInt_def reject_conversion_def conv_monad_defs
        env_without_bpchar_def two_column_state_def type_oids)

text \<open>
  The boolean routine is written differently. Its first statement, among the
  initialisations, is \<^verbatim>\<open>val = ifxGetBool(&(state->stmt_info), attnum)\<close>: the remote
  value is fetched before the type switch that rejects unsupported targets, and at the
  local attribute number, not at \<^verbatim>\<open>PG_MAPPED_IFX_ATTNUM(state, attnum)\<close> where every
  sibling reads. A rejected conversion therefore leaves the state the reader left, with the
  attribute's remote column marked in it.
\<close>

lemma convertIfxBoolean_rejects_after_reading:
  assumes "0 \<le> a" and "a < int (length (pgAttrDefs s))"
    and "s1 = s\<lparr>stmt_info := snd (ifxGetBool env (stmt_info s) a)\<rparr>"
    and "0 \<le> PG_MAPPED_IFX_ATTNUM env a"
    and "PG_MAPPED_IFX_ATTNUM env a < int (length (ifxAttrDefs (stmt_info s1)))"
    and "atttypid (pgAttrDefs s ! nat a) \<notin> {BOOLOID, CHAROID, TEXTOID, VARCHAROID, BPCHAROID}"
  shows "run_conversion ConvBoolean env a s = (Inr DatumNull, marked_not_valid env a s1)"
  using assms reject_Boolean [of a s s1 env]
  by (simp add: run_conversion_def compatible_def)


section \<open>Conversion: rewind before every raise\<close>

lemma rewound_skip:
  "\<not> raise_event ev \<Longrightarrow> rewound_newest_first (ev # older) = rewound_newest_first older"
  by (cases older) auto

lemma order_append_quiet:
  "\<not> raise_event ev \<Longrightarrow> rewind_precedes_raise (evs @ [ev]) = rewind_precedes_raise evs"
  by (simp add: rewind_precedes_raise_def rewound_skip)

lemma order_append_rewound_raise:
  "raise_event ev \<Longrightarrow> rewind_precedes_raise (evs @ [EvRewind, ev]) = rewind_precedes_raise evs"
  by (simp add: rewind_precedes_raise_def rewound_skip)

lemma keeps_cret [intro!]: "keeps_order (cret x)"
  by (simp add: keeps_order_def cret_def)

lemma keeps_clift [intro!]: "keeps_order (clift r)"
  by (simp add: keeps_order_def clift_def)

lemma keeps_cbind [intro!]:
  "keeps_order m \<Longrightarrow> (\<And>x. keeps_order (f x)) \<Longrightarrow> keeps_order (cbind m f)"
  unfolding keeps_order_def cbind_def
  by (auto split: prod.splits sum.splits)

lemma keeps_remote_get [intro!]: "keeps_order (remote_get g pos)"
  by (simp add: keeps_order_def remote_get_def case_prod_beta)

lemma keeps_OidFunctionCall [intro!]: "keeps_order (OidFunctionCall env f args)"
  by (auto simp: keeps_order_def OidFunctionCall_def order_append_quiet split: sum.splits)

lemma keeps_macros [intro!]:
  "keeps_order (PG_ATTRDEF_P a)" "keeps_order (PG_ATTRTYPE_P a)"
  "keeps_order (PG_ATTRTYPEMOD_P a)" "keeps_order (IFX_ATTRDEF_P env a)"
  "keeps_order (IFX_ATTRTYPE_P env a)" "keeps_order (IFX_ATTR_ISNULL_P env a)"
  "keeps_order (IFX_ATTR_IS_VALID_P env a)" "keeps_order (IFX_ATTR_SETNOTVALID_P env a)"
  "keeps_order (IFX_SETVAL_P env a d)" "keeps_order (IFX_GETVAL_P env a)"
  by (auto simp: keeps_order_def cbind_def cret_def
        PG_ATTRDEF_P_def PG_ATTRTYPE_P_def PG_ATTRTYPEMOD_P_def
        IFX_ATTRDEF_P_def IFX_ATTRTYPE_P_def IFX_ATTR_ISNULL_P_def IFX_ATTR_IS_VALID_P_def
        IFX_ATTR_SETNOTVALID_P_def IFX_SETVAL_P_def IFX_GETVAL_P_def
        split: sum.splits prod.splits)

lemma keeps_rewind [intro!]: "keeps_order ifxRewindCallstack"
  by (simp add: keeps_order_def ifxRewindCallstack_def order_append_quiet)

lemma keeps_rewind_elog [intro!]:
  "keeps_order (cbind ifxRewindCallstack (\<lambda>_. elog_ERROR fmt args))"
  by (simp add: keeps_order_def cbind_def ifxRewindCallstack_def elog_ERROR_def
        order_append_rewound_raise)

lemma keeps_rewind_and_rethrow [intro!]: "keeps_order (rewind_and_rethrow e)"
  by (simp add: keeps_order_def rewind_and_rethrow_def cbind_def ifxRewindCallstack_def
        PG_RE_THROW_def order_append_rewound_raise)

lemma keeps_PG_TRY [intro!]:
  "keeps_order body \<Longrightarrow> (\<And>e. keeps_order (handler e)) \<Longrightarrow> keeps_order (PG_TRY body handler)"
  unfolding keeps_order_def PG_TRY_def
  by (auto split: prod.splits sum.splits pg_error.splits)

lemma keeps_if [intro!]:
  "(c \<Longrightarrow> keeps_order m1) \<Longrightarrow> (\<not> c \<Longrightarrow> keeps_order m2) \<Longrightarrow> keeps_order (if c then m1 else m2)"
  by simp

lemma keeps_case_option [intro!]:
  "keeps_order m1 \<Longrightarrow> (\<And>v. keeps_order (m2 v)) \<Longrightarrow>
     keeps_order (case x of None \<Rightarrow> m1 | Some v \<Rightarrow> m2 v)"
  by (cases x) simp_all

lemma keeps_case_prod [intro!]:
  "(\<And>a b. keeps_order (f a b)) \<Longrightarrow> keeps_order (case p of (a, b) \<Rightarrow> f a b)"
  by (cases p) simp

lemma keeps_lookups [intro!]:
  "keeps_order (getTypeInputFunction env t)"
  "keeps_order (getTypeOutputFunction env t)"
  "keeps_order (getTypeCastFunction env src tgt)"
  unfolding getTypeInputFunction_def getTypeOutputFunction_def getTypeCastFunction_def
  by (intro keeps_case_option keeps_rewind_elog keeps_cret)+

lemma keeps_reject [intro!]: "keeps_order (reject_conversion env a)"
  unfolding reject_conversion_def by (intro keeps_cbind keeps_macros keeps_cret)

lemma keeps_store_bytea [intro!]: "keeps_order (store_bytea env a val len)"
  unfolding store_bytea_def by (intro keeps_cbind keeps_macros keeps_clift)

lemma keeps_DateString: "keeps_order (convertIfxDateString env a)"
  unfolding convertIfxDateString_def Let_def by blast

lemma keeps_TimestampString: "keeps_order (convertIfxTimestampString env a)"
  unfolding convertIfxTimestampString_def Let_def by blast

lemma keeps_Decimal: "keeps_order (convertIfxDecimal env a)"
  unfolding convertIfxDecimal_def Let_def by blast

lemma keeps_Int_int8_text: "keeps_order (convertIfxInt_int8_text env a)"
  unfolding convertIfxInt_int8_text_def Let_def by blast

lemma keeps_Int: "keeps_order (convertIfxInt env a)"
  unfolding convertIfxInt_def Let_def using keeps_Int_int8_text by blast

lemma keeps_Boolean: "keeps_order (convertIfxBoolean env a)"
  unfolding convertIfxBoolean_def Let_def by blast

lemma keeps_SimpleLO: "keeps_order (convertIfxSimpleLO env a)"
  unfolding convertIfxSimpleLO_def Let_def by blast

lemma keeps_CharacterString: "keeps_order (convertIfxCharacterString env a)"
  unfolding convertIfxCharacterString_def Let_def by blast

lemma keeps_run_conversion: "keeps_order (run_conversion r env a)"
  by (cases r)
     (simp_all add: run_conversion_def keeps_DateString keeps_TimestampString keeps_Decimal
        keeps_Int keeps_Boolean keeps_SimpleLO keeps_CharacterString)

lemma getTypeInputFunction_fails:
  "type_tuple env t = None \<Longrightarrow>
     getTypeInputFunction env t s =
       (Inl (Elog ''cache lookup failed for input function for type %u'' [ArgNum (int t)]),
        s\<lparr>stmt_info := (stmt_info s)\<lparr>pending_diag := False\<rparr>,
          call_log := call_log s @
            [EvRewind,
             EvRaise (Elog ''cache lookup failed for input function for type %u''
                        [ArgNum (int t)])]\<rparr>)"
  by (simp add: getTypeInputFunction_def cbind_def ifxRewindCallstack_def elog_ERROR_def)

lemma getTypeOutputFunction_fails:
  "type_tuple env t = None \<Longrightarrow>
     getTypeOutputFunction env t s =
       (Inl (Elog ''cache lookup failed for output function for type %u'' [ArgNum (int t)]),
        s\<lparr>stmt_info := (stmt_info s)\<lparr>pending_diag := False\<rparr>,
          call_log := call_log s @
            [EvRewind,
             EvRaise (Elog ''cache lookup failed for output function for type %u''
                        [ArgNum (int t)])]\<rparr>)"
  by (simp add: getTypeOutputFunction_def cbind_def ifxRewindCallstack_def elog_ERROR_def)

lemma getTypeCastFunction_fails:
  "cast_tuple env src tgt = None \<Longrightarrow>
     getTypeCastFunction env src tgt s =
       (Inl (Elog ''cache lookup failed for cast from %u to %u''
               [ArgNum (int src), ArgNum (int tgt)]),
        s\<lparr>stmt_info := (stmt_info s)\<lparr>pending_diag := False\<rparr>,
          call_log := call_log s @
            [EvRewind,
             EvRaise (Elog ''cache lookup failed for cast from %u to %u''
                        [ArgNum (int src), ArgNum (int tgt)])]\<rparr>)"
  by (simp add: getTypeCastFunction_def cbind_def ifxRewindCallstack_def elog_ERROR_def)

lemma PG_TRY_rethrows_after_rewind:
  assumes "PG_TRY body rewind_and_rethrow s = (Inl e, s')" and "\<forall>k. e \<noteq> Crash k"
  shows "\<exists>s0. body s = (Inl e, s0) \<and>
           s' = s0\<lparr>stmt_info := (stmt_info s0)\<lparr>pending_diag := False\<rparr>,
                  call_log := call_log s0 @ [EvRewind, EvReThrow e]\<rparr>"
  using assms
  by (auto simp: PG_TRY_def rewind_and_rethrow_def cbind_def ifxRewindCallstack_def
        PG_RE_THROW_def split: prod.splits sum.splits pg_error.splits)

lemma convertIfxCharacterString_lookup_failure_is_not_fatal:
  assumes "0 \<le> a" and "a < int (length (pgAttrDefs s))"
    and "atttypid (pgAttrDefs s ! nat a) = BPCHAROID
         \<or> (atttypid (pgAttrDefs s ! nat a) = VARCHAROID \<and> atttypmod (pgAttrDefs s ! nat a) \<noteq> -1)"
    and "type_tuple env (atttypid (pgAttrDefs s ! nat a)) = None"
    and "ifxGetText env (stmt_info s) (PG_MAPPED_IFX_ATTNUM env a) = (val, si)"
    and "0 \<le> PG_MAPPED_IFX_ATTNUM env a"
    and "PG_MAPPED_IFX_ATTNUM env a < int (length (ifxAttrDefs si))"
    and "indicator (ifxAttrDefs si ! nat (PG_MAPPED_IFX_ATTNUM env a)) \<noteq> INDICATOR_NULL"
  shows "convertIfxCharacterString env a s =
           (Inr DatumNull, marked_not_valid env a (s\<lparr>stmt_info := si\<rparr>))"
  using assms reject_conversion_marks [of env a "s\<lparr>stmt_info := si\<rparr>"]
  by (auto simp: convertIfxCharacterString_def conv_monad_defs type_oids)

text \<open>
  \<^bold>\<open>C7.\<close> The claim: whenever a lookup of a required type input, output or cast function
  fails during marshaling, the pending remote diagnostic state is cleared first and only
  then the fatal error is raised; the same rewind precedes every re-throw of a caught
  error. The claim as stated fails in one routine. \<open>convertIfxCharacterString\<close> does not
  use \<open>getTypeInputFunction\<close>: it looks the type up itself, and when that lookup fails it
  marks the attribute "not valid" and returns the null datum; no error is raised and
  nothing is rewound. Evaluated for the \<open>bpchar\<close> column of \<open>two_column_state\<close> with a type
  cache that has no \<open>bpchar\<close>: the routine returns the null datum, the log stays empty and
  the diagnostic state stays pending.
\<close>

theorem convertIfxCharacterString_failed_lookup_raises_nothing:
  "type_tuple env_without_bpchar (atttypid (pgAttrDefs two_column_state ! 1)) = None
   \<and> convertIfxCharacterString env_without_bpchar 1 two_column_state =
       (Inr DatumNull,
        two_column_state\<lparr>stmt_info :=
          \<lparr> ifxAttrDefs = [\<lparr> ifx_type = IFX_INTEGER, indicator = INDICATOR_NOT_NULL \<rparr>,
                           \<lparr> ifx_type = IFX_OTHER_TYPE 0, indicator = INDICATOR_NOT_VALID \<rparr>],
            pending_diag = True \<rparr>\<rparr>)
   \<and> call_log (snd (convertIfxCharacterString env_without_bpchar 1 two_column_state)) = []"
  by (simp add: convertIfxCharacterString_def reject_conversion_def conv_monad_defs
        env_without_bpchar_def two_column_state_def type_oids)

text \<open>
  \<^bold>\<open>C7, as amended.\<close> Whenever a lookup through \<open>getTypeInputFunction\<close>,
  \<open>getTypeOutputFunction\<close> or \<open>getTypeCastFunction\<close> fails, the function first rewinds
  (the pending remote diagnostic state is cleared) and then raises the fatal error:
  the log grows by a rewind followed by the raise. Every \<^verbatim>\<open>PG_CATCH\<close> block of the
  conversion routines rewinds and then re-throws: a caught error leaves with the
  diagnostic state cleared and the log grown by a rewind followed by the re-throw. Hence
  in every conversion routine each error raised by the file and each re-throw comes
  directly after a rewind. The exception is the type lookup that
  \<open>convertIfxCharacterString\<close> makes itself (for a \<open>bpchar\<close> target, or a \<open>varchar\<close> target
  with a length): its failure is not fatal, the attribute is marked "not valid" and the
  null datum is returned.
\<close>

theorem lookup_helpers_and_catch_blocks_rewind_before_raising:
  "(type_tuple env t = None \<longrightarrow>
      getTypeInputFunction env t s =
        (Inl (Elog ''cache lookup failed for input function for type %u'' [ArgNum (int t)]),
         s\<lparr>stmt_info := (stmt_info s)\<lparr>pending_diag := False\<rparr>,
           call_log := call_log s @
             [EvRewind,
              EvRaise (Elog ''cache lookup failed for input function for type %u''
                         [ArgNum (int t)])]\<rparr>)
      \<and> getTypeOutputFunction env t s =
        (Inl (Elog ''cache lookup failed for output function for type %u'' [ArgNum (int t)]),
         s\<lparr>stmt_info := (stmt_info s)\<lparr>pending_diag := False\<rparr>,
           call_log := call_log s @
             [EvRewind,
              EvRaise (Elog ''cache lookup failed for output function for type %u''
                         [ArgNum (int t)])]\<rparr>))
   \<and> (cast_tuple env src tgt = None \<longrightarrow>
      getTypeCastFunction env src tgt s =
        (Inl (Elog ''cache lookup failed for cast from %u to %u''
                [ArgNum (int src), ArgNum (int tgt)]),
         s\<lparr>stmt_info := (stmt_info s)\<lparr>pending_diag := False\<rparr>,
           call_log := call_log s @
             [EvRewind,
              EvRaise (Elog ''cache lookup failed for cast from %u to %u''
                         [ArgNum (int src), ArgNum (int tgt)])]\<rparr>))
   \<and> (\<forall>e s'. PG_TRY body rewind_and_rethrow s = (Inl e, s') \<longrightarrow> (\<forall>k. e \<noteq> Crash k) \<longrightarrow>
        (\<exists>s0. body s = (Inl e, s0) \<and>
           s' = s0\<lparr>stmt_info := (stmt_info s0)\<lparr>pending_diag := False\<rparr>,
                  call_log := call_log s0 @ [EvRewind, EvReThrow e]\<rparr>))
   \<and> (rewind_precedes_raise (call_log s) \<longrightarrow>
        rewind_precedes_raise (call_log (snd (run_conversion r env a s))))
   \<and> (0 \<le> a \<longrightarrow> a < int (length (pgAttrDefs s)) \<longrightarrow>
      atttypid (pgAttrDefs s ! nat a) = BPCHAROID
        \<or> (atttypid (pgAttrDefs s ! nat a) = VARCHAROID
            \<and> atttypmod (pgAttrDefs s ! nat a) \<noteq> -1) \<longrightarrow>
      type_tuple env (atttypid (pgAttrDefs s ! nat a)) = None \<longrightarrow>
      ifxGetText env (stmt_info s) (PG_MAPPED_IFX_ATTNUM env a) = (val, si) \<longrightarrow>
      0 \<le> PG_MAPPED_IFX_ATTNUM env a \<longrightarrow>
      PG_MAPPED_IFX_ATTNUM env a < int (length (ifxAttrDefs si)) \<longrightarrow>
      indicator (ifxAttrDefs si ! nat (PG_MAPPED_IFX_ATTNUM env a)) \<noteq> INDICATOR_NULL \<longrightarrow>
      convertIfxCharacterString env a s =
        (Inr DatumNull, marked_not_valid env a (s\<lparr>stmt_info := si\<rparr>)))"
proof (intro conjI impI allI)
  assume "type_tuple env t = None"
  then show "getTypeInputFunction env t s =
        (Inl (Elog ''cache lookup failed for input function for type %u'' [ArgNum (int t)]),
         s\<lparr>stmt_info := (stmt_info s)\<lparr>pending_diag := False\<rparr>,
           call_log := call_log s @
             [EvRewind,
              EvRaise (Elog ''cache lookup failed for input function for type %u''
                         [ArgNum (int t)])]\<rparr>)"
    by (rule getTypeInputFunction_fails)
next
  assume "type_tuple env t = None"
  then show "getTypeOutputFunction env t s =
        (Inl (Elog ''cache lookup failed for output function for type %u'' [ArgNum (int t)]),
         s\<lparr>stmt_info := (stmt_info s)\<lparr>pending_diag := False\<rparr>,
           call_log := call_log s @
             [EvRewind,
              EvRaise (Elog ''cache lookup failed for output function for type %u''
                         [ArgNum (int t)])]\<rparr>)"
    by (rule getTypeOutputFunction_fails)
next
  assume "cast_tuple env src tgt = None"
  then show "getTypeCastFunction env src tgt s =
        (Inl (Elog ''cache lookup failed for cast from %u to %u''
                [ArgNum (int src), ArgNum (int tgt)]),
         s\<lparr>stmt_info := (stmt_info s)\<lparr>pending_diag := False\<rparr>,
           call_log := call_log s @
             [EvRewind,
              EvRaise (Elog ''cache lookup failed for cast from %u to %u''
                         [ArgNum (int src), ArgNum (int tgt)])]\<rparr>)"
    by (rule getTypeCastFunction_fails)
next
  fix e s'
  assume "PG_TRY body rewind_and_rethrow s = (Inl e, s')" and "\<forall>k. e \<noteq> Crash k"
  then show "\<exists>s0. body s = (Inl e, s0) \<and>
           s' = s0\<lparr>stmt_info := (stmt_info s0)\<lparr>pending_diag := False\<rparr>,
                  call_log := call_log s0 @ [EvRewind, EvReThrow e]\<rparr>"
    by (rule PG_TRY_rethrows_after_rewind)
next
  assume "rewind_precedes_raise (call_log s)"
  with keeps_run_conversion [of r env a]
  show "rewind_precedes_raise (call_log (snd (run_conversion r env a s)))"
    by (simp add: keeps_order_def)
next
  assume "0 \<le> a" and "a < int (length (pgAttrDefs s))"
    and "atttypid (pgAttrDefs s ! nat a) = BPCHAROID
         \<or> (atttypid (pgAttrDefs s ! nat a) = VARCHAROID \<and> atttypmod (pgAttrDefs s ! nat a) \<noteq> -1)"
    and "type_tuple env (atttypid (pgAttrDefs s ! nat a)) = None"
    and "ifxGetText env (stmt_info s) (PG_MAPPED_IFX_ATTNUM env a) = (val, si)"
    and "0 \<le> PG_MAPPED_IFX_ATTNUM env a"
    and "PG_MAPPED_IFX_ATTNUM env a < int (length (ifxAttrDefs si))"
    and "indicator (ifxAttrDefs si ! nat (PG_MAPPED_IFX_ATTNUM env a)) \<noteq> INDICATOR_NULL"
  then show "convertIfxCharacterString env a s =
        (Inr DatumNull, marked_not_valid env a (s\<lparr>stmt_info := si\<rparr>))"
    by (rule convertIfxCharacterString_lookup_failure_is_not_fatal)
qed

text \<open>
  The theorem at work, with the type cache that has no \<open>bpchar\<close>: the input lookup for
  \<open>bpchar\<close> rewinds and raises; the date routine asked for the \<open>bpchar\<close> column fails in
  that lookup inside its \<^verbatim>\<open>PG_TRY\<close> block, so its log reads rewind, raise, rewind,
  re-throw, and the diagnostic state is cleared when the error leaves.
\<close>

theorem lookup_helpers_and_catch_blocks_rewind_before_raising_witness:
  "getTypeInputFunction env_without_bpchar BPCHAROID two_column_state =
     (Inl (Elog ''cache lookup failed for input function for type %u'' [ArgNum 1042]),
      two_column_state\<lparr>stmt_info := (stmt_info two_column_state)\<lparr>pending_diag := False\<rparr>,
        call_log :=
          [EvRewind,
           EvRaise (Elog ''cache lookup failed for input function for type %u''
                      [ArgNum 1042])]\<rparr>)
   \<and> fst (run_conversion ConvDateString env_without_bpchar 1 two_column_state) =
       Inl (Elog ''cache lookup failed for input function for type %u'' [ArgNum 1042])
   \<and> call_log (snd (run_conversion ConvDateString env_without_bpchar 1 two_column_state)) =
       [EvRewind,
        EvRaise (Elog ''cache lookup failed for input function for type %u'' [ArgNum 1042]),
        EvRewind,
        EvReThrow (Elog ''cache lookup failed for input function for type %u'' [ArgNum 1042])]
   \<and> pending_diag (stmt_info
        (snd (run_conversion ConvDateString env_without_bpchar 1 two_column_state))) = False
   \<and> rewind_precedes_raise
        (call_log (snd (run_conversion ConvDateString env_without_bpchar 1 two_column_state)))"
proof -
  let ?env = env_without_bpchar and ?s = two_column_state
  have missing: "type_tuple ?env BPCHAROID = None"
    by (simp add: env_without_bpchar_def)
  have start: "rewind_precedes_raise (call_log ?s)"
    by (simp add: two_column_state_def rewind_precedes_raise_def)
  note inst = lookup_helpers_and_catch_blocks_rewind_before_raising
               [of ?env BPCHAROID ?s _ _ _ ConvDateString 1]
  from inst missing have lookup:
    "getTypeInputFunction ?env BPCHAROID ?s =
       (Inl (Elog ''cache lookup failed for input function for type %u''
               [ArgNum (int BPCHAROID)]),
        ?s\<lparr>stmt_info := (stmt_info ?s)\<lparr>pending_diag := False\<rparr>,
           call_log := call_log ?s @
             [EvRewind,
              EvRaise (Elog ''cache lookup failed for input function for type %u''
                         [ArgNum (int BPCHAROID)])]\<rparr>)"
    by blast
  from inst start have ordered:
    "rewind_precedes_raise (call_log (snd (run_conversion ConvDateString ?env 1 ?s)))"
    by blast
  have run: "run_conversion ConvDateString ?env 1 ?s =
      (Inl (Elog ''cache lookup failed for input function for type %u'' [ArgNum 1042]),
       ?s\<lparr>stmt_info := (stmt_info ?s)\<lparr>pending_diag := False\<rparr>,
          call_log :=
            [EvRewind,
             EvRaise (Elog ''cache lookup failed for input function for type %u''
                        [ArgNum 1042]),
             EvRewind,
             EvReThrow (Elog ''cache lookup failed for input function for type %u''
                          [ArgNum 1042])]\<rparr>)"
    by (simp add: run_conversion_def convertIfxDateString_def getTypeInputFunction_def
          PG_TRY_def rewind_and_rethrow_def PG_RE_THROW_def ifxRewindCallstack_def
          elog_ERROR_def conv_monad_defs env_without_bpchar_def two_column_state_def
          type_oids)
  from lookup have "getTypeInputFunction ?env BPCHAROID ?s =
     (Inl (Elog ''cache lookup failed for input function for type %u'' [ArgNum 1042]),
      ?s\<lparr>stmt_info := (stmt_info ?s)\<lparr>pending_diag := False\<rparr>,
         call_log :=
           [EvRewind,
            EvRaise (Elog ''cache lookup failed for input function for type %u''
                       [ArgNum 1042])]\<rparr>)"
    by (simp add: BPCHAROID_def two_column_state_def)
  with ordered run show ?thesis by simp
qed

end
